theory Spec2Isabelle
  imports Complex_Main "HOL-Library.Word" "HOL-Library.Multiset" "HOL-Library.Signed_Division"
begin

section \<open>Data model of SSCMA\_Micro\_Core.h\<close>

text \<open>
  Pointers are addresses, \<open>None\<close> being \<open>nullptr\<close>.  The C++ \<open>float\<close> is modelled by
  \<open>real\<close>: the code only copies and compares scores, NaN is left out.  The \<open>int\<close>
  fields are mathematical integers; no arithmetic of the code on them can overflow
  (\<open>size - top_k\<close> is computed only when \<open>top_k > 0\<close>).  Field names carry the struct as
  a prefix where two structs share a name or the name is a HOL constant.
\<close>

type_synonym addr = nat
type_synonym ptr = "addr option"

record InvokeConfig =
  top_k :: int
  score_threshold :: real
  nms_threshold :: real

record Config =
  model_id :: int
  algorithm_id :: int
  invoke_config :: ptr

record Box =
  box_x :: real
  box_y :: real
  box_w :: real
  box_h :: real
  box_score :: real
  box_target :: int

text \<open>The header declares \<open>target\<close> first and \<open>score\<close> second.\<close>

record Class =
  class_target :: int
  class_score :: real

record Point =
  point_x :: real
  point_y :: real
  point_z :: real
  point_score :: real
  point_target :: int

record Keypoints =
  kp_box :: Box
  kp_points :: "Point list"

record Perf =
  preprocess :: "32 word"
  inference :: "32 word"
  postprocess :: "32 word"

text \<open>
  The five enumerators of \<open>PixelFormat\<close>, and \<open>kOTHER\<close> for any other value an object of
  the enumeration can hold (a \<open>Frame\<close> left uninitialised, a cast): such a value is not
  \<open>kUNKNOWN\<close> and meets the \<open>default\<close> of the switch at line 308.
\<close>

datatype PixelFormat = kUNKNOWN | kRGB888 | kRGB565 | kGRAY8 | kJPEG | kOTHER nat

text \<open>
  \<open>struct timeval\<close>: \<open>time_t\<close> and \<open>suseconds_t\<close> are taken as signed 64-bit integers, as is
  the timestamp of the engine's image; the arithmetic on them wraps around.
\<close>

record timeval =
  tv_sec :: "64 word"
  tv_usec :: "64 word"

record Frame =
  format :: PixelFormat
  width :: "16 word"
  height :: "16 word"
  orientation :: "16 word"
  timestamp :: timeval
  frame_size :: "32 word"
  data :: ptr

record Expected =
  success :: bool
  message :: string

text \<open>A \<open>std::function\<close> is either empty (\<open>None\<close>) or holds a callable, named by a number.\<close>

type_synonym callback = "nat option"

section \<open>The external engine and camera driver, as far as the code uses them\<close>

text \<open>
  These types are declared by the inference engine and by the camera driver, outside
  the repository.  Their fields are the ones the code reads or writes by name; numeric
  fields whose width the repository does not fix are mathematical numbers.
\<close>

text \<open>
  A return code is \<open>MA_OK\<close> (\<open>ESP_OK\<close>) or another one, with its number.  The model type
  tags are the ones the code names; \<open>MA_MODEL_TYPE_OTHER\<close> stands for any further tag of
  the engine's enumeration.
\<close>

datatype ma_err_t = MA_OK | MA_ERR int
datatype esp_err_t = ESP_OK | ESP_ERR int

datatype ma_model_type_t =
    MA_MODEL_TYPE_UNDEFINED
  | MA_MODEL_TYPE_FOMO
  | MA_MODEL_TYPE_PFLD
  | MA_MODEL_TYPE_YOLOV5
  | MA_MODEL_TYPE_IMCLS
  | MA_MODEL_TYPE_YOLOV8_POSE
  | MA_MODEL_TYPE_YOLOV8
  | MA_MODEL_TYPE_NVIDIA_DET
  | MA_MODEL_TYPE_YOLO_WORLD
  | MA_MODEL_TYPE_OTHER nat

datatype ma_model_cfg_opt_t = MA_MODEL_CFG_OPT_THRESHOLD | MA_MODEL_CFG_OPT_NMS

datatype ma_pixel_format_t =
    MA_PIXEL_FORMAT_RGB888
  | MA_PIXEL_FORMAT_RGB565
  | MA_PIXEL_FORMAT_GRAYSCALE
  | MA_PIXEL_FORMAT_JPEG

datatype ma_pixel_rotate_t =
    MA_PIXEL_ROTATE_0
  | MA_PIXEL_ROTATE_90
  | MA_PIXEL_ROTATE_180
  | MA_PIXEL_ROTATE_270

record ma_img_t =
  img_width :: nat
  img_height :: nat
  img_format :: ma_pixel_format_t
  img_rotate :: ma_pixel_rotate_t
  img_timestamp :: "64 word"
  img_size :: nat
  img_data :: ptr

record ma_point_t =
  pt_x :: real
  pt_y :: real
  pt_score :: real
  pt_target :: int

record ma_class_t =
  cls_score :: real
  cls_target :: int

record ma_bbox_t =
  bbox_x :: real
  bbox_y :: real
  bbox_w :: real
  bbox_h :: real
  bbox_score :: real
  bbox_target :: int

record ma_pt3f_t =
  p3_x :: real
  p3_y :: real
  p3_z :: real

record ma_keypoint3f_t =
  k3_box :: ma_bbox_t
  k3_pts :: "ma_pt3f_t list"

record ma_perf_t =
  perf_preprocess :: int
  perf_inference :: int
  perf_postprocess :: int

record ma_model_t =
  m_id :: nat
  m_type :: ma_model_type_t
  m_name :: addr
  m_addr :: addr

text \<open>
  The object behind \<open>ma_model\<close>, as one call of \<open>invoke\<close> observes it: its type tag, the
  return code of \<open>run\<close> on an image, the result list \<open>getResults\<close> then gives (one
  accessor per model class) and the times of \<open>getPerf\<close>.
\<close>

record Model =
  getType :: ma_model_type_t
  run :: "ma_img_t \<Rightarrow> ma_err_t"
  getPointResults :: "ma_img_t \<Rightarrow> ma_point_t list"
  getClassResults :: "ma_img_t \<Rightarrow> ma_class_t list"
  getBoxResults :: "ma_img_t \<Rightarrow> ma_bbox_t list"
  getKeypointResults :: "ma_img_t \<Rightarrow> ma_keypoint3f_t list"
  getPerf :: ma_perf_t

datatype pixformat_t =
    PIXFORMAT_RGB888
  | PIXFORMAT_RGB565
  | PIXFORMAT_GRAYSCALE
  | PIXFORMAT_JPEG
  | PIXFORMAT_OTHER nat

record camera_fb_t =
  fb_buf :: ptr
  fb_len :: nat
  fb_width :: nat
  fb_height :: nat
  fb_format :: pixformat_t
  fb_timestamp :: timeval

record esp_partition_t =
  address :: nat
  part_size :: nat

text \<open>
  What the platform answers during one call of \<open>begin\<close>: the two build flags, the return
  codes of the engine and of the flash driver, the mapped flash (\<open>ma_ntohl_at a\<close> is
  \<open>ma_ntohl\<close> of the 32-bit word stored at address \<open>a\<close>), the numeric value of a model
  type tag, and the pointer \<open>ModelFactory::create\<close> returns for an algorithm id.
\<close>

record platform =
  MA_PORTING_ESPRESSIF_ESP32S3 :: bool
  MA_PORTING_ESPRESSIF_PARTITIONS :: bool
  engine_init :: ma_err_t
  esp_partition_find_first :: "esp_partition_t option"
  spi_flash_mmap :: "nat \<Rightarrow> nat \<Rightarrow> esp_err_t \<times> addr"
  ma_ntohl_at :: "addr \<Rightarrow> 32 word"
  model_type_value :: "ma_model_type_t \<Rightarrow> int"
  engine_load :: "addr \<Rightarrow> ma_err_t"
  ModelFactory_create :: "int \<Rightarrow> ptr"

section \<open>The state of the core and the calls it makes\<close>

text \<open>
  The members of the class (written without the leading underscore) and the file-level
  statics of SSCMA\_Micro\_Core.cpp.
\<close>

record core =
  initialized :: bool
  config :: Config
  boxes_callback :: callback
  classes_callback :: callback
  points_callback :: callback
  keypoints_callback :: callback
  perf_callback :: callback
  boxes :: "Box list"
  classes :: "Class list"
  points :: "Point list"
  keypoints :: "Keypoints list"
  perf :: Perf
  ma_static_tensor_arena :: bool
  ma_engine :: bool
  ma_model :: ptr
  models :: "ma_model_t list"

text \<open>
  Every call into the engine, the flash driver or a user callback, in program order.  A
  callback is named with the arguments it receives; it is taken not to call back into
  the instance.
\<close>

datatype event =
    EngineInit
  | SpiFlashMmap nat nat
  | EngineLoad addr
  | ModelCreate int
  | SetConfig ma_model_cfg_opt_t real
  | Run ma_img_t
  | PointsCallback nat "Point list" ptr
  | ClassesCallback nat "Class list" ptr
  | BoxesCallback nat "Box list" ptr
  | KeypointsCallback nat "Keypoints list" ptr
  | PerfCallback nat Perf ptr

definition failed :: "string \<Rightarrow> Expected" where
  "failed msg = \<lparr>success = False, message = msg\<rparr>"

definition succeeded :: Expected where
  "succeeded = \<lparr>success = True, message = []\<rparr>"

section \<open>Library functions of C++ the code calls\<close>

text \<open>\<open>std::to_string\<close> of an \<open>int\<close>: decimal digits, a minus sign for a negative value.\<close>

definition digit_char :: "nat \<Rightarrow> char" where
  "digit_char d = char_of (48 + d)"

function string_of_nat :: "nat \<Rightarrow> string" where
  "string_of_nat n =
     (if n < 10 then [digit_char n] else string_of_nat (n div 10) @ [digit_char (n mod 10)])"
  by pat_completeness auto
termination
  by (relation "measure (\<lambda>n. n)") auto

declare string_of_nat.simps [simp del]

definition to_string :: "int \<Rightarrow> string" where
  "to_string i = (if i < 0 then CHR ''-'' # string_of_nat (nat (- i)) else string_of_nat (nat i))"

text \<open>
  Sorting by a comparison \<open>lt\<close> (``goes before''): an element is put in front of the first
  element that does not go before it, so equivalent elements keep their order, as
  \<open>std::forward_list::sort\<close> guarantees.  \<open>std::sort\<close> leaves the order of equivalent
  elements open; the same function stands for it, and the theorems below use only that
  its result is a permutation ordered by \<open>lt\<close>.
\<close>

fun insert_sorted :: "('a \<Rightarrow> 'a \<Rightarrow> bool) \<Rightarrow> 'a \<Rightarrow> 'a list \<Rightarrow> 'a list" where
  "insert_sorted lt a [] = [a]"
| "insert_sorted lt a (b # bs) = (if lt b a then b # insert_sorted lt a bs else a # b # bs)"

definition sort_by :: "('a \<Rightarrow> 'a \<Rightarrow> bool) \<Rightarrow> 'a list \<Rightarrow> 'a list" where
  "sort_by lt xs = foldr (insert_sorted lt) xs []"

text \<open>\<open>while (items_to_remove-- > 0) results.pop_front();\<close>\<close>

function pop_front_loop :: "int \<Rightarrow> 'a list \<Rightarrow> 'a list" where
  "pop_front_loop items_to_remove results =
     (if items_to_remove > 0 then pop_front_loop (items_to_remove - 1) (tl results) else results)"
  by pat_completeness auto
termination
  by (relation "measure (\<lambda>(n, rs). nat n)") auto

declare pop_front_loop.simps [simp del]

text \<open>
  Conversions of C++ between \<open>float\<close> and \<open>int\<close>: towards zero in one direction, the value
  itself in the other.
\<close>

text \<open>The division of C++ on signed machine integers: towards zero.\<close>

definition signed_div :: "'a::len word \<Rightarrow> 'a word \<Rightarrow> 'a word" where
  "signed_div a b = word_of_int (sint a sdiv sint b)"

definition float_to_int :: "real \<Rightarrow> int" where
  "float_to_int r = (if 0 \<le> r then \<lfloor>r\<rfloor> else \<lceil>r\<rceil>)"

definition int_to_float :: "int \<Rightarrow> real" where
  "int_to_float i = of_int i"

section \<open>Frame::fromCameraFrame\<close>

text \<open>
  \<open>uninit\<close> is the content of the local \<open>Frame f\<close> before any assignment, which the early
  return hands back untouched.  The driver's \<open>width\<close>, \<open>height\<close> and \<open>len\<close> are assigned to
  the 16-bit and 32-bit fields of the frame: the conversion of C++, modulo the width.
\<close>

definition fromCameraFrame :: "Frame \<Rightarrow> camera_fb_t option \<Rightarrow> Frame" where
  "fromCameraFrame uninit frame =
     (case frame of
        None \<Rightarrow> uninit
      | Some fb \<Rightarrow>
          if fb_buf fb = None then uninit
          else
            \<lparr>format =
               (case fb_format fb of
                  PIXFORMAT_RGB888 \<Rightarrow> kRGB888
                | PIXFORMAT_RGB565 \<Rightarrow> kRGB565
                | PIXFORMAT_GRAYSCALE \<Rightarrow> kGRAY8
                | PIXFORMAT_JPEG \<Rightarrow> kJPEG
                | PIXFORMAT_OTHER _ \<Rightarrow> kUNKNOWN),
             width = of_nat (fb_width fb),
             height = of_nat (fb_height fb),
             orientation = 0,
             timestamp = fb_timestamp fb,
             frame_size = of_nat (fb_len fb),
             data = fb_buf fb\<rparr>)"

section \<open>SSCMAMicroCore::invoke\<close>

text \<open>
  Lines 292 to 330: the image handed to the engine.  \<open>None\<close> is the \<open>default\<close> case of the
  switch on the format, which returns ``Invalid frame format'': a format that is none of
  the five enumerators gets there, past the five checks.  The timestamp is computed in
  64 bits, the division of the microseconds towards zero.
\<close>

definition frame_to_img :: "Frame \<Rightarrow> ma_img_t option" where
  "frame_to_img frame =
     (case (case format frame of
              kRGB888 \<Rightarrow> Some MA_PIXEL_FORMAT_RGB888
            | kRGB565 \<Rightarrow> Some MA_PIXEL_FORMAT_RGB565
            | kGRAY8 \<Rightarrow> Some MA_PIXEL_FORMAT_GRAYSCALE
            | kJPEG \<Rightarrow> Some MA_PIXEL_FORMAT_JPEG
            | kUNKNOWN \<Rightarrow> None
            | kOTHER v \<Rightarrow> None) of
        None \<Rightarrow> None
      | Some fmt \<Rightarrow>
          Some \<lparr>img_width = unat (width frame),
                img_height = unat (height frame),
                img_format = fmt,
                img_rotate =
                  (if orientation frame = 0 then MA_PIXEL_ROTATE_0
                   else if orientation frame = 90 then MA_PIXEL_ROTATE_90
                   else if orientation frame = 180 then MA_PIXEL_ROTATE_180
                   else if orientation frame = 270 then MA_PIXEL_ROTATE_270
                   else MA_PIXEL_ROTATE_0),
                img_timestamp =
                  tv_sec (timestamp frame) * 1000 + signed_div (tv_usec (timestamp frame)) 1000,
                img_size = unat (frame_size frame),
                img_data = data frame\<rparr>)"

text \<open>
  Lines 332 to 336.  \<open>mem\<close> is the memory the \<open>InvokeConfig\<close> pointers point into, as it is
  during the call.
\<close>

definition apply_invoke_config ::
  "core \<Rightarrow> ptr \<Rightarrow> (addr \<Rightarrow> InvokeConfig) \<Rightarrow> core \<times> event list" where
  "apply_invoke_config st cfg mem =
     (case cfg of
        None \<Rightarrow> (st, [])
      | Some p \<Rightarrow>
          (st\<lparr>config := (config st)\<lparr>invoke_config := Some p\<rparr>\<rparr>,
           [SetConfig MA_MODEL_CFG_OPT_THRESHOLD (score_threshold (mem p)),
            SetConfig MA_MODEL_CFG_OPT_NMS (nms_threshold (mem p))]))"

text \<open>\<open>_config.invoke_config && _config.invoke_config->top_k > 0\<close>\<close>

definition top_k_active :: "core \<Rightarrow> (addr \<Rightarrow> InvokeConfig) \<Rightarrow> bool" where
  "top_k_active st mem =
     (case invoke_config (config st) of None \<Rightarrow> False | Some p \<Rightarrow> top_k (mem p) > 0)"

definition stored_top_k :: "core \<Rightarrow> (addr \<Rightarrow> InvokeConfig) \<Rightarrow> int" where
  "stored_top_k st mem = (case invoke_config (config st) of None \<Rightarrow> 0 | Some p \<Rightarrow> top_k (mem p))"

text \<open>
  The truncation of a \<open>std::vector\<close> (points, keypoints): \<open>std::sort\<close> by descending score,
  then \<open>resize\<close> to \<open>min(size, top_k)\<close>.
\<close>

definition sort_resize :: "('a \<Rightarrow> real) \<Rightarrow> int \<Rightarrow> 'a list \<Rightarrow> 'a list" where
  "sort_resize sc k results =
     (let results = sort_by (\<lambda>a b. sc a > sc b) results
      in take (min (length results) (nat k)) results)"

text \<open>
  The truncation of a \<open>std::forward_list\<close> (classes, boxes): when there are more than
  \<open>top_k\<close> elements, sort by ascending score and pop the surplus off the front.  No
  \<open>pop_front\<close> meets an empty list, the loop runs fewer times than the list is long.
\<close>

definition sort_pop_front :: "('a \<Rightarrow> real) \<Rightarrow> int \<Rightarrow> 'a list \<Rightarrow> 'a list" where
  "sort_pop_front sc k results =
     (let items_to_remove = int (length results) - k
      in if items_to_remove > 0
         then pop_front_loop items_to_remove (sort_by (\<lambda>a b. sc a < sc b) results)
         else results)"

definition to_Point :: "ma_point_t \<Rightarrow> Point" where
  "to_Point r =
     \<lparr>point_x = pt_x r, point_y = pt_y r, point_z = 0, point_score = pt_score r,
      point_target = pt_target r\<rparr>"

text \<open>
  \<open>classes.push_back({result.score, result.target})\<close>: the two initialisers fill the
  members of \<open>Class\<close> in the order of their declaration, \<open>target\<close> then \<open>score\<close>, each
  converted to the member's type.
\<close>

definition to_Class :: "ma_class_t \<Rightarrow> Class" where
  "to_Class r =
     \<lparr>class_target = float_to_int (cls_score r), class_score = int_to_float (cls_target r)\<rparr>"

definition to_Box :: "ma_bbox_t \<Rightarrow> Box" where
  "to_Box r =
     \<lparr>box_x = bbox_x r, box_y = bbox_y r, box_w = bbox_w r, box_h = bbox_h r,
      box_score = bbox_score r, box_target = bbox_target r\<rparr>"

text \<open>The inner loop over \<open>result.pts\<close>, \<open>i\<close> counting from the value given.\<close>

fun to_kp_points :: "nat \<Rightarrow> ma_pt3f_t list \<Rightarrow> Point list" where
  "to_kp_points i [] = []"
| "to_kp_points i (p # ps) =
     \<lparr>point_x = p3_x p, point_y = p3_y p, point_z = p3_z p, point_score = 0,
      point_target = int i\<rparr> # to_kp_points (Suc i) ps"

definition to_Keypoints :: "ma_keypoint3f_t \<Rightarrow> Keypoints" where
  "to_Keypoints r =
     \<lparr>kp_box = to_Box (k3_box r), kp_points = to_kp_points 0 (k3_pts r)\<rparr>"

definition run_failed :: "int \<Rightarrow> string" where
  "run_failed ret = ''Failed to run model: '' @ to_string ret"

text \<open>
  The four cases of the switch on \<open>ma_model->getType()\<close> that extract results.  \<open>Inl\<close> is
  the early return with its message; \<open>Inr\<close> is the state on reaching the end of the
  case.  The events are the calls made, in order.
\<close>

definition invoke_points ::
  "core \<Rightarrow> ma_img_t \<Rightarrow> ptr \<Rightarrow> (addr \<Rightarrow> InvokeConfig) \<Rightarrow> Model \<Rightarrow> (string + core) \<times> event list" where
  "invoke_points st img user_context mem mdl =
     (case run mdl img of
        MA_ERR ret \<Rightarrow> (Inl (run_failed ret), [Run img])
      | MA_OK \<Rightarrow>
          let results = getPointResults mdl img;
              results = (if top_k_active st mem
                         then sort_resize pt_score (stored_top_k st mem) results else results);
              pts = map to_Point results
          in (Inr (st\<lparr>points := pts\<rparr>),
              Run img # (case points_callback st of
                           None \<Rightarrow> [] | Some f \<Rightarrow> [PointsCallback f pts user_context])))"

definition invoke_classes ::
  "core \<Rightarrow> ma_img_t \<Rightarrow> ptr \<Rightarrow> (addr \<Rightarrow> InvokeConfig) \<Rightarrow> Model \<Rightarrow> (string + core) \<times> event list" where
  "invoke_classes st img user_context mem mdl =
     (case run mdl img of
        MA_ERR ret \<Rightarrow> (Inl (run_failed ret), [Run img])
      | MA_OK \<Rightarrow>
          let results = getClassResults mdl img;
              results = (if top_k_active st mem
                         then sort_pop_front cls_score (stored_top_k st mem) results else results);
              cs = map to_Class results
          in (Inr (st\<lparr>classes := cs\<rparr>),
              Run img # (case classes_callback st of
                           None \<Rightarrow> [] | Some f \<Rightarrow> [ClassesCallback f cs user_context])))"

definition invoke_boxes ::
  "core \<Rightarrow> ma_img_t \<Rightarrow> ptr \<Rightarrow> (addr \<Rightarrow> InvokeConfig) \<Rightarrow> Model \<Rightarrow> (string + core) \<times> event list" where
  "invoke_boxes st img user_context mem mdl =
     (case run mdl img of
        MA_ERR ret \<Rightarrow> (Inl (run_failed ret), [Run img])
      | MA_OK \<Rightarrow>
          let results = getBoxResults mdl img;
              results = (if top_k_active st mem
                         then sort_pop_front bbox_score (stored_top_k st mem) results else results);
              bs = map to_Box results
          in (Inr (st\<lparr>boxes := bs\<rparr>),
              Run img # (case boxes_callback st of
                           None \<Rightarrow> [] | Some f \<Rightarrow> [BoxesCallback f bs user_context])))"

definition invoke_keypoints ::
  "core \<Rightarrow> ma_img_t \<Rightarrow> ptr \<Rightarrow> (addr \<Rightarrow> InvokeConfig) \<Rightarrow> Model \<Rightarrow> (string + core) \<times> event list" where
  "invoke_keypoints st img user_context mem mdl =
     (case run mdl img of
        MA_ERR ret \<Rightarrow> (Inl (run_failed ret), [Run img])
      | MA_OK \<Rightarrow>
          let results = getKeypointResults mdl img;
              results = (if top_k_active st mem
                         then sort_resize (\<lambda>r. bbox_score (k3_box r)) (stored_top_k st mem) results
                         else results);
              ks = map to_Keypoints results
          in (Inr (st\<lparr>keypoints := ks\<rparr>),
              Run img # (case keypoints_callback st of
                           None \<Rightarrow> [] | Some f \<Rightarrow> [KeypointsCallback f ks user_context])))"

text \<open>Lines 338 to 479: the switch; the last line is its \<open>default\<close>.\<close>

fun invoke_switch ::
  "ma_model_type_t \<Rightarrow> core \<Rightarrow> ma_img_t \<Rightarrow> ptr \<Rightarrow> (addr \<Rightarrow> InvokeConfig) \<Rightarrow> Model \<Rightarrow>
     (string + core) \<times> event list" where
  "invoke_switch MA_MODEL_TYPE_PFLD st img uc mem mdl = invoke_points st img uc mem mdl"
| "invoke_switch MA_MODEL_TYPE_IMCLS st img uc mem mdl = invoke_classes st img uc mem mdl"
| "invoke_switch MA_MODEL_TYPE_FOMO st img uc mem mdl = invoke_boxes st img uc mem mdl"
| "invoke_switch MA_MODEL_TYPE_YOLOV5 st img uc mem mdl = invoke_boxes st img uc mem mdl"
| "invoke_switch MA_MODEL_TYPE_YOLOV8 st img uc mem mdl = invoke_boxes st img uc mem mdl"
| "invoke_switch MA_MODEL_TYPE_NVIDIA_DET st img uc mem mdl = invoke_boxes st img uc mem mdl"
| "invoke_switch MA_MODEL_TYPE_YOLO_WORLD st img uc mem mdl = invoke_boxes st img uc mem mdl"
| "invoke_switch MA_MODEL_TYPE_YOLOV8_POSE st img uc mem mdl = invoke_keypoints st img uc mem mdl"
| "invoke_switch t st img uc mem mdl = (Inr st, [])"

text \<open>Lines 481 to 489.\<close>

definition to_Perf :: "ma_perf_t \<Rightarrow> Perf" where
  "to_Perf perf_log =
     \<lparr>preprocess = word_of_int (perf_preprocess perf_log),
      inference = word_of_int (perf_inference perf_log),
      postprocess = word_of_int (perf_postprocess perf_log)\<rparr>"

definition invoke_perf :: "core \<Rightarrow> ptr \<Rightarrow> Model \<Rightarrow> core \<times> event list" where
  "invoke_perf st user_context mdl =
     (let p = to_Perf (getPerf mdl)
      in (st\<lparr>perf := p\<rparr>,
          (case perf_callback st of None \<Rightarrow> [] | Some f \<Rightarrow> [PerfCallback f p user_context])))"

text \<open>
  Lines 332 to 491: what \<open>invoke\<close> does with the converted image.  \<open>mdl\<close> is the object
  \<open>ma_model\<close> points to; \<open>begin\<close> sets \<open>_initialized\<close> only after it has found that pointer
  non-null.  The result is the \<open>Expected\<close> returned, the state after the call and the
  calls made.
\<close>

definition invoke_run ::
  "core \<Rightarrow> ma_img_t \<Rightarrow> ptr \<Rightarrow> ptr \<Rightarrow> (addr \<Rightarrow> InvokeConfig) \<Rightarrow> Model \<Rightarrow>
     Expected \<times> core \<times> event list" where
  "invoke_run st img cfg user_context mem mdl =
     (case apply_invoke_config st cfg mem of
        (st1, ev1) \<Rightarrow>
          (case invoke_switch (getType mdl) st1 img user_context mem mdl of
             (Inl msg, ev2) \<Rightarrow> (failed msg, st1, ev1 @ ev2)
           | (Inr st2, ev2) \<Rightarrow>
               (case invoke_perf st2 user_context mdl of
                  (st3, ev3) \<Rightarrow> (succeeded, st3, ev1 @ ev2 @ ev3))))"

text \<open>\<open>invoke(frame, config, user_context)\<close>: the five checks, the conversion, the rest.\<close>

definition invoke ::
  "core \<Rightarrow> Frame \<Rightarrow> ptr \<Rightarrow> ptr \<Rightarrow> (addr \<Rightarrow> InvokeConfig) \<Rightarrow> Model \<Rightarrow>
     Expected \<times> core \<times> event list" where
  "invoke st frame cfg user_context mem mdl =
     (if \<not> initialized st then (failed ''Not initialized'', st, [])
      else if format frame = kUNKNOWN then (failed ''Invalid frame format'', st, [])
      else if width frame = 0 \<or> height frame = 0 then (failed ''Invalid frame dimensions'', st, [])
      else if frame_size frame = 0 then (failed ''Invalid frame size'', st, [])
      else if data frame = None then (failed ''Invalid frame data'', st, [])
      else
        case frame_to_img frame of
          None \<Rightarrow> (failed ''Invalid frame format'', st, [])
        | Some img \<Rightarrow> invoke_run st img cfg user_context mem mdl)"

text \<open>The overload taking \<open>std::shared_ptr<Frame>\<close>.\<close>

definition invoke_managed ::
  "core \<Rightarrow> Frame option \<Rightarrow> ptr \<Rightarrow> ptr \<Rightarrow> (addr \<Rightarrow> InvokeConfig) \<Rightarrow> Model \<Rightarrow>
     Expected \<times> core \<times> event list" where
  "invoke_managed st frame cfg user_context mem mdl =
     (case frame of
        None \<Rightarrow> (failed ''Managed frame is null'', st, [])
      | Some f \<Rightarrow> invoke st f cfg user_context mem mdl)"

section \<open>Callback registration\<close>

definition registerBoxesCallback :: "callback \<Rightarrow> core \<Rightarrow> core" where
  "registerBoxesCallback cb st = st\<lparr>boxes_callback := cb\<rparr>"

definition registerClassesCallback :: "callback \<Rightarrow> core \<Rightarrow> core" where
  "registerClassesCallback cb st = st\<lparr>classes_callback := cb\<rparr>"

definition registerPointsCallback :: "callback \<Rightarrow> core \<Rightarrow> core" where
  "registerPointsCallback cb st = st\<lparr>points_callback := cb\<rparr>"

definition registerKeypointsCallback :: "callback \<Rightarrow> core \<Rightarrow> core" where
  "registerKeypointsCallback cb st = st\<lparr>keypoints_callback := cb\<rparr>"

definition registerPerfCallback :: "callback \<Rightarrow> core \<Rightarrow> core" where
  "registerPerfCallback cb st = st\<lparr>perf_callback := cb\<rparr>"

section \<open>SSCMAMicroCore::begin\<close>

definition DefaultConfig :: Config where
  "DefaultConfig = \<lparr>model_id = 0, algorithm_id = 0, invoke_config = None\<rparr>"

text \<open>
  The loop over the mapped partition in steps of 4096 bytes: a block whose second 32-bit
  word is \<open>TFL3\<close> is appended to the static vector \<open>models\<close> with the next id, the type
  \<open>MA_MODEL_TYPE_UNDEFINED\<close>, the name \<open>mmap\<close> and its own address.  Its \<open>size\<close> member is
  never assigned, so it is no field here.
\<close>

function scan_models ::
  "platform \<Rightarrow> addr \<Rightarrow> nat \<Rightarrow> nat \<Rightarrow> nat \<Rightarrow> ma_model_t list \<Rightarrow> ma_model_t list" where
  "scan_models pf mmap sz i ident ms =
     (if i < sz
      then (if ma_ntohl_at pf (mmap + i + 4) \<noteq> 0x54464C33
            then scan_models pf mmap sz (i + 4096) ident ms
            else scan_models pf mmap sz (i + 4096) (ident + 1)
                   (ms @ [\<lparr>m_id = ident + 1, m_type = MA_MODEL_TYPE_UNDEFINED,
                           m_name = mmap, m_addr = mmap + i\<rparr>]))
      else ms)"
  by pat_completeness auto
termination
  by (relation "measure (\<lambda>(pf, mmap, sz, i, ident, ms). sz - i)") auto

declare scan_models.simps [simp del]

text \<open>
  Line 242: \<open>find_if\<close> over \<open>models\<close> when \<open>config.model_id >= 0\<close>, \<open>models.begin()\<close>
  otherwise; \<open>None\<close> is \<open>models.end()\<close>.
\<close>

definition select_model :: "platform \<Rightarrow> Config \<Rightarrow> ma_model_t list \<Rightarrow> ma_model_t option" where
  "select_model pf cfg ms =
     (if model_id cfg \<ge> 0
      then find (\<lambda>m. model_type_value pf (m_type m) = model_id cfg) ms
      else (case ms of [] \<Rightarrow> None | m # _ \<Rightarrow> Some m))"

text \<open>
  Lines 256 to 270.  The id handed to \<open>ModelFactory::create\<close> is read from the member
  \<open>_config\<close>, the argument \<open>cfg\<close> is stored afterwards.
\<close>

definition begin_create ::
  "core \<Rightarrow> Config \<Rightarrow> (addr \<Rightarrow> InvokeConfig) \<Rightarrow> platform \<Rightarrow> Expected \<times> core \<times> event list" where
  "begin_create st cfg mem pf =
     (let ident = (if model_id (config st) \<ge> 0 then model_id (config st) else 0);
          st1 = st\<lparr>ma_model := ModelFactory_create pf ident\<rparr>
      in case ma_model st1 of
           None \<Rightarrow> (failed ''Failed to create algorithm'', st1, [ModelCreate ident])
         | Some _ \<Rightarrow>
             (succeeded,
              st1\<lparr>config := cfg, initialized := True\<rparr>,
              ModelCreate ident #
                (case invoke_config cfg of
                   None \<Rightarrow> []
                 | Some p \<Rightarrow>
                     [SetConfig MA_MODEL_CFG_OPT_THRESHOLD (score_threshold (mem p)),
                      SetConfig MA_MODEL_CFG_OPT_NMS (nms_threshold (mem p))])))"

text \<open>Lines 204 to 254, the part compiled for the ESP32-S3.\<close>

definition begin_load ::
  "core \<Rightarrow> Config \<Rightarrow> (addr \<Rightarrow> InvokeConfig) \<Rightarrow> platform \<Rightarrow> Expected \<times> core \<times> event list" where
  "begin_load st cfg mem pf =
     (case (if MA_PORTING_ESPRESSIF_PARTITIONS pf then esp_partition_find_first pf
            else Some \<lparr>address = 0x400000, part_size = 4096 * 1024\<rparr>) of
        None \<Rightarrow> (failed ''No models partition found'', st, [])
      | Some part \<Rightarrow>
          (case spi_flash_mmap pf (address part) (part_size part) of
             (ESP_ERR _, _) \<Rightarrow>
               (failed ''Failed to map models'', st,
                [SpiFlashMmap (address part) (part_size part)])
           | (ESP_OK, mmap) \<Rightarrow>
               let st1 = st\<lparr>models := scan_models pf mmap (part_size part) 0 0 (models st)\<rparr>
               in (case select_model pf cfg (models st1) of
                     None \<Rightarrow>
                       (failed ''Model not found'', st1,
                        [SpiFlashMmap (address part) (part_size part)])
                   | Some it \<Rightarrow>
                       (case engine_load pf (m_addr it) of
                          MA_ERR _ \<Rightarrow>
                            (failed ''Failed to load model'', st1,
                             [SpiFlashMmap (address part) (part_size part),
                              EngineLoad (m_addr it)])
                        | MA_OK \<Rightarrow>
                            (case begin_create st1 cfg mem pf of
                               (r, st2, ev) \<Rightarrow>
                                 (r, st2,
                                  [SpiFlashMmap (address part) (part_size part),
                                   EngineLoad (m_addr it)] @ ev))))))"

text \<open>\<open>SSCMAMicroCore::begin(config)\<close>; the name \<open>begin\<close> is a keyword of Isabelle.\<close>

definition core_begin ::
  "core \<Rightarrow> Config \<Rightarrow> (addr \<Rightarrow> InvokeConfig) \<Rightarrow> platform \<Rightarrow> Expected \<times> core \<times> event list" where
  "core_begin st cfg mem pf =
     (if initialized st then (failed ''Already initialized'', st, [])
      else
        let st0 = st\<lparr>ma_static_tensor_arena := True\<rparr>
        in case engine_init pf of
             MA_ERR _ \<Rightarrow> (failed ''Engine init failed'', st0, [EngineInit])
           | MA_OK \<Rightarrow>
               let st1 = st0\<lparr>ma_engine := True\<rparr>
               in if \<not> MA_PORTING_ESPRESSIF_ESP32S3 pf
                  then (failed ''Unsupported platform'', st1, [EngineInit])
                  else (case begin_load st1 cfg mem pf of
                          (r, st2, ev) \<Rightarrow> (r, st2, EngineInit # ev)))"

text \<open>
  A run of calls on one instance: each \<open>begin\<close> with its argument and what the platform
  answers, each \<open>invoke\<close> with its arguments and the model it meets.  The result is the
  final state and all calls made.
\<close>

datatype call =
    Begin Config platform
  | Invoke Frame ptr ptr Model

fun run_calls :: "(addr \<Rightarrow> InvokeConfig) \<Rightarrow> core \<Rightarrow> call list \<Rightarrow> core \<times> event list" where
  "run_calls mem st [] = (st, [])"
| "run_calls mem st (Begin cfg pf # cs) =
     (case core_begin st cfg mem pf of
        (r, st1, ev) \<Rightarrow> (case run_calls mem st1 cs of (st2, ev2) \<Rightarrow> (st2, ev @ ev2)))"
| "run_calls mem st (Invoke frame cfg uc mdl # cs) =
     (case invoke st frame cfg uc mem mdl of
        (r, st1, ev) \<Rightarrow> (case run_calls mem st1 cs of (st2, ev2) \<Rightarrow> (st2, ev @ ev2)))"

section \<open>Notions the properties are stated with\<close>

text \<open>The five checks at the head of \<open>invoke\<close> all pass.\<close>

definition passes_checks :: "core \<Rightarrow> Frame \<Rightarrow> bool" where
  "passes_checks st frame \<longleftrightarrow>
     initialized st \<and> format frame \<noteq> kUNKNOWN \<and> width frame \<noteq> 0 \<and> height frame \<noteq> 0 \<and>
     frame_size frame \<noteq> 0 \<and> data frame \<noteq> None"

text \<open>
  The frame has one of the four formats the engine takes, and the call gets past every
  early return ahead of line 332: the five checks and the switch on the format.
\<close>

definition known_format :: "Frame \<Rightarrow> bool" where
  "known_format frame \<longleftrightarrow> format frame \<in> {kRGB888, kRGB565, kGRAY8, kJPEG}"

definition accepted :: "core \<Rightarrow> Frame \<Rightarrow> bool" where
  "accepted st frame \<longleftrightarrow> passes_checks st frame \<and> known_format frame"

text \<open>
  \<open>kept\<close> is a top-\<open>k\<close> selection of \<open>results\<close> by the score \<open>sc\<close>: at most \<open>k\<close> elements, all
  of them elements of \<open>results\<close>, none scoring less than an element left out.
\<close>

definition keeps_top :: "('a \<Rightarrow> real) \<Rightarrow> int \<Rightarrow> 'a list \<Rightarrow> 'a list \<Rightarrow> bool" where
  "keeps_top sc k results kept \<longleftrightarrow>
     int (length kept) \<le> k \<and> mset kept \<subseteq># mset results \<and>
     (\<forall>r \<in> set kept. \<forall>e \<in># mset results - mset kept. sc e \<le> sc r)"

text \<open>
  \<open>kept\<close> is what the invoke configuration behind the pointer \<open>ic\<close> lets through of
  \<open>results\<close>: a top-\<open>k\<close> selection when there is a configuration with \<open>top_k > 0\<close>, all
  of \<open>results\<close> in their order otherwise.
\<close>

definition truncated_to ::
  "ptr \<Rightarrow> (addr \<Rightarrow> InvokeConfig) \<Rightarrow> ('a \<Rightarrow> real) \<Rightarrow> 'a list \<Rightarrow> 'a list \<Rightarrow> bool" where
  "truncated_to ic mem sc results kept \<longleftrightarrow>
     (case ic of
        None \<Rightarrow> kept = results
      | Some p \<Rightarrow>
          if top_k (mem p) > 0 then keeps_top sc (top_k (mem p)) results kept
          else kept = results)"

text \<open>
  \<open>kept\<close> is what the branch extracts from the engine's \<open>results\<close> under the configuration
  behind \<open>ic\<close>: let through as above, and of the full length allowed, that is as many as
  there are results, or \<open>top_k\<close> of them when that is positive and smaller.
\<close>

definition extracted ::
  "ptr \<Rightarrow> (addr \<Rightarrow> InvokeConfig) \<Rightarrow> ('a \<Rightarrow> real) \<Rightarrow> 'a list \<Rightarrow> 'a list \<Rightarrow> bool" where
  "extracted ic mem sc results kept \<longleftrightarrow>
     truncated_to ic mem sc results kept \<and> mset kept \<subseteq># mset results \<and>
     length kept =
       (case ic of
          None \<Rightarrow> length results
        | Some p \<Rightarrow>
            if top_k (mem p) > 0 then min (length results) (nat (top_k (mem p)))
            else length results)"

text \<open>The events of a trace that are calls of a user callback.\<close>

fun is_result_callback :: "event \<Rightarrow> bool" where
  "is_result_callback (PointsCallback f ps u) = True"
| "is_result_callback (ClassesCallback f cs u) = True"
| "is_result_callback (BoxesCallback f bs u) = True"
| "is_result_callback (KeypointsCallback f ks u) = True"
| "is_result_callback e = False"

fun is_perf_callback :: "event \<Rightarrow> bool" where
  "is_perf_callback (PerfCallback f p u) = True"
| "is_perf_callback e = False"

fun is_run :: "event \<Rightarrow> bool" where
  "is_run (Run img) = True"
| "is_run e = False"

fun is_set_config :: "event \<Rightarrow> bool" where
  "is_set_config (SetConfig opt v) = True"
| "is_set_config e = False"

text \<open>The two calls of \<open>setConfig\<close> that hand the thresholds behind \<open>p\<close> to the model.\<close>

definition set_thresholds :: "(addr \<Rightarrow> InvokeConfig) \<Rightarrow> addr \<Rightarrow> event list" where
  "set_thresholds mem p =
     [SetConfig MA_MODEL_CFG_OPT_THRESHOLD (score_threshold (mem p)),
      SetConfig MA_MODEL_CFG_OPT_NMS (nms_threshold (mem p))]"

text \<open>The id \<open>begin\<close> hands to the factory when the member \<open>_config\<close> holds \<open>c\<close>.\<close>

definition stored_id :: "Config \<Rightarrow> int" where
  "stored_id c = (if model_id c \<ge> 0 then model_id c else 0)"

text \<open>
  What a call of \<open>begin\<close> comes to: either it succeeds, and then it has created the model
  with the stored id, as its last call but for the thresholds, and has stored the
  argument; or it fails and leaves configuration and flag as they were.
\<close>

definition begin_ok ::
  "core \<Rightarrow> Config \<Rightarrow> (addr \<Rightarrow> InvokeConfig) \<Rightarrow> platform \<Rightarrow> Expected \<Rightarrow> core \<Rightarrow> event list \<Rightarrow> bool" where
  "begin_ok st cfg mem pf r st' evs \<longleftrightarrow>
     success r \<and> \<not> initialized st \<and> initialized st' \<and> config st' = cfg
     \<and> ModelFactory_create pf (stored_id (config st)) \<noteq> None
     \<and> (\<exists>pre. evs = pre @ ModelCreate (stored_id (config st)) #
                       (case invoke_config cfg of None \<Rightarrow> [] | Some p \<Rightarrow> set_thresholds mem p)
             \<and> filter is_set_config pre = [] \<and> (\<forall>i. ModelCreate i \<notin> set pre))"

definition begin_failed ::
  "core \<Rightarrow> platform \<Rightarrow> Expected \<Rightarrow> core \<Rightarrow> event list \<Rightarrow> bool" where
  "begin_failed st pf r st' evs \<longleftrightarrow>
     \<not> success r \<and> config st' = config st \<and> initialized st' = initialized st
     \<and> filter is_set_config evs = []
     \<and> (\<forall>i. ModelCreate i \<in> set evs \<longrightarrow>
            i = stored_id (config st) \<and> ModelFactory_create pf i = None)
     \<and> (initialized st \<longrightarrow> evs = [] \<and> st' = st)"

section \<open>Concrete inputs\<close>

text \<open>
  A fresh instance of static storage duration: the constructor sets no member, so the
  flag is false, the configuration is all zeros (the value of \<open>DefaultConfig\<close>) and no
  callback is registered.  Then the instance after a first \<open>begin\<close> with the default
  configuration on the platform below, and that instance with the five callbacks
  registered.
\<close>

definition new_core :: core where
  "new_core =
     \<lparr>initialized = False, config = DefaultConfig,
      boxes_callback = None, classes_callback = None, points_callback = None,
      keypoints_callback = None, perf_callback = None,
      boxes = [], classes = [], points = [], keypoints = [],
      perf = \<lparr>preprocess = 0, inference = 0, postprocess = 0\<rparr>,
      ma_static_tensor_arena = False, ma_engine = False, ma_model = None, models = []\<rparr>"

definition ex_begun :: core where
  "ex_begun =
     new_core\<lparr>config := DefaultConfig, initialized := True,
              ma_static_tensor_arena := True, ma_engine := True, ma_model := Some 64,
              models := [\<lparr>m_id = 1, m_type = MA_MODEL_TYPE_UNDEFINED, m_name = 1000000,
                          m_addr = 1004096\<rparr>]\<rparr>"

definition ex_core :: core where
  "ex_core =
     registerPerfCallback (Some 5)
       (registerKeypointsCallback (Some 4)
          (registerPointsCallback (Some 3)
             (registerClassesCallback (Some 2)
                (registerBoxesCallback (Some 1) ex_begun))))"

definition ex_frame :: Frame where
  "ex_frame =
     \<lparr>format = kRGB565, width = 240, height = 240, orientation = 90,
      timestamp = \<lparr>tv_sec = 12, tv_usec = 345678\<rparr>, frame_size = 115200, data = Some 4096\<rparr>"

text \<open>Memory with an \<open>InvokeConfig\<close> of \<open>top_k = 2\<close> at address 7 and one of \<open>top_k = 1\<close> elsewhere.\<close>

definition ex_mem :: "addr \<Rightarrow> InvokeConfig" where
  "ex_mem a =
     (if a = 7 then \<lparr>top_k = 2, score_threshold = 1 / 2, nms_threshold = 1 / 4\<rparr>
      else \<lparr>top_k = 1, score_threshold = 3 / 4, nms_threshold = 1 / 8\<rparr>)"

definition ex_bbox :: "real \<Rightarrow> int \<Rightarrow> ma_bbox_t" where
  "ex_bbox s t = \<lparr>bbox_x = 10, bbox_y = 20, bbox_w = 30, bbox_h = 40, bbox_score = s, bbox_target = t\<rparr>"

definition ex_point :: "real \<Rightarrow> int \<Rightarrow> ma_point_t" where
  "ex_point s t = \<lparr>pt_x = 1, pt_y = 2, pt_score = s, pt_target = t\<rparr>"

definition ex_class :: "real \<Rightarrow> int \<Rightarrow> ma_class_t" where
  "ex_class s t = \<lparr>cls_score = s, cls_target = t\<rparr>"

definition ex_keypoint :: "real \<Rightarrow> int \<Rightarrow> ma_keypoint3f_t" where
  "ex_keypoint s t = \<lparr>k3_box = ex_bbox s t, k3_pts = [\<lparr>p3_x = 5, p3_y = 6, p3_z = 7\<rparr>]\<rparr>"

text \<open>A model of the given type whose \<open>run\<close> succeeds, with three results of each kind.\<close>

definition ex_model :: "ma_model_type_t \<Rightarrow> Model" where
  "ex_model t =
     \<lparr>getType = t, run = (\<lambda>img. MA_OK),
      getPointResults = (\<lambda>img. [ex_point (1 / 2) 0, ex_point (9 / 10) 1, ex_point (1 / 4) 2]),
      getClassResults = (\<lambda>img. [ex_class (1 / 2) 0, ex_class (9 / 10) 3, ex_class (1 / 4) 2]),
      getBoxResults = (\<lambda>img. [ex_bbox (1 / 2) 0, ex_bbox (9 / 10) 1, ex_bbox (1 / 4) 2]),
      getKeypointResults =
        (\<lambda>img. [ex_keypoint (1 / 2) 0, ex_keypoint (9 / 10) 1, ex_keypoint (1 / 4) 2]),
      getPerf = \<lparr>perf_preprocess = 3, perf_inference = 40, perf_postprocess = 5\<rparr>\<rparr>"

definition ex_fb :: camera_fb_t where
  "ex_fb =
     \<lparr>fb_buf = Some 4096, fb_len = 115200, fb_width = 240, fb_height = 240,
      fb_format = PIXFORMAT_RGB565, fb_timestamp = \<lparr>tv_sec = 12, tv_usec = 345678\<rparr>\<rparr>"

text \<open>
  A platform built with the partition table, whose partition of two blocks holds a model
  in the second one, and whose factory knows the algorithm 0 only.
\<close>

definition ex_platform :: platform where
  "ex_platform =
     \<lparr>MA_PORTING_ESPRESSIF_ESP32S3 = True, MA_PORTING_ESPRESSIF_PARTITIONS = True,
      engine_init = MA_OK,
      esp_partition_find_first = Some \<lparr>address = 4194304, part_size = 8192\<rparr>,
      spi_flash_mmap = (\<lambda>a n. (ESP_OK, 1000000)),
      ma_ntohl_at = (\<lambda>a. if a = 1004100 then 0x54464C33 else 0),
      model_type_value = (\<lambda>t. if t = MA_MODEL_TYPE_UNDEFINED then 0 else 1),
      engine_load = (\<lambda>a. MA_OK),
      ModelFactory_create = (\<lambda>i. if i = 0 then Some 64 else None)\<rparr>"

section \<open>Sorting and truncation\<close>

lemma sort_by_Cons: "sort_by lt (a # as) = insert_sorted lt a (sort_by lt as)"
  by (simp add: sort_by_def)

lemma mset_insert_sorted: "mset (insert_sorted lt a bs) = add_mset a (mset bs)"
  by (induction bs) simp_all

lemma mset_sort_by: "mset (sort_by lt as) = mset as"
  by (induction as) (simp_all add: sort_by_def mset_insert_sorted)

lemma set_insert_sorted: "set (insert_sorted lt a bs) = insert a (set bs)"
  using mset_insert_sorted [of lt a bs, THEN arg_cong, of set_mset] by simp

lemma length_sort_by: "length (sort_by lt as) = length as"
  using mset_sort_by [of lt as, THEN arg_cong, of size] by simp

lemma ascending_insert_sorted:
  "sorted_wrt (\<lambda>a b. sc a \<le> sc b) bs \<Longrightarrow>
   sorted_wrt (\<lambda>a b. (sc a :: real) \<le> sc b) (insert_sorted (\<lambda>a b. sc a < sc b) c bs)"
  by (induction bs) (auto simp: set_insert_sorted)

lemma ascending_sort_by:
  "sorted_wrt (\<lambda>a b. (sc a :: real) \<le> sc b) (sort_by (\<lambda>a b. sc a < sc b) as)"
proof (induction as)
  case Nil
  show ?case by (simp add: sort_by_def)
next
  case (Cons a as)
  then show ?case by (simp add: sort_by_Cons ascending_insert_sorted)
qed

lemma descending_insert_sorted:
  "sorted_wrt (\<lambda>a b. sc b \<le> sc a) bs \<Longrightarrow>
   sorted_wrt (\<lambda>a b. (sc b :: real) \<le> sc a) (insert_sorted (\<lambda>a b. sc a > sc b) c bs)"
  by (induction bs) (auto simp: set_insert_sorted)

lemma descending_sort_by:
  "sorted_wrt (\<lambda>a b. (sc b :: real) \<le> sc a) (sort_by (\<lambda>a b. sc a > sc b) as)"
proof (induction as)
  case Nil
  show ?case by (simp add: sort_by_def)
next
  case (Cons a as)
  then show ?case by (simp add: sort_by_Cons descending_insert_sorted)
qed

lemma pop_front_loop_drop: "pop_front_loop n rs = drop (nat n) rs"
proof (induction n rs rule: pop_front_loop.induct)
  case (1 n rs)
  show ?case
  proof (cases "n > 0")
    case True
    then have "nat n = Suc (nat (n - 1))" by simp
    with True 1 show ?thesis
      by (simp add: drop_Suc pop_front_loop.simps [of n rs])
  next
    case False
    then show ?thesis by (simp add: pop_front_loop.simps [of n rs])
  qed
qed

text \<open>A list ordered by a relation, cut in two: each element of the front relates to each of the back.\<close>

lemma sorted_wrt_take_drop:
  "sorted_wrt R ys \<Longrightarrow> a \<in> set (take n ys) \<Longrightarrow> b \<in> set (drop n ys) \<Longrightarrow> R a b"
  using sorted_wrt_append [of R "take n ys" "drop n ys"] by simp

lemma mset_minus_take: "mset ys - mset (take n ys) = mset (drop n ys)"
proof -
  have "mset ys = mset (take n ys) + mset (drop n ys)"
    by (metis append_take_drop_id mset_append)
  then show ?thesis by simp
qed

lemma mset_minus_drop: "mset ys - mset (drop n ys) = mset (take n ys)"
proof -
  have "mset ys = mset (take n ys) + mset (drop n ys)"
    by (metis append_take_drop_id mset_append)
  then show ?thesis by simp
qed

lemma keeps_top_sort_resize:
  assumes "0 < k"
  shows "keeps_top sc k results (sort_resize sc k results)"
proof -
  let ?ys = "sort_by (\<lambda>a b. sc a > sc b) results"
  let ?n = "min (length ?ys) (nat k)"
  have kept: "sort_resize sc k results = take ?n ?ys"
    by (simp add: sort_resize_def Let_def)
  have len: "int (length (take ?n ?ys)) \<le> k" using assms by simp
  have sub: "mset (take ?n ?ys) \<subseteq># mset results"
    by (metis mset_sort_by append_take_drop_id mset_append mset_subset_eq_add_left)
  have rest: "mset results - mset (take ?n ?ys) = mset (drop ?n ?ys)"
    using mset_minus_take [of ?ys ?n] by (simp add: mset_sort_by)
  have dom: "\<forall>r \<in> set (take ?n ?ys). \<forall>e \<in># mset results - mset (take ?n ?ys). sc e \<le> sc r"
    unfolding rest using sorted_wrt_take_drop [OF descending_sort_by [of sc results]]
    by auto
  from len sub dom show ?thesis unfolding kept keeps_top_def by blast
qed

lemma keeps_top_sort_pop_front:
  assumes "0 < k"
  shows "keeps_top sc k results (sort_pop_front sc k results)"
proof (cases "int (length results) - k > 0")
  case False
  then have "sort_pop_front sc k results = results"
    by (simp add: sort_pop_front_def Let_def)
  with False show ?thesis by (simp add: keeps_top_def)
next
  case True
  let ?ys = "sort_by (\<lambda>a b. sc a < sc b) results"
  let ?n = "nat (int (length results) - k)"
  from True have kept: "sort_pop_front sc k results = drop ?n ?ys"
    by (simp add: sort_pop_front_def Let_def pop_front_loop_drop)
  have len: "int (length (drop ?n ?ys)) \<le> k"
    using True assms by (simp add: length_sort_by)
  have sub: "mset (drop ?n ?ys) \<subseteq># mset results"
    by (metis mset_sort_by append_take_drop_id mset_append mset_subset_eq_add_right)
  have rest: "mset results - mset (drop ?n ?ys) = mset (take ?n ?ys)"
    using mset_minus_drop [of ?ys ?n] by (simp add: mset_sort_by)
  have dom: "\<forall>r \<in> set (drop ?n ?ys). \<forall>e \<in># mset results - mset (drop ?n ?ys). sc e \<le> sc r"
    unfolding rest using sorted_wrt_take_drop [OF ascending_sort_by [of sc results]]
    by auto
  from len sub dom show ?thesis unfolding kept keeps_top_def by blast
qed

lemma truncated_to_sort_resize:
  "truncated_to (invoke_config (config st)) mem sc results
     (if top_k_active st mem then sort_resize sc (stored_top_k st mem) results else results)"
  by (simp add: truncated_to_def top_k_active_def stored_top_k_def keeps_top_sort_resize
           split: option.splits)

lemma truncated_to_sort_pop_front:
  "truncated_to (invoke_config (config st)) mem sc results
     (if top_k_active st mem then sort_pop_front sc (stored_top_k st mem) results else results)"
  by (simp add: truncated_to_def top_k_active_def stored_top_k_def keeps_top_sort_pop_front
           split: option.splits)

lemma length_sort_resize: "length (sort_resize sc k rs) = min (length rs) (nat k)"
  by (simp add: sort_resize_def Let_def length_sort_by)

lemma length_sort_pop_front:
  "0 < k \<Longrightarrow> length (sort_pop_front sc k rs) = min (length rs) (nat k)"
  by (auto simp: sort_pop_front_def Let_def pop_front_loop_drop length_sort_by)

lemma extracted_sort_resize:
  "extracted (invoke_config (config st)) mem sc results
     (if top_k_active st mem then sort_resize sc (stored_top_k st mem) results else results)"
  using truncated_to_sort_resize [of st mem sc results]
    keeps_top_sort_resize [of "stored_top_k st mem" sc results]
  by (auto simp: extracted_def top_k_active_def stored_top_k_def keeps_top_def length_sort_resize
           split: option.splits)

lemma extracted_sort_pop_front:
  "extracted (invoke_config (config st)) mem sc results
     (if top_k_active st mem then sort_pop_front sc (stored_top_k st mem) results else results)"
  using truncated_to_sort_pop_front [of st mem sc results]
    keeps_top_sort_pop_front [of "stored_top_k st mem" sc results]
  by (auto simp: extracted_def top_k_active_def stored_top_k_def keeps_top_def length_sort_pop_front
           split: option.splits)

section \<open>The timestamp in 64 bits\<close>

lemma ts_word:
  "(a :: 64 word) * 1000 + signed_div b 1000 = word_of_int (sint a * 1000 + sint b sdiv 1000)"
  by (simp add: signed_div_def)

lemma sint_of_int_64:
  "- (2 ^ 63) \<le> k \<Longrightarrow> k < 2 ^ 63 \<Longrightarrow> sint (word_of_int k :: 64 word) = k"
  by (simp add: sint_sbintrunc' signed_take_bit_int_eq_self)

lemma timestamp_value:
  fixes a b :: "64 word"
  assumes "- (2 ^ 63) \<le> sint a * 1000 + sint b sdiv 1000"
    and "sint a * 1000 + sint b sdiv 1000 < 2 ^ 63"
  shows "sint (a * 1000 + signed_div b 1000) = sint a * 1000 + sint b sdiv 1000"
  using sint_of_int_64 [OF assms] by (simp only: ts_word)

text \<open>Past the range the product wraps around, as the 64-bit multiplication does.\<close>

lemma ex_timestamp_wraps:
  "sint ((9223372036854776 :: 64 word) * 1000 + signed_div 0 1000) = - 9223372036854775616"
  by (simp add: signed_div_def)

lemma ex_ts: "signed_div (345678 :: 64 word) 1000 = 345"
  by (simp add: signed_div_def signed_divide_int_def)

text \<open>The concrete instances, field by field.\<close>

lemmas register_defs =
  registerPerfCallback_def registerKeypointsCallback_def registerPointsCallback_def
  registerClassesCallback_def registerBoxesCallback_def

lemma ex_begun_fields:
  "initialized ex_begun" "config ex_begun = DefaultConfig" "points_callback ex_begun = None"
  "classes_callback ex_begun = None" "boxes_callback ex_begun = None"
  "keypoints_callback ex_begun = None" "perf_callback ex_begun = None"
  "points ex_begun = []" "classes ex_begun = []" "boxes ex_begun = []" "keypoints ex_begun = []"
  by (simp_all add: ex_begun_def new_core_def)

lemma ex_begun_record:
  "ex_begun =
     \<lparr>initialized = True, config = DefaultConfig,
      boxes_callback = None, classes_callback = None, points_callback = None,
      keypoints_callback = None, perf_callback = None,
      boxes = [], classes = [], points = [], keypoints = [],
      perf = \<lparr>preprocess = 0, inference = 0, postprocess = 0\<rparr>,
      ma_static_tensor_arena = True, ma_engine = True, ma_model = Some 64,
      models = [\<lparr>m_id = 1, m_type = MA_MODEL_TYPE_UNDEFINED, m_name = 1000000,
                  m_addr = 1004096\<rparr>]\<rparr>"
  by (simp add: ex_begun_def new_core_def)

lemma ex_core_record:
  "ex_core =
     \<lparr>initialized = True, config = DefaultConfig,
      boxes_callback = Some 1, classes_callback = Some 2, points_callback = Some 3,
      keypoints_callback = Some 4, perf_callback = Some 5,
      boxes = [], classes = [], points = [], keypoints = [],
      perf = \<lparr>preprocess = 0, inference = 0, postprocess = 0\<rparr>,
      ma_static_tensor_arena = True, ma_engine = True, ma_model = Some 64,
      models = [\<lparr>m_id = 1, m_type = MA_MODEL_TYPE_UNDEFINED, m_name = 1000000,
                  m_addr = 1004096\<rparr>]\<rparr>"
  by (simp add: ex_core_def ex_begun_def new_core_def register_defs)

lemma ex_core_fields:
  "initialized ex_core" "config ex_core = DefaultConfig" "points_callback ex_core = Some 3"
  "classes_callback ex_core = Some 2" "boxes_callback ex_core = Some 1"
  "keypoints_callback ex_core = Some 4" "perf_callback ex_core = Some 5"
  "points ex_core = []" "classes ex_core = []" "boxes ex_core = []" "keypoints ex_core = []"
  by (simp_all add: ex_core_def ex_begun_def new_core_def register_defs)

section \<open>Rejected calls\<close>

text \<open>
  C9: if the core is not initialized, or the frame's format is \<open>kUNKNOWN\<close>, or its width
  or height is 0, or its size is 0, or its data pointer is null, \<open>invoke\<close> returns
  \<open>success = false\<close> with the message of the first failing check, in this order; the
  state, and with it every stored result, is unchanged and no call is made: the model is
  not run and no callback is invoked.
\<close>

theorem invoke_rejects:
  "(\<not> initialized st \<longrightarrow>
      invoke st frame cfg uc mem mdl = (\<lparr>success = False, message = ''Not initialized''\<rparr>, st, []))
 \<and> (initialized st \<and> format frame = kUNKNOWN \<longrightarrow>
      invoke st frame cfg uc mem mdl = (\<lparr>success = False, message = ''Invalid frame format''\<rparr>, st, []))
 \<and> (initialized st \<and> format frame \<noteq> kUNKNOWN \<and> (width frame = 0 \<or> height frame = 0) \<longrightarrow>
      invoke st frame cfg uc mem mdl = (\<lparr>success = False, message = ''Invalid frame dimensions''\<rparr>, st, []))
 \<and> (initialized st \<and> format frame \<noteq> kUNKNOWN \<and> width frame \<noteq> 0 \<and> height frame \<noteq> 0 \<and>
      frame_size frame = 0 \<longrightarrow>
      invoke st frame cfg uc mem mdl = (\<lparr>success = False, message = ''Invalid frame size''\<rparr>, st, []))
 \<and> (initialized st \<and> format frame \<noteq> kUNKNOWN \<and> width frame \<noteq> 0 \<and> height frame \<noteq> 0 \<and>
      frame_size frame \<noteq> 0 \<and> data frame = None \<longrightarrow>
      invoke st frame cfg uc mem mdl = (\<lparr>success = False, message = ''Invalid frame data''\<rparr>, st, []))"
  by (simp add: invoke_def failed_def)

theorem invoke_rejects_witness:
  "invoke (ex_core\<lparr>initialized := False\<rparr>) (ex_frame\<lparr>format := kUNKNOWN\<rparr>) (Some 7) (Some 9) ex_mem
      (ex_model MA_MODEL_TYPE_PFLD) =
     (\<lparr>success = False, message = ''Not initialized''\<rparr>, ex_core\<lparr>initialized := False\<rparr>, [])
 \<and> invoke ex_core (ex_frame\<lparr>format := kUNKNOWN, width := 0\<rparr>) (Some 7) (Some 9) ex_mem
      (ex_model MA_MODEL_TYPE_PFLD) =
     (\<lparr>success = False, message = ''Invalid frame format''\<rparr>, ex_core, [])
 \<and> invoke ex_core (ex_frame\<lparr>height := 0, frame_size := 0\<rparr>) (Some 7) (Some 9) ex_mem
      (ex_model MA_MODEL_TYPE_PFLD) =
     (\<lparr>success = False, message = ''Invalid frame dimensions''\<rparr>, ex_core, [])
 \<and> invoke ex_core (ex_frame\<lparr>frame_size := 0, data := None\<rparr>) (Some 7) (Some 9) ex_mem
      (ex_model MA_MODEL_TYPE_PFLD) =
     (\<lparr>success = False, message = ''Invalid frame size''\<rparr>, ex_core, [])
 \<and> invoke ex_core (ex_frame\<lparr>data := None\<rparr>) (Some 7) (Some 9) ex_mem
      (ex_model MA_MODEL_TYPE_PFLD) =
     (\<lparr>success = False, message = ''Invalid frame data''\<rparr>, ex_core, [])"
  using
    invoke_rejects [of "ex_core\<lparr>initialized := False\<rparr>" "ex_frame\<lparr>format := kUNKNOWN\<rparr>"
      "Some 7" "Some 9" ex_mem "ex_model MA_MODEL_TYPE_PFLD"]
    invoke_rejects [of ex_core "ex_frame\<lparr>format := kUNKNOWN, width := 0\<rparr>"
      "Some 7" "Some 9" ex_mem "ex_model MA_MODEL_TYPE_PFLD"]
    invoke_rejects [of ex_core "ex_frame\<lparr>height := 0, frame_size := 0\<rparr>"
      "Some 7" "Some 9" ex_mem "ex_model MA_MODEL_TYPE_PFLD"]
    invoke_rejects [of ex_core "ex_frame\<lparr>frame_size := 0, data := None\<rparr>"
      "Some 7" "Some 9" ex_mem "ex_model MA_MODEL_TYPE_PFLD"]
    invoke_rejects [of ex_core "ex_frame\<lparr>data := None\<rparr>"
      "Some 7" "Some 9" ex_mem "ex_model MA_MODEL_TYPE_PFLD"]
  by (simp add: ex_core_fields ex_frame_def)

text \<open>A call that is not accepted changes nothing and calls nothing.\<close>

lemma invoke_not_accepted:
  "\<not> accepted st frame \<Longrightarrow>
   \<not> success (fst (invoke st frame cfg uc mem mdl)) \<and> fst (snd (invoke st frame cfg uc mem mdl)) = st
   \<and> snd (snd (invoke st frame cfg uc mem mdl)) = []"
  by (cases "format frame")
     (auto simp: invoke_def accepted_def known_format_def passes_checks_def failed_def
                 frame_to_img_def)

section \<open>A call that is accepted\<close>

lemma invoke_passes:
  assumes "accepted st frame"
  shows "\<exists>img. frame_to_img frame = Some img \<and>
           invoke st frame cfg uc mem mdl = invoke_run st img cfg uc mem mdl"
  using assms
  by (cases "format frame")
     (auto simp: accepted_def known_format_def passes_checks_def invoke_def frame_to_img_def)

lemma invoke_switch_run_events:
  "e \<in> set (snd (invoke_switch t st img uc mem mdl)) \<Longrightarrow> is_run e \<Longrightarrow> e = Run img"
  by (cases t)
     (auto simp: invoke_points_def invoke_classes_def invoke_boxes_def invoke_keypoints_def Let_def
           split: ma_err_t.splits option.splits)

lemma invoke_run_events:
  "snd (snd (invoke_run st img cfg uc mem mdl)) =
     snd (apply_invoke_config st cfg mem) @
     snd (invoke_switch (getType mdl) (fst (apply_invoke_config st cfg mem)) img uc mem mdl) @
     (case fst (invoke_switch (getType mdl) (fst (apply_invoke_config st cfg mem)) img uc mem mdl) of
        Inl msg \<Rightarrow> [] | Inr st2 \<Rightarrow> snd (invoke_perf st2 uc mdl))"
  by (simp add: invoke_run_def split: prod.splits sum.splits)

lemma apply_invoke_config_events:
  "snd (apply_invoke_config st cfg mem) =
     (case cfg of
        None \<Rightarrow> []
      | Some p \<Rightarrow> [SetConfig MA_MODEL_CFG_OPT_THRESHOLD (score_threshold (mem p)),
                   SetConfig MA_MODEL_CFG_OPT_NMS (nms_threshold (mem p))])"
  by (simp add: apply_invoke_config_def split: option.splits)

lemma invoke_perf_events:
  "snd (invoke_perf st uc mdl) =
     (case perf_callback st of None \<Rightarrow> [] | Some f \<Rightarrow> [PerfCallback f (to_Perf (getPerf mdl)) uc])"
  by (simp add: invoke_perf_def Let_def)

lemma invoke_run_run_events:
  assumes "e \<in> set (snd (snd (invoke_run st img cfg uc mem mdl)))" and "is_run e"
  shows "e = Run img"
proof -
  let ?st1 = "fst (apply_invoke_config st cfg mem)"
  let ?sw = "invoke_switch (getType mdl) ?st1 img uc mem mdl"
  from assms(1) consider
      "e \<in> set (snd (apply_invoke_config st cfg mem))"
    | "e \<in> set (snd ?sw)"
    | st2 where "fst ?sw = Inr st2" "e \<in> set (snd (invoke_perf st2 uc mdl))"
    unfolding invoke_run_events by (cases "fst ?sw") auto
  then show ?thesis
  proof cases
    case 1
    with assms(2) show ?thesis
      by (auto simp: apply_invoke_config_events split: option.splits)
  next
    case 2
    from 2 assms(2) show ?thesis by (rule invoke_switch_run_events)
  next
    case 3
    with assms(2) show ?thesis
      by (auto simp: invoke_perf_events split: option.splits)
  qed
qed

text \<open>
  C3: for every \<open>invoke\<close> on a valid frame (one that passes the five checks and has one of
  the four formats), the image built from the frame, which is the only image the model
  is ever run on, has the width, height, size and data pointer of the frame; its format
  is \<open>RGB888\<close>, \<open>RGB565\<close>, \<open>GRAYSCALE\<close> or \<open>JPEG\<close> for \<open>kRGB888\<close>, \<open>kRGB565\<close>, \<open>kGRAY8\<close> or
  \<open>kJPEG\<close>; its rotation is 0, 90, 180 or 270 for exactly that orientation and 0 for
  every other one; its timestamp is \<open>tv_sec * 1000 + tv_usec / 1000\<close> in the 64-bit
  arithmetic of the code, which is that number whenever the number fits.
\<close>

theorem invoke_image:
  assumes "accepted st frame"
  shows "\<exists>img. frame_to_img frame = Some img
    \<and> invoke st frame cfg uc mem mdl = invoke_run st img cfg uc mem mdl
    \<and> (\<forall>e \<in> set (snd (snd (invoke st frame cfg uc mem mdl))). is_run e \<longrightarrow> e = Run img)
    \<and> img_width img = unat (width frame) \<and> img_height img = unat (height frame)
    \<and> img_size img = unat (frame_size frame) \<and> img_data img = data frame
    \<and> (format frame = kRGB888 \<longrightarrow> img_format img = MA_PIXEL_FORMAT_RGB888)
    \<and> (format frame = kRGB565 \<longrightarrow> img_format img = MA_PIXEL_FORMAT_RGB565)
    \<and> (format frame = kGRAY8 \<longrightarrow> img_format img = MA_PIXEL_FORMAT_GRAYSCALE)
    \<and> (format frame = kJPEG \<longrightarrow> img_format img = MA_PIXEL_FORMAT_JPEG)
    \<and> (orientation frame = 0 \<longrightarrow> img_rotate img = MA_PIXEL_ROTATE_0)
    \<and> (orientation frame = 90 \<longrightarrow> img_rotate img = MA_PIXEL_ROTATE_90)
    \<and> (orientation frame = 180 \<longrightarrow> img_rotate img = MA_PIXEL_ROTATE_180)
    \<and> (orientation frame = 270 \<longrightarrow> img_rotate img = MA_PIXEL_ROTATE_270)
    \<and> (orientation frame \<notin> {0, 90, 180, 270} \<longrightarrow> img_rotate img = MA_PIXEL_ROTATE_0)
    \<and> img_timestamp img =
        tv_sec (timestamp frame) * 1000 + signed_div (tv_usec (timestamp frame)) 1000
    \<and> (- (2 ^ 63) \<le> sint (tv_sec (timestamp frame)) * 1000 + sint (tv_usec (timestamp frame)) sdiv 1000
         \<and> sint (tv_sec (timestamp frame)) * 1000 + sint (tv_usec (timestamp frame)) sdiv 1000 < 2 ^ 63
       \<longrightarrow> sint (img_timestamp img) =
             sint (tv_sec (timestamp frame)) * 1000 + sint (tv_usec (timestamp frame)) sdiv 1000)"
proof -
  from invoke_passes [OF assms, of cfg uc mem mdl] obtain img where
    img: "frame_to_img frame = Some img"
    and run: "invoke st frame cfg uc mem mdl = invoke_run st img cfg uc mem mdl"
    by blast
  have ev: "\<forall>e \<in> set (snd (snd (invoke st frame cfg uc mem mdl))). is_run e \<longrightarrow> e = Run img"
    unfolding run using invoke_run_run_events by blast
  from img have fields:
    "img_width img = unat (width frame)" "img_height img = unat (height frame)"
    "img_size img = unat (frame_size frame)" "img_data img = data frame"
    by (auto simp: frame_to_img_def split: option.splits)
  from img have ts: "img_timestamp img =
      tv_sec (timestamp frame) * 1000 + signed_div (tv_usec (timestamp frame)) 1000"
    by (auto simp: frame_to_img_def split: option.splits)
  have tv: "- (2 ^ 63) \<le> sint (tv_sec (timestamp frame)) * 1000 + sint (tv_usec (timestamp frame)) sdiv 1000
         \<and> sint (tv_sec (timestamp frame)) * 1000 + sint (tv_usec (timestamp frame)) sdiv 1000 < 2 ^ 63
       \<longrightarrow> sint (img_timestamp img) =
             sint (tv_sec (timestamp frame)) * 1000 + sint (tv_usec (timestamp frame)) sdiv 1000"
    unfolding ts using timestamp_value by blast
  from img have fmt:
    "format frame = kRGB888 \<longrightarrow> img_format img = MA_PIXEL_FORMAT_RGB888"
    "format frame = kRGB565 \<longrightarrow> img_format img = MA_PIXEL_FORMAT_RGB565"
    "format frame = kGRAY8 \<longrightarrow> img_format img = MA_PIXEL_FORMAT_GRAYSCALE"
    "format frame = kJPEG \<longrightarrow> img_format img = MA_PIXEL_FORMAT_JPEG"
    by (auto simp: frame_to_img_def split: option.splits)
  from img have rot:
    "orientation frame = 0 \<longrightarrow> img_rotate img = MA_PIXEL_ROTATE_0"
    "orientation frame = 90 \<longrightarrow> img_rotate img = MA_PIXEL_ROTATE_90"
    "orientation frame = 180 \<longrightarrow> img_rotate img = MA_PIXEL_ROTATE_180"
    "orientation frame = 270 \<longrightarrow> img_rotate img = MA_PIXEL_ROTATE_270"
    "orientation frame \<notin> {0, 90, 180, 270} \<longrightarrow> img_rotate img = MA_PIXEL_ROTATE_0"
    by (auto simp: frame_to_img_def split: option.splits)
  from img run ev fields ts tv fmt rot show ?thesis by blast
qed

lemma ex_accepted: "accepted ex_core ex_frame" "accepted ex_begun ex_frame"
  by (simp_all add: accepted_def known_format_def passes_checks_def ex_core_fields ex_begun_fields
      ex_frame_def)

theorem invoke_image_witness:
  "accepted ex_core ex_frame \<and>
   (\<exists>img. frame_to_img ex_frame = Some img
     \<and> img_width img = 240 \<and> img_height img = 240 \<and> img_size img = 115200
     \<and> img_data img = Some 4096 \<and> img_format img = MA_PIXEL_FORMAT_RGB565
     \<and> img_rotate img = MA_PIXEL_ROTATE_90 \<and> img_timestamp img = 12345
     \<and> sint (img_timestamp img) = 12345)"
proof -
  have b: "- (2 ^ 63) \<le> sint (tv_sec (timestamp ex_frame)) * 1000
              + sint (tv_usec (timestamp ex_frame)) sdiv 1000
         \<and> sint (tv_sec (timestamp ex_frame)) * 1000
              + sint (tv_usec (timestamp ex_frame)) sdiv 1000 < 2 ^ 63"
    by (simp add: ex_frame_def signed_divide_int_def)
  from invoke_image [OF ex_accepted(1), of None None ex_mem "ex_model MA_MODEL_TYPE_PFLD"]
  obtain img where
    1: "frame_to_img ex_frame = Some img"
    and 2: "img_width img = unat (width ex_frame)" "img_height img = unat (height ex_frame)"
      "img_size img = unat (frame_size ex_frame)" "img_data img = data ex_frame"
    and 3: "format ex_frame = kRGB565 \<longrightarrow> img_format img = MA_PIXEL_FORMAT_RGB565"
      "orientation ex_frame = 90 \<longrightarrow> img_rotate img = MA_PIXEL_ROTATE_90"
    and 4: "img_timestamp img =
        tv_sec (timestamp ex_frame) * 1000 + signed_div (tv_usec (timestamp ex_frame)) 1000"
    and 5: "- (2 ^ 63) \<le> sint (tv_sec (timestamp ex_frame)) * 1000
              + sint (tv_usec (timestamp ex_frame)) sdiv 1000
         \<and> sint (tv_sec (timestamp ex_frame)) * 1000
              + sint (tv_usec (timestamp ex_frame)) sdiv 1000 < 2 ^ 63
       \<longrightarrow> sint (img_timestamp img) =
             sint (tv_sec (timestamp ex_frame)) * 1000 + sint (tv_usec (timestamp ex_frame)) sdiv 1000"
    by blast
  from 5 b have 6: "sint (img_timestamp img) =
      sint (tv_sec (timestamp ex_frame)) * 1000 + sint (tv_usec (timestamp ex_frame)) sdiv 1000"
    by blast
  from 2 have v2: "img_width img = 240" "img_height img = 240" "img_size img = 115200"
    "img_data img = Some 4096"
    by (simp_all add: ex_frame_def)
  from 3 have v3: "img_format img = MA_PIXEL_FORMAT_RGB565" "img_rotate img = MA_PIXEL_ROTATE_90"
    by (simp_all add: ex_frame_def)
  from 4 have v4: "img_timestamp img = 12345"
    by (simp add: ex_frame_def ex_ts)
  from 6 have v6: "sint (img_timestamp img) = 12345"
    by (simp add: ex_frame_def signed_divide_int_def)
  from ex_accepted(1) 1 v2 v3 v4 v6 show ?thesis by blast
qed

lemma invoke_points_Inr:
  assumes "invoke_points st img uc mem mdl = (Inr st2, ev)"
  shows "\<exists>kept. truncated_to (invoke_config (config st)) mem pt_score (getPointResults mdl img) kept
    \<and> st2 = st\<lparr>points := map to_Point kept\<rparr>
    \<and> ev = Run img # (case points_callback st of
                        None \<Rightarrow> [] | Some f \<Rightarrow> [PointsCallback f (map to_Point kept) uc])"
  using assms truncated_to_sort_resize [of st mem pt_score "getPointResults mdl img"]
  by (auto simp: invoke_points_def Let_def split: ma_err_t.splits)

lemma invoke_classes_Inr:
  assumes "invoke_classes st img uc mem mdl = (Inr st2, ev)"
  shows "\<exists>kept. truncated_to (invoke_config (config st)) mem cls_score (getClassResults mdl img) kept
    \<and> st2 = st\<lparr>classes := map to_Class kept\<rparr>
    \<and> ev = Run img # (case classes_callback st of
                        None \<Rightarrow> [] | Some f \<Rightarrow> [ClassesCallback f (map to_Class kept) uc])"
  using assms truncated_to_sort_pop_front [of st mem cls_score "getClassResults mdl img"]
  by (auto simp: invoke_classes_def Let_def split: ma_err_t.splits)

lemma invoke_boxes_Inr:
  assumes "invoke_boxes st img uc mem mdl = (Inr st2, ev)"
  shows "\<exists>kept. truncated_to (invoke_config (config st)) mem bbox_score (getBoxResults mdl img) kept
    \<and> st2 = st\<lparr>boxes := map to_Box kept\<rparr>
    \<and> ev = Run img # (case boxes_callback st of
                        None \<Rightarrow> [] | Some f \<Rightarrow> [BoxesCallback f (map to_Box kept) uc])"
  using assms truncated_to_sort_pop_front [of st mem bbox_score "getBoxResults mdl img"]
  by (auto simp: invoke_boxes_def Let_def split: ma_err_t.splits)

lemma invoke_keypoints_Inr:
  assumes "invoke_keypoints st img uc mem mdl = (Inr st2, ev)"
  shows "\<exists>kept. truncated_to (invoke_config (config st)) mem (\<lambda>r. bbox_score (k3_box r))
                  (getKeypointResults mdl img) kept
    \<and> st2 = st\<lparr>keypoints := map to_Keypoints kept\<rparr>
    \<and> ev = Run img # (case keypoints_callback st of
                        None \<Rightarrow> [] | Some f \<Rightarrow> [KeypointsCallback f (map to_Keypoints kept) uc])"
  using assms
    truncated_to_sort_resize [of st mem "\<lambda>r. bbox_score (k3_box r)" "getKeypointResults mdl img"]
  by (auto simp: invoke_keypoints_def Let_def split: ma_err_t.splits)

lemma invoke_success_passes:
  "success (fst (invoke st frame cfg uc mem mdl)) \<Longrightarrow> accepted st frame"
  using invoke_not_accepted [of st frame cfg uc mem mdl] by blast

lemma apply_invoke_config_state:
  "fst (apply_invoke_config st cfg mem) =
     st\<lparr>config := (config st)\<lparr>invoke_config :=
           (case cfg of None \<Rightarrow> invoke_config (config st) | Some p \<Rightarrow> Some p)\<rparr>\<rparr>"
  by (cases cfg) (simp_all add: apply_invoke_config_def)

text \<open>A successful call, taken apart.\<close>

lemma invoke_success:
  assumes "invoke st frame cfg uc mem mdl = (r, st', evs)" and "success r"
  shows "\<exists>img st2 ev2. frame_to_img frame = Some img
     \<and> invoke_switch (getType mdl) (fst (apply_invoke_config st cfg mem)) img uc mem mdl = (Inr st2, ev2)
     \<and> st' = st2\<lparr>perf := to_Perf (getPerf mdl)\<rparr>
     \<and> evs = snd (apply_invoke_config st cfg mem) @ ev2 @
             (case perf_callback st2 of
                None \<Rightarrow> [] | Some f \<Rightarrow> [PerfCallback f (to_Perf (getPerf mdl)) uc])"
proof -
  from assms have "accepted st frame"
    using invoke_success_passes [of st frame cfg uc mem mdl] by simp
  from invoke_passes [OF this, of cfg uc mem mdl] obtain img where
    img: "frame_to_img frame = Some img"
    and run: "invoke st frame cfg uc mem mdl = invoke_run st img cfg uc mem mdl"
    by blast
  let ?st1 = "fst (apply_invoke_config st cfg mem)"
  obtain x ev2 where sw: "invoke_switch (getType mdl) ?st1 img uc mem mdl = (x, ev2)"
    by (cases "invoke_switch (getType mdl) ?st1 img uc mem mdl")
  show ?thesis
  proof (cases x)
    case (Inl msg)
    with sw run assms have False
      by (simp add: invoke_run_def failed_def split: prod.splits)
    then show ?thesis ..
  next
    case (Inr st2)
    with sw run assms(1) have
      "st' = st2\<lparr>perf := to_Perf (getPerf mdl)\<rparr>"
      "evs = snd (apply_invoke_config st cfg mem) @ ev2 @
             (case perf_callback st2 of
                None \<Rightarrow> [] | Some f \<Rightarrow> [PerfCallback f (to_Perf (getPerf mdl)) uc])"
      by (auto simp: invoke_run_def invoke_perf_def Let_def split: prod.splits)
    with img sw Inr show ?thesis by blast
  qed
qed


section \<open>Truncation to the best \<open>top_k\<close> results\<close>

text \<open>
  C1: for every successful \<open>invoke\<close>, the invoke configuration in effect is the one passed
  or, without one, the one stored.  The list stored and handed to the callback (points,
  classes, boxes or keypoints, by the type of the model) is the conversion of a list
  \<open>kept\<close> of engine results such that, when a configuration with \<open>top_k > 0\<close> is in
  effect, \<open>kept\<close> has at most \<open>top_k\<close> elements and every element of it scores at least as
  high as every engine result left out, and such that \<open>kept\<close> is the whole engine result
  list when no configuration is in effect or \<open>top_k \<le> 0\<close>.
\<close>

theorem invoke_top_k:
  assumes "invoke st frame cfg uc mem mdl = (r, st', evs)" and "success r"
    and "frame_to_img frame = Some img"
  shows "invoke_config (config st') = (case cfg of None \<Rightarrow> invoke_config (config st) | Some p \<Rightarrow> Some p)
    \<and> (getType mdl = MA_MODEL_TYPE_PFLD \<longrightarrow>
         (\<exists>kept. truncated_to (invoke_config (config st')) mem pt_score (getPointResults mdl img) kept
            \<and> points st' = map to_Point kept
            \<and> (\<forall>f ps u. PointsCallback f ps u \<in> set evs \<longrightarrow> ps = map to_Point kept)))
    \<and> (getType mdl = MA_MODEL_TYPE_IMCLS \<longrightarrow>
         (\<exists>kept. truncated_to (invoke_config (config st')) mem cls_score (getClassResults mdl img) kept
            \<and> classes st' = map to_Class kept
            \<and> (\<forall>f cs u. ClassesCallback f cs u \<in> set evs \<longrightarrow> cs = map to_Class kept)))
    \<and> (getType mdl \<in> {MA_MODEL_TYPE_FOMO, MA_MODEL_TYPE_YOLOV5, MA_MODEL_TYPE_YOLOV8,
                       MA_MODEL_TYPE_NVIDIA_DET, MA_MODEL_TYPE_YOLO_WORLD} \<longrightarrow>
         (\<exists>kept. truncated_to (invoke_config (config st')) mem bbox_score (getBoxResults mdl img) kept
            \<and> boxes st' = map to_Box kept
            \<and> (\<forall>f bs u. BoxesCallback f bs u \<in> set evs \<longrightarrow> bs = map to_Box kept)))
    \<and> (getType mdl = MA_MODEL_TYPE_YOLOV8_POSE \<longrightarrow>
         (\<exists>kept. truncated_to (invoke_config (config st')) mem (\<lambda>r. bbox_score (k3_box r))
                   (getKeypointResults mdl img) kept
            \<and> keypoints st' = map to_Keypoints kept
            \<and> (\<forall>f ks u. KeypointsCallback f ks u \<in> set evs \<longrightarrow> ks = map to_Keypoints kept)))"
proof -
  let ?st1 = "fst (apply_invoke_config st cfg mem)"
  let ?ic = "case cfg of None \<Rightarrow> invoke_config (config st) | Some p \<Rightarrow> Some p"
  from invoke_success [OF assms(1,2)] assms(3) obtain st2 ev2 where
    sw: "invoke_switch (getType mdl) ?st1 img uc mem mdl = (Inr st2, ev2)"
    and st': "st' = st2\<lparr>perf := to_Perf (getPerf mdl)\<rparr>"
    and evs: "evs = snd (apply_invoke_config st cfg mem) @ ev2 @
             (case perf_callback st2 of
                None \<Rightarrow> [] | Some f \<Rightarrow> [PerfCallback f (to_Perf (getPerf mdl)) uc])"
    by auto
  have ic1: "invoke_config (config ?st1) = ?ic"
    by (simp add: apply_invoke_config_state)
  have cfg2: "config st2 = config ?st1"
    using sw
    by (cases "getType mdl")
       (auto dest!: invoke_points_Inr invoke_classes_Inr invoke_boxes_Inr invoke_keypoints_Inr)
  have ic': "invoke_config (config st') = ?ic"
    using st' cfg2 ic1 by simp
  have pts: "\<exists>kept. truncated_to (invoke_config (config st')) mem pt_score (getPointResults mdl img) kept
            \<and> points st' = map to_Point kept
            \<and> (\<forall>f ps u. PointsCallback f ps u \<in> set evs \<longrightarrow> ps = map to_Point kept)"
    if "getType mdl = MA_MODEL_TYPE_PFLD"
  proof -
    from sw that have "invoke_points ?st1 img uc mem mdl = (Inr st2, ev2)" by simp
    from invoke_points_Inr [OF this] obtain kept where
      k: "truncated_to (invoke_config (config ?st1)) mem pt_score (getPointResults mdl img) kept"
        "st2 = ?st1\<lparr>points := map to_Point kept\<rparr>"
        "ev2 = Run img # (case points_callback ?st1 of
                        None \<Rightarrow> [] | Some f \<Rightarrow> [PointsCallback f (map to_Point kept) uc])"
      by blast
    have "\<forall>f ps u. PointsCallback f ps u \<in> set evs \<longrightarrow> ps = map to_Point kept"
      unfolding evs k(3) by (auto simp: apply_invoke_config_events split: option.splits)
    with k(1,2) st' ic1 ic' show ?thesis by auto
  qed
  have cls: "\<exists>kept. truncated_to (invoke_config (config st')) mem cls_score (getClassResults mdl img) kept
            \<and> classes st' = map to_Class kept
            \<and> (\<forall>f cs u. ClassesCallback f cs u \<in> set evs \<longrightarrow> cs = map to_Class kept)"
    if "getType mdl = MA_MODEL_TYPE_IMCLS"
  proof -
    from sw that have "invoke_classes ?st1 img uc mem mdl = (Inr st2, ev2)" by simp
    from invoke_classes_Inr [OF this] obtain kept where
      k: "truncated_to (invoke_config (config ?st1)) mem cls_score (getClassResults mdl img) kept"
        "st2 = ?st1\<lparr>classes := map to_Class kept\<rparr>"
        "ev2 = Run img # (case classes_callback ?st1 of
                        None \<Rightarrow> [] | Some f \<Rightarrow> [ClassesCallback f (map to_Class kept) uc])"
      by blast
    have "\<forall>f cs u. ClassesCallback f cs u \<in> set evs \<longrightarrow> cs = map to_Class kept"
      unfolding evs k(3) by (auto simp: apply_invoke_config_events split: option.splits)
    with k(1,2) st' ic1 ic' show ?thesis by auto
  qed
  have bxs: "\<exists>kept. truncated_to (invoke_config (config st')) mem bbox_score (getBoxResults mdl img) kept
            \<and> boxes st' = map to_Box kept
            \<and> (\<forall>f bs u. BoxesCallback f bs u \<in> set evs \<longrightarrow> bs = map to_Box kept)"
    if "getType mdl \<in> {MA_MODEL_TYPE_FOMO, MA_MODEL_TYPE_YOLOV5, MA_MODEL_TYPE_YOLOV8,
                       MA_MODEL_TYPE_NVIDIA_DET, MA_MODEL_TYPE_YOLO_WORLD}"
  proof -
    from sw that have "invoke_boxes ?st1 img uc mem mdl = (Inr st2, ev2)" by auto
    from invoke_boxes_Inr [OF this] obtain kept where
      k: "truncated_to (invoke_config (config ?st1)) mem bbox_score (getBoxResults mdl img) kept"
        "st2 = ?st1\<lparr>boxes := map to_Box kept\<rparr>"
        "ev2 = Run img # (case boxes_callback ?st1 of
                        None \<Rightarrow> [] | Some f \<Rightarrow> [BoxesCallback f (map to_Box kept) uc])"
      by blast
    have "\<forall>f bs u. BoxesCallback f bs u \<in> set evs \<longrightarrow> bs = map to_Box kept"
      unfolding evs k(3) by (auto simp: apply_invoke_config_events split: option.splits)
    with k(1,2) st' ic1 ic' show ?thesis by auto
  qed
  have kps: "\<exists>kept. truncated_to (invoke_config (config st')) mem (\<lambda>r. bbox_score (k3_box r))
                   (getKeypointResults mdl img) kept
            \<and> keypoints st' = map to_Keypoints kept
            \<and> (\<forall>f ks u. KeypointsCallback f ks u \<in> set evs \<longrightarrow> ks = map to_Keypoints kept)"
    if "getType mdl = MA_MODEL_TYPE_YOLOV8_POSE"
  proof -
    from sw that have "invoke_keypoints ?st1 img uc mem mdl = (Inr st2, ev2)" by simp
    from invoke_keypoints_Inr [OF this] obtain kept where
      k: "truncated_to (invoke_config (config ?st1)) mem (\<lambda>r. bbox_score (k3_box r))
            (getKeypointResults mdl img) kept"
        "st2 = ?st1\<lparr>keypoints := map to_Keypoints kept\<rparr>"
        "ev2 = Run img # (case keypoints_callback ?st1 of
                        None \<Rightarrow> [] | Some f \<Rightarrow> [KeypointsCallback f (map to_Keypoints kept) uc])"
      by blast
    have "\<forall>f ks u. KeypointsCallback f ks u \<in> set evs \<longrightarrow> ks = map to_Keypoints kept"
      unfolding evs k(3) by (auto simp: apply_invoke_config_events split: option.splits)
    with k(1,2) st' ic1 ic' show ?thesis by auto
  qed
  from ic' pts cls bxs kps show ?thesis by blast
qed


text \<open>Evaluation on the concrete inputs.\<close>

lemmas ex_defs =
  ex_core_record ex_frame_def ex_mem_def ex_model_def ex_point_def ex_class_def ex_bbox_def
  ex_keypoint_def DefaultConfig_def

lemmas invoke_defs =
  invoke_def frame_to_img_def invoke_run_def apply_invoke_config_def invoke_points_def
  invoke_classes_def invoke_boxes_def invoke_keypoints_def invoke_perf_def to_Perf_def
  top_k_active_def stored_top_k_def sort_resize_def sort_pop_front_def sort_by_def
  pop_front_loop_drop to_Point_def to_Class_def to_Box_def to_Keypoints_def
  float_to_int_def int_to_float_def failed_def succeeded_def ex_ts Let_def

lemma ex_img: "frame_to_img ex_frame =
  Some \<lparr>img_width = 240, img_height = 240, img_format = MA_PIXEL_FORMAT_RGB565,
        img_rotate = MA_PIXEL_ROTATE_90, img_timestamp = 12345, img_size = 115200,
        img_data = Some 4096\<rparr>"
  by (simp add: frame_to_img_def ex_frame_def ex_ts)

lemma ex_success:
  "success (fst (invoke ex_core ex_frame cfg uc ex_mem (ex_model t)))"
  by (cases t; cases cfg) (simp_all add: ex_defs invoke_defs)

theorem invoke_top_k_witness:
  "success (fst (invoke ex_core ex_frame (Some 7) None ex_mem (ex_model MA_MODEL_TYPE_PFLD)))
 \<and> (\<exists>kept. keeps_top pt_score 2 [ex_point (1 / 2) 0, ex_point (9 / 10) 1, ex_point (1 / 4) 2] kept
       \<and> points (fst (snd (invoke ex_core ex_frame (Some 7) None ex_mem
                              (ex_model MA_MODEL_TYPE_PFLD)))) = map to_Point kept)
 \<and> (\<exists>kept. keeps_top cls_score 2 [ex_class (1 / 2) 0, ex_class (9 / 10) 3, ex_class (1 / 4) 2] kept
       \<and> classes (fst (snd (invoke ex_core ex_frame (Some 7) None ex_mem
                              (ex_model MA_MODEL_TYPE_IMCLS)))) = map to_Class kept)
 \<and> (\<exists>kept. keeps_top bbox_score 2 [ex_bbox (1 / 2) 0, ex_bbox (9 / 10) 1, ex_bbox (1 / 4) 2] kept
       \<and> boxes (fst (snd (invoke ex_core ex_frame (Some 7) None ex_mem
                              (ex_model MA_MODEL_TYPE_YOLOV8)))) = map to_Box kept)
 \<and> (\<exists>kept. keeps_top (\<lambda>r. bbox_score (k3_box r)) 2
              [ex_keypoint (1 / 2) 0, ex_keypoint (9 / 10) 1, ex_keypoint (1 / 4) 2] kept
       \<and> keypoints (fst (snd (invoke ex_core ex_frame (Some 7) None ex_mem
                              (ex_model MA_MODEL_TYPE_YOLOV8_POSE)))) = map to_Keypoints kept)
 \<and> points (fst (snd (invoke ex_core ex_frame None None ex_mem (ex_model MA_MODEL_TYPE_PFLD)))) =
     map to_Point [ex_point (1 / 2) 0, ex_point (9 / 10) 1, ex_point (1 / 4) 2]"
proof -
  have ic: "truncated_to (Some 7) ex_mem sc rs kept = keeps_top sc 2 rs kept" for sc rs
    and kept :: "'a list"
    by (simp add: truncated_to_def ex_mem_def)
  have nc: "truncated_to None ex_mem sc rs kept = (kept = rs)" for sc rs
    and kept :: "'a list"
    by (simp add: truncated_to_def)
  have no: "invoke_config (config ex_core) = None"
    by (simp add: ex_core_fields DefaultConfig_def)
  have m: "getType (ex_model t) = t"
    "getPointResults (ex_model t) i = [ex_point (1 / 2) 0, ex_point (9 / 10) 1, ex_point (1 / 4) 2]"
    "getClassResults (ex_model t) i = [ex_class (1 / 2) 0, ex_class (9 / 10) 3, ex_class (1 / 4) 2]"
    "getBoxResults (ex_model t) i = [ex_bbox (1 / 2) 0, ex_bbox (9 / 10) 1, ex_bbox (1 / 4) 2]"
    "getKeypointResults (ex_model t) i =
       [ex_keypoint (1 / 2) 0, ex_keypoint (9 / 10) 1, ex_keypoint (1 / 4) 2]" for t i
    by (simp_all add: ex_model_def)
  have col: "X = (fst X, fst (snd X), snd (snd X))" for X :: "Expected \<times> core \<times> event list"
    by simp
  note th = invoke_top_k [OF col ex_success ex_img]
  have 1: "\<exists>kept. keeps_top pt_score 2 [ex_point (1 / 2) 0, ex_point (9 / 10) 1, ex_point (1 / 4) 2] kept
       \<and> points (fst (snd (invoke ex_core ex_frame (Some 7) None ex_mem
                              (ex_model MA_MODEL_TYPE_PFLD)))) = map to_Point kept"
    using th [of "Some 7" None MA_MODEL_TYPE_PFLD] by (auto simp: m ic)
  have 2: "\<exists>kept. keeps_top cls_score 2 [ex_class (1 / 2) 0, ex_class (9 / 10) 3, ex_class (1 / 4) 2] kept
       \<and> classes (fst (snd (invoke ex_core ex_frame (Some 7) None ex_mem
                              (ex_model MA_MODEL_TYPE_IMCLS)))) = map to_Class kept"
    using th [of "Some 7" None MA_MODEL_TYPE_IMCLS] by (auto simp: m ic)
  have 3: "\<exists>kept. keeps_top bbox_score 2 [ex_bbox (1 / 2) 0, ex_bbox (9 / 10) 1, ex_bbox (1 / 4) 2] kept
       \<and> boxes (fst (snd (invoke ex_core ex_frame (Some 7) None ex_mem
                              (ex_model MA_MODEL_TYPE_YOLOV8)))) = map to_Box kept"
    using th [of "Some 7" None MA_MODEL_TYPE_YOLOV8] by (auto simp: m ic)
  have 4: "\<exists>kept. keeps_top (\<lambda>r. bbox_score (k3_box r)) 2
              [ex_keypoint (1 / 2) 0, ex_keypoint (9 / 10) 1, ex_keypoint (1 / 4) 2] kept
       \<and> keypoints (fst (snd (invoke ex_core ex_frame (Some 7) None ex_mem
                              (ex_model MA_MODEL_TYPE_YOLOV8_POSE)))) = map to_Keypoints kept"
    using th [of "Some 7" None MA_MODEL_TYPE_YOLOV8_POSE] by (auto simp: m ic)
  have 5: "points (fst (snd (invoke ex_core ex_frame None None ex_mem (ex_model MA_MODEL_TYPE_PFLD)))) =
     map to_Point [ex_point (1 / 2) 0, ex_point (9 / 10) 1, ex_point (1 / 4) 2]"
    using th [of None None MA_MODEL_TYPE_PFLD] by (auto simp: m no nc)
  from 1 2 3 4 5 ex_success [of "Some 7" None MA_MODEL_TYPE_PFLD] show ?thesis by blast
qed

section \<open>What an accepted call comes to\<close>

text \<open>Any accepted call, taken apart: the run of the model failed or not.\<close>

lemma invoke_run_cases:
  assumes "invoke_run st img cfg uc mem mdl = (r, st', evs)"
  shows "(\<exists>msg ev2.
            invoke_switch (getType mdl) (fst (apply_invoke_config st cfg mem)) img uc mem mdl =
              (Inl msg, ev2)
          \<and> r = failed msg \<and> st' = fst (apply_invoke_config st cfg mem)
          \<and> evs = snd (apply_invoke_config st cfg mem) @ ev2)
       \<or> (\<exists>st2 ev2.
            invoke_switch (getType mdl) (fst (apply_invoke_config st cfg mem)) img uc mem mdl =
              (Inr st2, ev2)
          \<and> r = succeeded \<and> st' = st2\<lparr>perf := to_Perf (getPerf mdl)\<rparr>
          \<and> evs = snd (apply_invoke_config st cfg mem) @ ev2 @
                  (case perf_callback st2 of
                     None \<Rightarrow> [] | Some f \<Rightarrow> [PerfCallback f (to_Perf (getPerf mdl)) uc]))"
proof -
  let ?sw = "invoke_switch (getType mdl) (fst (apply_invoke_config st cfg mem)) img uc mem mdl"
  obtain x ev2 where sw: "?sw = (x, ev2)" by (cases ?sw)
  show ?thesis
  proof (cases x)
    case (Inl msg)
    with sw assms show ?thesis
      by (auto simp: invoke_run_def split: prod.splits)
  next
    case (Inr st2)
    with sw assms show ?thesis
      by (auto simp: invoke_run_def invoke_perf_def Let_def split: prod.splits)
  qed
qed

lemma invoke_points_outcome:
  "(run mdl img = MA_OK
    \<and> (\<exists>kept. extracted (invoke_config (config st)) mem pt_score (getPointResults mdl img) kept
          \<and> invoke_points st img uc mem mdl =
              (Inr (st\<lparr>points := map to_Point kept\<rparr>),
               Run img # (case points_callback st of
                            None \<Rightarrow> [] | Some f \<Rightarrow> [PointsCallback f (map to_Point kept) uc]))))
   \<or> (\<exists>ret. run mdl img = MA_ERR ret
          \<and> invoke_points st img uc mem mdl = (Inl (run_failed ret), [Run img]))"
proof (cases "run mdl img")
  case MA_OK
  let ?kept = "if top_k_active st mem
               then sort_resize pt_score (stored_top_k st mem) (getPointResults mdl img)
               else getPointResults mdl img"
  have "extracted (invoke_config (config st)) mem pt_score (getPointResults mdl img) ?kept"
    by (rule extracted_sort_resize)
  moreover have "invoke_points st img uc mem mdl =
      (Inr (st\<lparr>points := map to_Point ?kept\<rparr>),
       Run img # (case points_callback st of
                    None \<Rightarrow> [] | Some f \<Rightarrow> [PointsCallback f (map to_Point ?kept) uc]))"
    using MA_OK by (simp add: invoke_points_def Let_def)
  ultimately show ?thesis using MA_OK by blast
next
  case (MA_ERR ret)
  then show ?thesis by (simp add: invoke_points_def)
qed

lemma invoke_run_points:
  assumes run: "invoke_run st img cfg uc mem mdl = (r, st', evs)"
    and sw: "invoke_switch (getType mdl) (fst (apply_invoke_config st cfg mem)) img uc mem mdl =
             invoke_points (fst (apply_invoke_config st cfg mem)) img uc mem mdl"
  shows "filter is_run evs = [Run img]
    \<and> classes st' = classes st \<and> boxes st' = boxes st \<and> keypoints st' = keypoints st
    \<and> (run mdl img = MA_OK \<longrightarrow>
          success r
        \<and> (\<exists>kept. extracted (invoke_config (config st')) mem pt_score (getPointResults mdl img) kept
              \<and> points st' = map to_Point kept
              \<and> filter is_result_callback evs =
                  (case points_callback st of
                     None \<Rightarrow> [] | Some f \<Rightarrow> [PointsCallback f (map to_Point kept) uc]))
        \<and> perf st' = to_Perf (getPerf mdl)
        \<and> filter is_perf_callback evs =
            (case perf_callback st of
               None \<Rightarrow> [] | Some f \<Rightarrow> [PerfCallback f (to_Perf (getPerf mdl)) uc]))
    \<and> (run mdl img \<noteq> MA_OK \<longrightarrow>
          \<not> success r \<and> points st' = points st \<and> filter is_result_callback evs = [] \<and> filter is_perf_callback evs = [])"
proof -
  let ?st1 = "fst (apply_invoke_config st cfg mem)"
  let ?ev1 = "snd (apply_invoke_config st cfg mem)"
  have e1: "filter is_run ?ev1 = []" "filter is_result_callback ?ev1 = []"
    "filter is_perf_callback ?ev1 = []"
    by (simp_all add: apply_invoke_config_events split: option.splits)
  have s1: "points ?st1 = points st" "classes ?st1 = classes st" "boxes ?st1 = boxes st"
    "keypoints ?st1 = keypoints st" "points_callback ?st1 = points_callback st" "perf_callback ?st1 = perf_callback st"
    by (simp_all add: apply_invoke_config_state)
  from invoke_points_outcome [of mdl img ?st1 mem uc] show ?thesis
  proof (elim disjE conjE exE)
    fix kept
    assume ok: "run mdl img = MA_OK"
      and ex: "extracted (invoke_config (config ?st1)) mem pt_score (getPointResults mdl img) kept"
      and br: "invoke_points ?st1 img uc mem mdl =
          (Inr (?st1\<lparr>points := map to_Point kept\<rparr>),
           Run img # (case points_callback ?st1 of
                        None \<Rightarrow> [] | Some f \<Rightarrow> [PointsCallback f (map to_Point kept) uc]))"
    from invoke_run_cases [OF run] br sw have res: "r = succeeded"
      "st' = ?st1\<lparr>points := map to_Point kept, perf := to_Perf (getPerf mdl)\<rparr>"
      "evs = ?ev1 @ (Run img # (case points_callback ?st1 of
                        None \<Rightarrow> [] | Some f \<Rightarrow> [PointsCallback f (map to_Point kept) uc])) @
             (case perf_callback ?st1 of
                None \<Rightarrow> [] | Some f \<Rightarrow> [PerfCallback f (to_Perf (getPerf mdl)) uc])"
      by auto
    have a: "filter is_run evs = [Run img]"
      unfolding res(3) using e1 by (simp split: option.splits)
    have b: "classes st' = classes st" "boxes st' = boxes st" "keypoints st' = keypoints st"
      using res(2) s1 by simp_all
    have c: "success r" using res(1) by (simp add: succeeded_def)
    have k: "\<exists>kept. extracted (invoke_config (config st')) mem pt_score (getPointResults mdl img) kept
          \<and> points st' = map to_Point kept
          \<and> filter is_result_callback evs =
              (case points_callback st of
                 None \<Rightarrow> [] | Some f \<Rightarrow> [PointsCallback f (map to_Point kept) uc])"
    proof (intro exI [of _ kept] conjI)
      show "extracted (invoke_config (config st')) mem pt_score (getPointResults mdl img) kept"
        using ex res(2) by simp
      show "points st' = map to_Point kept" using res(2) by simp
      show "filter is_result_callback evs =
              (case points_callback st of
                 None \<Rightarrow> [] | Some f \<Rightarrow> [PointsCallback f (map to_Point kept) uc])"
        unfolding res(3) using e1 s1 by (simp split: option.splits)
    qed
    have p: "perf st' = to_Perf (getPerf mdl)" using res(2) by simp
    have q: "filter is_perf_callback evs =
        (case perf_callback st of
           None \<Rightarrow> [] | Some f \<Rightarrow> [PerfCallback f (to_Perf (getPerf mdl)) uc])"
      unfolding res(3) using e1 s1 by (simp split: option.splits)
    from ok a b c k p q show ?thesis by simp
  next
    fix ret
    assume err: "run mdl img = MA_ERR ret"
      and br: "invoke_points ?st1 img uc mem mdl = (Inl (run_failed ret), [Run img])"
    from invoke_run_cases [OF run] br sw have res: "r = failed (run_failed ret)"
      "st' = ?st1" "evs = ?ev1 @ [Run img]"
      by auto
    have a: "filter is_run evs = [Run img]" "filter is_result_callback evs = []"
      "filter is_perf_callback evs = []"
      unfolding res(3) using e1 by simp_all
    have b: "points st' = points st" "classes st' = classes st" "boxes st' = boxes st"
      "keypoints st' = keypoints st"
      using res(2) s1 by simp_all
    have c: "\<not> success r" using res(1) by (simp add: failed_def)
    from err a b c show ?thesis by simp
  qed
qed

lemma invoke_classes_outcome:
  "(run mdl img = MA_OK
    \<and> (\<exists>kept. extracted (invoke_config (config st)) mem cls_score (getClassResults mdl img) kept
          \<and> invoke_classes st img uc mem mdl =
              (Inr (st\<lparr>classes := map to_Class kept\<rparr>),
               Run img # (case classes_callback st of
                            None \<Rightarrow> [] | Some f \<Rightarrow> [ClassesCallback f (map to_Class kept) uc]))))
   \<or> (\<exists>ret. run mdl img = MA_ERR ret
          \<and> invoke_classes st img uc mem mdl = (Inl (run_failed ret), [Run img]))"
proof (cases "run mdl img")
  case MA_OK
  let ?kept = "if top_k_active st mem
               then sort_pop_front cls_score (stored_top_k st mem) (getClassResults mdl img)
               else getClassResults mdl img"
  have "extracted (invoke_config (config st)) mem cls_score (getClassResults mdl img) ?kept"
    by (rule extracted_sort_pop_front)
  moreover have "invoke_classes st img uc mem mdl =
      (Inr (st\<lparr>classes := map to_Class ?kept\<rparr>),
       Run img # (case classes_callback st of
                    None \<Rightarrow> [] | Some f \<Rightarrow> [ClassesCallback f (map to_Class ?kept) uc]))"
    using MA_OK by (simp add: invoke_classes_def Let_def)
  ultimately show ?thesis using MA_OK by blast
next
  case (MA_ERR ret)
  then show ?thesis by (simp add: invoke_classes_def)
qed

lemma invoke_run_classes:
  assumes run: "invoke_run st img cfg uc mem mdl = (r, st', evs)"
    and sw: "invoke_switch (getType mdl) (fst (apply_invoke_config st cfg mem)) img uc mem mdl =
             invoke_classes (fst (apply_invoke_config st cfg mem)) img uc mem mdl"
  shows "filter is_run evs = [Run img]
    \<and> points st' = points st \<and> boxes st' = boxes st \<and> keypoints st' = keypoints st
    \<and> (run mdl img = MA_OK \<longrightarrow>
          success r
        \<and> (\<exists>kept. extracted (invoke_config (config st')) mem cls_score (getClassResults mdl img) kept
              \<and> classes st' = map to_Class kept
              \<and> filter is_result_callback evs =
                  (case classes_callback st of
                     None \<Rightarrow> [] | Some f \<Rightarrow> [ClassesCallback f (map to_Class kept) uc]))
        \<and> perf st' = to_Perf (getPerf mdl)
        \<and> filter is_perf_callback evs =
            (case perf_callback st of
               None \<Rightarrow> [] | Some f \<Rightarrow> [PerfCallback f (to_Perf (getPerf mdl)) uc]))
    \<and> (run mdl img \<noteq> MA_OK \<longrightarrow>
          \<not> success r \<and> classes st' = classes st \<and> filter is_result_callback evs = [] \<and> filter is_perf_callback evs = [])"
proof -
  let ?st1 = "fst (apply_invoke_config st cfg mem)"
  let ?ev1 = "snd (apply_invoke_config st cfg mem)"
  have e1: "filter is_run ?ev1 = []" "filter is_result_callback ?ev1 = []"
    "filter is_perf_callback ?ev1 = []"
    by (simp_all add: apply_invoke_config_events split: option.splits)
  have s1: "classes ?st1 = classes st" "points ?st1 = points st" "boxes ?st1 = boxes st"
    "keypoints ?st1 = keypoints st" "classes_callback ?st1 = classes_callback st" "perf_callback ?st1 = perf_callback st"
    by (simp_all add: apply_invoke_config_state)
  from invoke_classes_outcome [of mdl img ?st1 mem uc] show ?thesis
  proof (elim disjE conjE exE)
    fix kept
    assume ok: "run mdl img = MA_OK"
      and ex: "extracted (invoke_config (config ?st1)) mem cls_score (getClassResults mdl img) kept"
      and br: "invoke_classes ?st1 img uc mem mdl =
          (Inr (?st1\<lparr>classes := map to_Class kept\<rparr>),
           Run img # (case classes_callback ?st1 of
                        None \<Rightarrow> [] | Some f \<Rightarrow> [ClassesCallback f (map to_Class kept) uc]))"
    from invoke_run_cases [OF run] br sw have res: "r = succeeded"
      "st' = ?st1\<lparr>classes := map to_Class kept, perf := to_Perf (getPerf mdl)\<rparr>"
      "evs = ?ev1 @ (Run img # (case classes_callback ?st1 of
                        None \<Rightarrow> [] | Some f \<Rightarrow> [ClassesCallback f (map to_Class kept) uc])) @
             (case perf_callback ?st1 of
                None \<Rightarrow> [] | Some f \<Rightarrow> [PerfCallback f (to_Perf (getPerf mdl)) uc])"
      by auto
    have a: "filter is_run evs = [Run img]"
      unfolding res(3) using e1 by (simp split: option.splits)
    have b: "points st' = points st" "boxes st' = boxes st" "keypoints st' = keypoints st"
      using res(2) s1 by simp_all
    have c: "success r" using res(1) by (simp add: succeeded_def)
    have k: "\<exists>kept. extracted (invoke_config (config st')) mem cls_score (getClassResults mdl img) kept
          \<and> classes st' = map to_Class kept
          \<and> filter is_result_callback evs =
              (case classes_callback st of
                 None \<Rightarrow> [] | Some f \<Rightarrow> [ClassesCallback f (map to_Class kept) uc])"
    proof (intro exI [of _ kept] conjI)
      show "extracted (invoke_config (config st')) mem cls_score (getClassResults mdl img) kept"
        using ex res(2) by simp
      show "classes st' = map to_Class kept" using res(2) by simp
      show "filter is_result_callback evs =
              (case classes_callback st of
                 None \<Rightarrow> [] | Some f \<Rightarrow> [ClassesCallback f (map to_Class kept) uc])"
        unfolding res(3) using e1 s1 by (simp split: option.splits)
    qed
    have p: "perf st' = to_Perf (getPerf mdl)" using res(2) by simp
    have q: "filter is_perf_callback evs =
        (case perf_callback st of
           None \<Rightarrow> [] | Some f \<Rightarrow> [PerfCallback f (to_Perf (getPerf mdl)) uc])"
      unfolding res(3) using e1 s1 by (simp split: option.splits)
    from ok a b c k p q show ?thesis by simp
  next
    fix ret
    assume err: "run mdl img = MA_ERR ret"
      and br: "invoke_classes ?st1 img uc mem mdl = (Inl (run_failed ret), [Run img])"
    from invoke_run_cases [OF run] br sw have res: "r = failed (run_failed ret)"
      "st' = ?st1" "evs = ?ev1 @ [Run img]"
      by auto
    have a: "filter is_run evs = [Run img]" "filter is_result_callback evs = []"
      "filter is_perf_callback evs = []"
      unfolding res(3) using e1 by simp_all
    have b: "classes st' = classes st" "points st' = points st" "boxes st' = boxes st"
      "keypoints st' = keypoints st"
      using res(2) s1 by simp_all
    have c: "\<not> success r" using res(1) by (simp add: failed_def)
    from err a b c show ?thesis by simp
  qed
qed

lemma invoke_boxes_outcome:
  "(run mdl img = MA_OK
    \<and> (\<exists>kept. extracted (invoke_config (config st)) mem bbox_score (getBoxResults mdl img) kept
          \<and> invoke_boxes st img uc mem mdl =
              (Inr (st\<lparr>boxes := map to_Box kept\<rparr>),
               Run img # (case boxes_callback st of
                            None \<Rightarrow> [] | Some f \<Rightarrow> [BoxesCallback f (map to_Box kept) uc]))))
   \<or> (\<exists>ret. run mdl img = MA_ERR ret
          \<and> invoke_boxes st img uc mem mdl = (Inl (run_failed ret), [Run img]))"
proof (cases "run mdl img")
  case MA_OK
  let ?kept = "if top_k_active st mem
               then sort_pop_front bbox_score (stored_top_k st mem) (getBoxResults mdl img)
               else getBoxResults mdl img"
  have "extracted (invoke_config (config st)) mem bbox_score (getBoxResults mdl img) ?kept"
    by (rule extracted_sort_pop_front)
  moreover have "invoke_boxes st img uc mem mdl =
      (Inr (st\<lparr>boxes := map to_Box ?kept\<rparr>),
       Run img # (case boxes_callback st of
                    None \<Rightarrow> [] | Some f \<Rightarrow> [BoxesCallback f (map to_Box ?kept) uc]))"
    using MA_OK by (simp add: invoke_boxes_def Let_def)
  ultimately show ?thesis using MA_OK by blast
next
  case (MA_ERR ret)
  then show ?thesis by (simp add: invoke_boxes_def)
qed

lemma invoke_run_boxes:
  assumes run: "invoke_run st img cfg uc mem mdl = (r, st', evs)"
    and sw: "invoke_switch (getType mdl) (fst (apply_invoke_config st cfg mem)) img uc mem mdl =
             invoke_boxes (fst (apply_invoke_config st cfg mem)) img uc mem mdl"
  shows "filter is_run evs = [Run img]
    \<and> points st' = points st \<and> classes st' = classes st \<and> keypoints st' = keypoints st
    \<and> (run mdl img = MA_OK \<longrightarrow>
          success r
        \<and> (\<exists>kept. extracted (invoke_config (config st')) mem bbox_score (getBoxResults mdl img) kept
              \<and> boxes st' = map to_Box kept
              \<and> filter is_result_callback evs =
                  (case boxes_callback st of
                     None \<Rightarrow> [] | Some f \<Rightarrow> [BoxesCallback f (map to_Box kept) uc]))
        \<and> perf st' = to_Perf (getPerf mdl)
        \<and> filter is_perf_callback evs =
            (case perf_callback st of
               None \<Rightarrow> [] | Some f \<Rightarrow> [PerfCallback f (to_Perf (getPerf mdl)) uc]))
    \<and> (run mdl img \<noteq> MA_OK \<longrightarrow>
          \<not> success r \<and> boxes st' = boxes st \<and> filter is_result_callback evs = [] \<and> filter is_perf_callback evs = [])"
proof -
  let ?st1 = "fst (apply_invoke_config st cfg mem)"
  let ?ev1 = "snd (apply_invoke_config st cfg mem)"
  have e1: "filter is_run ?ev1 = []" "filter is_result_callback ?ev1 = []"
    "filter is_perf_callback ?ev1 = []"
    by (simp_all add: apply_invoke_config_events split: option.splits)
  have s1: "boxes ?st1 = boxes st" "points ?st1 = points st" "classes ?st1 = classes st"
    "keypoints ?st1 = keypoints st" "boxes_callback ?st1 = boxes_callback st" "perf_callback ?st1 = perf_callback st"
    by (simp_all add: apply_invoke_config_state)
  from invoke_boxes_outcome [of mdl img ?st1 mem uc] show ?thesis
  proof (elim disjE conjE exE)
    fix kept
    assume ok: "run mdl img = MA_OK"
      and ex: "extracted (invoke_config (config ?st1)) mem bbox_score (getBoxResults mdl img) kept"
      and br: "invoke_boxes ?st1 img uc mem mdl =
          (Inr (?st1\<lparr>boxes := map to_Box kept\<rparr>),
           Run img # (case boxes_callback ?st1 of
                        None \<Rightarrow> [] | Some f \<Rightarrow> [BoxesCallback f (map to_Box kept) uc]))"
    from invoke_run_cases [OF run] br sw have res: "r = succeeded"
      "st' = ?st1\<lparr>boxes := map to_Box kept, perf := to_Perf (getPerf mdl)\<rparr>"
      "evs = ?ev1 @ (Run img # (case boxes_callback ?st1 of
                        None \<Rightarrow> [] | Some f \<Rightarrow> [BoxesCallback f (map to_Box kept) uc])) @
             (case perf_callback ?st1 of
                None \<Rightarrow> [] | Some f \<Rightarrow> [PerfCallback f (to_Perf (getPerf mdl)) uc])"
      by auto
    have a: "filter is_run evs = [Run img]"
      unfolding res(3) using e1 by (simp split: option.splits)
    have b: "points st' = points st" "classes st' = classes st" "keypoints st' = keypoints st"
      using res(2) s1 by simp_all
    have c: "success r" using res(1) by (simp add: succeeded_def)
    have k: "\<exists>kept. extracted (invoke_config (config st')) mem bbox_score (getBoxResults mdl img) kept
          \<and> boxes st' = map to_Box kept
          \<and> filter is_result_callback evs =
              (case boxes_callback st of
                 None \<Rightarrow> [] | Some f \<Rightarrow> [BoxesCallback f (map to_Box kept) uc])"
    proof (intro exI [of _ kept] conjI)
      show "extracted (invoke_config (config st')) mem bbox_score (getBoxResults mdl img) kept"
        using ex res(2) by simp
      show "boxes st' = map to_Box kept" using res(2) by simp
      show "filter is_result_callback evs =
              (case boxes_callback st of
                 None \<Rightarrow> [] | Some f \<Rightarrow> [BoxesCallback f (map to_Box kept) uc])"
        unfolding res(3) using e1 s1 by (simp split: option.splits)
    qed
    have p: "perf st' = to_Perf (getPerf mdl)" using res(2) by simp
    have q: "filter is_perf_callback evs =
        (case perf_callback st of
           None \<Rightarrow> [] | Some f \<Rightarrow> [PerfCallback f (to_Perf (getPerf mdl)) uc])"
      unfolding res(3) using e1 s1 by (simp split: option.splits)
    from ok a b c k p q show ?thesis by simp
  next
    fix ret
    assume err: "run mdl img = MA_ERR ret"
      and br: "invoke_boxes ?st1 img uc mem mdl = (Inl (run_failed ret), [Run img])"
    from invoke_run_cases [OF run] br sw have res: "r = failed (run_failed ret)"
      "st' = ?st1" "evs = ?ev1 @ [Run img]"
      by auto
    have a: "filter is_run evs = [Run img]" "filter is_result_callback evs = []"
      "filter is_perf_callback evs = []"
      unfolding res(3) using e1 by simp_all
    have b: "boxes st' = boxes st" "points st' = points st" "classes st' = classes st"
      "keypoints st' = keypoints st"
      using res(2) s1 by simp_all
    have c: "\<not> success r" using res(1) by (simp add: failed_def)
    from err a b c show ?thesis by simp
  qed
qed

lemma invoke_keypoints_outcome:
  "(run mdl img = MA_OK
    \<and> (\<exists>kept. extracted (invoke_config (config st)) mem (\<lambda>r. bbox_score (k3_box r)) (getKeypointResults mdl img) kept
          \<and> invoke_keypoints st img uc mem mdl =
              (Inr (st\<lparr>keypoints := map to_Keypoints kept\<rparr>),
               Run img # (case keypoints_callback st of
                            None \<Rightarrow> [] | Some f \<Rightarrow> [KeypointsCallback f (map to_Keypoints kept) uc]))))
   \<or> (\<exists>ret. run mdl img = MA_ERR ret
          \<and> invoke_keypoints st img uc mem mdl = (Inl (run_failed ret), [Run img]))"
proof (cases "run mdl img")
  case MA_OK
  let ?kept = "if top_k_active st mem
               then sort_resize (\<lambda>r. bbox_score (k3_box r)) (stored_top_k st mem) (getKeypointResults mdl img)
               else getKeypointResults mdl img"
  have "extracted (invoke_config (config st)) mem (\<lambda>r. bbox_score (k3_box r)) (getKeypointResults mdl img) ?kept"
    by (rule extracted_sort_resize)
  moreover have "invoke_keypoints st img uc mem mdl =
      (Inr (st\<lparr>keypoints := map to_Keypoints ?kept\<rparr>),
       Run img # (case keypoints_callback st of
                    None \<Rightarrow> [] | Some f \<Rightarrow> [KeypointsCallback f (map to_Keypoints ?kept) uc]))"
    using MA_OK by (simp add: invoke_keypoints_def Let_def)
  ultimately show ?thesis using MA_OK by blast
next
  case (MA_ERR ret)
  then show ?thesis by (simp add: invoke_keypoints_def)
qed

lemma invoke_run_keypoints:
  assumes run: "invoke_run st img cfg uc mem mdl = (r, st', evs)"
    and sw: "invoke_switch (getType mdl) (fst (apply_invoke_config st cfg mem)) img uc mem mdl =
             invoke_keypoints (fst (apply_invoke_config st cfg mem)) img uc mem mdl"
  shows "filter is_run evs = [Run img]
    \<and> points st' = points st \<and> classes st' = classes st \<and> boxes st' = boxes st
    \<and> (run mdl img = MA_OK \<longrightarrow>
          success r
        \<and> (\<exists>kept. extracted (invoke_config (config st')) mem (\<lambda>r. bbox_score (k3_box r)) (getKeypointResults mdl img) kept
              \<and> keypoints st' = map to_Keypoints kept
              \<and> filter is_result_callback evs =
                  (case keypoints_callback st of
                     None \<Rightarrow> [] | Some f \<Rightarrow> [KeypointsCallback f (map to_Keypoints kept) uc]))
        \<and> perf st' = to_Perf (getPerf mdl)
        \<and> filter is_perf_callback evs =
            (case perf_callback st of
               None \<Rightarrow> [] | Some f \<Rightarrow> [PerfCallback f (to_Perf (getPerf mdl)) uc]))
    \<and> (run mdl img \<noteq> MA_OK \<longrightarrow>
          \<not> success r \<and> keypoints st' = keypoints st \<and> filter is_result_callback evs = [] \<and> filter is_perf_callback evs = [])"
proof -
  let ?st1 = "fst (apply_invoke_config st cfg mem)"
  let ?ev1 = "snd (apply_invoke_config st cfg mem)"
  have e1: "filter is_run ?ev1 = []" "filter is_result_callback ?ev1 = []"
    "filter is_perf_callback ?ev1 = []"
    by (simp_all add: apply_invoke_config_events split: option.splits)
  have s1: "keypoints ?st1 = keypoints st" "points ?st1 = points st" "classes ?st1 = classes st"
    "boxes ?st1 = boxes st" "keypoints_callback ?st1 = keypoints_callback st" "perf_callback ?st1 = perf_callback st"
    by (simp_all add: apply_invoke_config_state)
  from invoke_keypoints_outcome [of mdl img ?st1 mem uc] show ?thesis
  proof (elim disjE conjE exE)
    fix kept
    assume ok: "run mdl img = MA_OK"
      and ex: "extracted (invoke_config (config ?st1)) mem (\<lambda>r. bbox_score (k3_box r)) (getKeypointResults mdl img) kept"
      and br: "invoke_keypoints ?st1 img uc mem mdl =
          (Inr (?st1\<lparr>keypoints := map to_Keypoints kept\<rparr>),
           Run img # (case keypoints_callback ?st1 of
                        None \<Rightarrow> [] | Some f \<Rightarrow> [KeypointsCallback f (map to_Keypoints kept) uc]))"
    from invoke_run_cases [OF run] br sw have res: "r = succeeded"
      "st' = ?st1\<lparr>keypoints := map to_Keypoints kept, perf := to_Perf (getPerf mdl)\<rparr>"
      "evs = ?ev1 @ (Run img # (case keypoints_callback ?st1 of
                        None \<Rightarrow> [] | Some f \<Rightarrow> [KeypointsCallback f (map to_Keypoints kept) uc])) @
             (case perf_callback ?st1 of
                None \<Rightarrow> [] | Some f \<Rightarrow> [PerfCallback f (to_Perf (getPerf mdl)) uc])"
      by auto
    have a: "filter is_run evs = [Run img]"
      unfolding res(3) using e1 by (simp split: option.splits)
    have b: "points st' = points st" "classes st' = classes st" "boxes st' = boxes st"
      using res(2) s1 by simp_all
    have c: "success r" using res(1) by (simp add: succeeded_def)
    have k: "\<exists>kept. extracted (invoke_config (config st')) mem (\<lambda>r. bbox_score (k3_box r)) (getKeypointResults mdl img) kept
          \<and> keypoints st' = map to_Keypoints kept
          \<and> filter is_result_callback evs =
              (case keypoints_callback st of
                 None \<Rightarrow> [] | Some f \<Rightarrow> [KeypointsCallback f (map to_Keypoints kept) uc])"
    proof (intro exI [of _ kept] conjI)
      show "extracted (invoke_config (config st')) mem (\<lambda>r. bbox_score (k3_box r)) (getKeypointResults mdl img) kept"
        using ex res(2) by simp
      show "keypoints st' = map to_Keypoints kept" using res(2) by simp
      show "filter is_result_callback evs =
              (case keypoints_callback st of
                 None \<Rightarrow> [] | Some f \<Rightarrow> [KeypointsCallback f (map to_Keypoints kept) uc])"
        unfolding res(3) using e1 s1 by (simp split: option.splits)
    qed
    have p: "perf st' = to_Perf (getPerf mdl)" using res(2) by simp
    have q: "filter is_perf_callback evs =
        (case perf_callback st of
           None \<Rightarrow> [] | Some f \<Rightarrow> [PerfCallback f (to_Perf (getPerf mdl)) uc])"
      unfolding res(3) using e1 s1 by (simp split: option.splits)
    from ok a b c k p q show ?thesis by simp
  next
    fix ret
    assume err: "run mdl img = MA_ERR ret"
      and br: "invoke_keypoints ?st1 img uc mem mdl = (Inl (run_failed ret), [Run img])"
    from invoke_run_cases [OF run] br sw have res: "r = failed (run_failed ret)"
      "st' = ?st1" "evs = ?ev1 @ [Run img]"
      by auto
    have a: "filter is_run evs = [Run img]" "filter is_result_callback evs = []"
      "filter is_perf_callback evs = []"
      unfolding res(3) using e1 by simp_all
    have b: "keypoints st' = keypoints st" "points st' = points st" "classes st' = classes st"
      "boxes st' = boxes st"
      using res(2) s1 by simp_all
    have c: "\<not> success r" using res(1) by (simp add: failed_def)
    from err a b c show ?thesis by simp
  qed
qed

lemma invoke_run_default:
  assumes run: "invoke_run st img cfg uc mem mdl = (r, st', evs)"
    and t: "getType mdl \<notin> {MA_MODEL_TYPE_PFLD, MA_MODEL_TYPE_IMCLS, MA_MODEL_TYPE_FOMO,
                       MA_MODEL_TYPE_YOLOV5, MA_MODEL_TYPE_YOLOV8, MA_MODEL_TYPE_NVIDIA_DET,
                       MA_MODEL_TYPE_YOLO_WORLD, MA_MODEL_TYPE_YOLOV8_POSE}"
  shows "success r \<and> filter is_run evs = [] \<and> filter is_result_callback evs = []
    \<and> points st' = points st \<and> classes st' = classes st \<and> boxes st' = boxes st
    \<and> keypoints st' = keypoints st \<and> perf st' = to_Perf (getPerf mdl)
    \<and> filter is_perf_callback evs =
        (case perf_callback st of
           None \<Rightarrow> [] | Some f \<Rightarrow> [PerfCallback f (to_Perf (getPerf mdl)) uc])"
proof -
  let ?st1 = "fst (apply_invoke_config st cfg mem)"
  let ?ev1 = "snd (apply_invoke_config st cfg mem)"
  from t have sw: "invoke_switch (getType mdl) ?st1 img uc mem mdl = (Inr ?st1, [])"
    by (cases "getType mdl") auto
  have e1: "filter is_run ?ev1 = []" "filter is_result_callback ?ev1 = []"
    "filter is_perf_callback ?ev1 = []"
    by (simp_all add: apply_invoke_config_events split: option.splits)
  have s1: "points ?st1 = points st" "classes ?st1 = classes st" "boxes ?st1 = boxes st"
    "keypoints ?st1 = keypoints st" "perf_callback ?st1 = perf_callback st"
    by (simp_all add: apply_invoke_config_state)
  from invoke_run_cases [OF run] sw have res: "r = succeeded"
    "st' = ?st1\<lparr>perf := to_Perf (getPerf mdl)\<rparr>"
    "evs = ?ev1 @ (case perf_callback ?st1 of
                None \<Rightarrow> [] | Some f \<Rightarrow> [PerfCallback f (to_Perf (getPerf mdl)) uc])"
    by auto
  have a: "filter is_run evs = []" "filter is_result_callback evs = []"
    unfolding res(3) using e1 by (simp_all split: option.splits)
  have q: "filter is_perf_callback evs =
        (case perf_callback st of
           None \<Rightarrow> [] | Some f \<Rightarrow> [PerfCallback f (to_Perf (getPerf mdl)) uc])"
    unfolding res(3) using e1 s1 by (simp split: option.splits)
  from res(1,2) s1 a q show ?thesis by (simp add: succeeded_def)
qed

text \<open>The case of the switch for each tag.\<close>

lemma invoke_switch_tag:
  "t = MA_MODEL_TYPE_PFLD \<Longrightarrow> invoke_switch t s img uc mem mdl = invoke_points s img uc mem mdl"
  "t = MA_MODEL_TYPE_IMCLS \<Longrightarrow> invoke_switch t s img uc mem mdl = invoke_classes s img uc mem mdl"
  "t \<in> {MA_MODEL_TYPE_FOMO, MA_MODEL_TYPE_YOLOV5, MA_MODEL_TYPE_YOLOV8,
                       MA_MODEL_TYPE_NVIDIA_DET, MA_MODEL_TYPE_YOLO_WORLD} \<Longrightarrow>
     invoke_switch t s img uc mem mdl = invoke_boxes s img uc mem mdl"
  "t = MA_MODEL_TYPE_YOLOV8_POSE \<Longrightarrow>
     invoke_switch t s img uc mem mdl = invoke_keypoints s img uc mem mdl"
  by auto

section \<open>Callbacks\<close>

lemma invoke_switch_callbacks:
  assumes "invoke_switch t s img uc mem mdl = (Inr s2, ev2)"
  shows "filter is_perf_callback ev2 = []" "perf_callback s2 = perf_callback s"
  using assms
  by (cases t;
      auto dest!: invoke_points_Inr invoke_classes_Inr invoke_boxes_Inr invoke_keypoints_Inr
           split: option.splits)+


text \<open>
  C5: for every successful \<open>invoke\<close>, the callbacks for results that are called are: the
  one registered for the result type of the model's branch, once, with the caller's
  \<open>user_context\<close> and the list that the branch extracted from the results the engine gives
  for the converted frame, which is also the list stored; none if it is not registered or
  the model type has no branch. The perf callback, when registered, is called once with
  the model's preprocess, inference and postprocess times.
\<close>

theorem invoke_callbacks:
  assumes "invoke st frame cfg uc mem mdl = (r, st', evs)" and "success r"
    and "frame_to_img frame = Some img"
  shows "(getType mdl = MA_MODEL_TYPE_PFLD \<longrightarrow>
      (\<exists>kept. extracted (invoke_config (config st')) mem pt_score (getPointResults mdl img) kept
          \<and> points st' = map to_Point kept
          \<and> filter is_result_callback evs =
              (case points_callback st of
                 None \<Rightarrow> [] | Some f \<Rightarrow> [PointsCallback f (map to_Point kept) uc])))
 \<and> (getType mdl = MA_MODEL_TYPE_IMCLS \<longrightarrow>
      (\<exists>kept. extracted (invoke_config (config st')) mem cls_score (getClassResults mdl img) kept
          \<and> classes st' = map to_Class kept
          \<and> filter is_result_callback evs =
              (case classes_callback st of
                 None \<Rightarrow> [] | Some f \<Rightarrow> [ClassesCallback f (map to_Class kept) uc])))
 \<and> (getType mdl \<in> {MA_MODEL_TYPE_FOMO, MA_MODEL_TYPE_YOLOV5, MA_MODEL_TYPE_YOLOV8,
        MA_MODEL_TYPE_NVIDIA_DET, MA_MODEL_TYPE_YOLO_WORLD} \<longrightarrow>
      (\<exists>kept. extracted (invoke_config (config st')) mem bbox_score (getBoxResults mdl img) kept
          \<and> boxes st' = map to_Box kept
          \<and> filter is_result_callback evs =
              (case boxes_callback st of
                 None \<Rightarrow> [] | Some f \<Rightarrow> [BoxesCallback f (map to_Box kept) uc])))
 \<and> (getType mdl = MA_MODEL_TYPE_YOLOV8_POSE \<longrightarrow>
      (\<exists>kept. extracted (invoke_config (config st')) mem (\<lambda>r. bbox_score (k3_box r)) (getKeypointResults mdl img) kept
          \<and> keypoints st' = map to_Keypoints kept
          \<and> filter is_result_callback evs =
              (case keypoints_callback st of
                 None \<Rightarrow> [] | Some f \<Rightarrow> [KeypointsCallback f (map to_Keypoints kept) uc])))
 \<and> (getType mdl \<notin> {MA_MODEL_TYPE_PFLD, MA_MODEL_TYPE_IMCLS, MA_MODEL_TYPE_FOMO,
                       MA_MODEL_TYPE_YOLOV5, MA_MODEL_TYPE_YOLOV8, MA_MODEL_TYPE_NVIDIA_DET,
                       MA_MODEL_TYPE_YOLO_WORLD, MA_MODEL_TYPE_YOLOV8_POSE} \<longrightarrow>
      filter is_result_callback evs = [])
 \<and> filter is_perf_callback evs =
      (case perf_callback st of
         None \<Rightarrow> []
       | Some f \<Rightarrow>
           [PerfCallback f
              \<lparr>preprocess = word_of_int (perf_preprocess (getPerf mdl)),
               inference = word_of_int (perf_inference (getPerf mdl)),
               postprocess = word_of_int (perf_postprocess (getPerf mdl))\<rparr> uc])"
proof -
  from invoke_success_passes [of st frame cfg uc mem mdl] assms(1,2)
  have acc: "accepted st frame" by simp
  from invoke_passes [OF acc, of cfg uc mem mdl] assms(1,3)
  have run: "invoke_run st img cfg uc mem mdl = (r, st', evs)" by auto
  have ps: "getType mdl = MA_MODEL_TYPE_PFLD \<longrightarrow>
      (\<exists>kept. extracted (invoke_config (config st')) mem pt_score (getPointResults mdl img) kept
          \<and> points st' = map to_Point kept
          \<and> filter is_result_callback evs =
              (case points_callback st of
                 None \<Rightarrow> [] | Some f \<Rightarrow> [PointsCallback f (map to_Point kept) uc]))"
  proof
    assume t: "getType mdl = MA_MODEL_TYPE_PFLD"
    from invoke_run_points [OF run invoke_switch_tag(1) [OF t]] assms(2)
    show "(\<exists>kept. extracted (invoke_config (config st')) mem pt_score (getPointResults mdl img) kept
        \<and> points st' = map to_Point kept
        \<and> filter is_result_callback evs =
            (case points_callback st of
               None \<Rightarrow> [] | Some f \<Rightarrow> [PointsCallback f (map to_Point kept) uc]))"
      by (cases "run mdl img = MA_OK") blast+
  qed
  have cs: "getType mdl = MA_MODEL_TYPE_IMCLS \<longrightarrow>
      (\<exists>kept. extracted (invoke_config (config st')) mem cls_score (getClassResults mdl img) kept
          \<and> classes st' = map to_Class kept
          \<and> filter is_result_callback evs =
              (case classes_callback st of
                 None \<Rightarrow> [] | Some f \<Rightarrow> [ClassesCallback f (map to_Class kept) uc]))"
  proof
    assume t: "getType mdl = MA_MODEL_TYPE_IMCLS"
    from invoke_run_classes [OF run invoke_switch_tag(2) [OF t]] assms(2)
    show "(\<exists>kept. extracted (invoke_config (config st')) mem cls_score (getClassResults mdl img) kept
        \<and> classes st' = map to_Class kept
        \<and> filter is_result_callback evs =
            (case classes_callback st of
               None \<Rightarrow> [] | Some f \<Rightarrow> [ClassesCallback f (map to_Class kept) uc]))"
      by (cases "run mdl img = MA_OK") blast+
  qed
  have bs: "getType mdl \<in> {MA_MODEL_TYPE_FOMO, MA_MODEL_TYPE_YOLOV5, MA_MODEL_TYPE_YOLOV8,
        MA_MODEL_TYPE_NVIDIA_DET, MA_MODEL_TYPE_YOLO_WORLD} \<longrightarrow>
      (\<exists>kept. extracted (invoke_config (config st')) mem bbox_score (getBoxResults mdl img) kept
          \<and> boxes st' = map to_Box kept
          \<and> filter is_result_callback evs =
              (case boxes_callback st of
                 None \<Rightarrow> [] | Some f \<Rightarrow> [BoxesCallback f (map to_Box kept) uc]))"
  proof
    assume t: "getType mdl \<in> {MA_MODEL_TYPE_FOMO, MA_MODEL_TYPE_YOLOV5, MA_MODEL_TYPE_YOLOV8,
        MA_MODEL_TYPE_NVIDIA_DET, MA_MODEL_TYPE_YOLO_WORLD}"
    from invoke_run_boxes [OF run invoke_switch_tag(3) [OF t]] assms(2)
    show "(\<exists>kept. extracted (invoke_config (config st')) mem bbox_score (getBoxResults mdl img) kept
        \<and> boxes st' = map to_Box kept
        \<and> filter is_result_callback evs =
            (case boxes_callback st of
               None \<Rightarrow> [] | Some f \<Rightarrow> [BoxesCallback f (map to_Box kept) uc]))"
      by (cases "run mdl img = MA_OK") blast+
  qed
  have ks: "getType mdl = MA_MODEL_TYPE_YOLOV8_POSE \<longrightarrow>
      (\<exists>kept. extracted (invoke_config (config st')) mem (\<lambda>r. bbox_score (k3_box r)) (getKeypointResults mdl img) kept
          \<and> keypoints st' = map to_Keypoints kept
          \<and> filter is_result_callback evs =
              (case keypoints_callback st of
                 None \<Rightarrow> [] | Some f \<Rightarrow> [KeypointsCallback f (map to_Keypoints kept) uc]))"
  proof
    assume t: "getType mdl = MA_MODEL_TYPE_YOLOV8_POSE"
    from invoke_run_keypoints [OF run invoke_switch_tag(4) [OF t]] assms(2)
    show "(\<exists>kept. extracted (invoke_config (config st')) mem (\<lambda>r. bbox_score (k3_box r)) (getKeypointResults mdl img) kept
        \<and> keypoints st' = map to_Keypoints kept
        \<and> filter is_result_callback evs =
            (case keypoints_callback st of
               None \<Rightarrow> [] | Some f \<Rightarrow> [KeypointsCallback f (map to_Keypoints kept) uc]))"
      by (cases "run mdl img = MA_OK") blast+
  qed
  have und: "getType mdl \<notin> {MA_MODEL_TYPE_PFLD, MA_MODEL_TYPE_IMCLS, MA_MODEL_TYPE_FOMO,
                       MA_MODEL_TYPE_YOLOV5, MA_MODEL_TYPE_YOLOV8, MA_MODEL_TYPE_NVIDIA_DET,
                       MA_MODEL_TYPE_YOLO_WORLD, MA_MODEL_TYPE_YOLOV8_POSE} \<longrightarrow>
      filter is_result_callback evs = []"
    using invoke_run_default [OF run] by blast
  have pf: "filter is_perf_callback evs =
      (case perf_callback st of
         None \<Rightarrow> []
       | Some f \<Rightarrow>
           [PerfCallback f
              \<lparr>preprocess = word_of_int (perf_preprocess (getPerf mdl)),
               inference = word_of_int (perf_inference (getPerf mdl)),
               postprocess = word_of_int (perf_postprocess (getPerf mdl))\<rparr> uc])"
  proof -
    from invoke_success [OF assms(1,2)] obtain img2 st2 ev2 where
      sw: "invoke_switch (getType mdl) (fst (apply_invoke_config st cfg mem)) img2 uc mem mdl =
           (Inr st2, ev2)"
      and evs: "evs = snd (apply_invoke_config st cfg mem) @ ev2 @
           (case perf_callback st2 of
              None \<Rightarrow> [] | Some f \<Rightarrow> [PerfCallback f (to_Perf (getPerf mdl)) uc])"
      by blast
    have e1: "filter is_perf_callback (snd (apply_invoke_config st cfg mem)) = []"
      by (simp add: apply_invoke_config_events split: option.splits)
    from invoke_switch_callbacks [OF sw]
    have e2: "filter is_perf_callback ev2 = []"
      and c2: "perf_callback st2 = perf_callback st"
      by (simp_all add: apply_invoke_config_state)
    show ?thesis
      unfolding evs using e1 e2 c2 by (simp add: to_Perf_def split: option.splits)
  qed
  from ps cs bs ks und pf show ?thesis by blast
qed

lemma ex_model_fields:
  "getType (ex_model t) = t" "run (ex_model t) img = MA_OK"
  "getPointResults (ex_model t) img = [ex_point (1 / 2) 0, ex_point (9 / 10) 1, ex_point (1 / 4) 2]"
  "getPerf (ex_model t) = \<lparr>perf_preprocess = 3, perf_inference = 40, perf_postprocess = 5\<rparr>"
  by (simp_all add: ex_model_def)

lemma ex_config_None:
  "invoke_config (config (fst (snd (invoke ex_core ex_frame None uc ex_mem (ex_model t))))) = None"
  by (cases t) (simp_all add: ex_defs invoke_defs)

lemma extracted_None: "extracted None mem sc results kept \<Longrightarrow> kept = results"
  by (simp add: extracted_def truncated_to_def)

theorem invoke_callbacks_witness:
  "success (fst (invoke ex_core ex_frame None (Some 9) ex_mem (ex_model MA_MODEL_TYPE_PFLD)))
 \<and> filter is_result_callback
      (snd (snd (invoke ex_core ex_frame None (Some 9) ex_mem (ex_model MA_MODEL_TYPE_PFLD)))) =
     [PointsCallback 3
        (map to_Point [ex_point (1 / 2) 0, ex_point (9 / 10) 1, ex_point (1 / 4) 2]) (Some 9)]
 \<and> filter is_perf_callback
      (snd (snd (invoke ex_core ex_frame None (Some 9) ex_mem (ex_model MA_MODEL_TYPE_PFLD)))) =
     [PerfCallback 5 \<lparr>preprocess = 3, inference = 40, postprocess = 5\<rparr> (Some 9)]
 \<and> filter is_result_callback
      (snd (snd (invoke ex_core ex_frame None (Some 9) ex_mem (ex_model MA_MODEL_TYPE_UNDEFINED)))) =
     []"
proof -
  have col: "X = (fst X, fst (snd X), snd (snd X))" for X :: "Expected \<times> core \<times> event list"
    by simp
  note th = invoke_callbacks [OF col _ ex_img, where st = ex_core and mem = ex_mem
                                and cfg = None and uc = "Some 9"]
  note pf = th [where mdl = "ex_model MA_MODEL_TYPE_PFLD", OF ex_success]
  note un = th [where mdl = "ex_model MA_MODEL_TYPE_UNDEFINED", OF ex_success]
  have c: "points_callback ex_core = Some 3" "perf_callback ex_core = Some 5"
    by (simp_all add: ex_core_fields)
  from pf obtain kept where
    k: "extracted None ex_mem pt_score
          [ex_point (1 / 2) 0, ex_point (9 / 10) 1, ex_point (1 / 4) 2] kept"
    and e: "filter is_result_callback
      (snd (snd (invoke ex_core ex_frame None (Some 9) ex_mem (ex_model MA_MODEL_TYPE_PFLD)))) =
      [PointsCallback 3 (map to_Point kept) (Some 9)]"
    by (auto simp: ex_model_fields c ex_config_None)
  from extracted_None [OF k] e
  have 1: "filter is_result_callback
      (snd (snd (invoke ex_core ex_frame None (Some 9) ex_mem (ex_model MA_MODEL_TYPE_PFLD)))) =
     [PointsCallback 3
        (map to_Point [ex_point (1 / 2) 0, ex_point (9 / 10) 1, ex_point (1 / 4) 2]) (Some 9)]"
    by simp
  from pf
  have 2: "filter is_perf_callback
      (snd (snd (invoke ex_core ex_frame None (Some 9) ex_mem (ex_model MA_MODEL_TYPE_PFLD)))) =
     [PerfCallback 5 \<lparr>preprocess = 3, inference = 40, postprocess = 5\<rparr> (Some 9)]"
    by (simp add: ex_model_fields c)
  from un
  have 3: "filter is_result_callback
      (snd (snd (invoke ex_core ex_frame None (Some 9) ex_mem (ex_model MA_MODEL_TYPE_UNDEFINED)))) = []"
    by (simp add: ex_model_fields)
  from ex_success [of None "Some 9" MA_MODEL_TYPE_PFLD] 1 2 3 show ?thesis by simp
qed

section \<open>The classification branch\<close>

text \<open>
  C2: a classification result with score 0.9 and target 3 is stored and delivered as a
  \<open>Class\<close> with target 0 and score 3: the initialiser list of line 390 gives the score
  first, the struct declares the target first.
\<close>

theorem invoke_classes_swapped:
  "invoke ex_core ex_frame None None ex_mem
     (ex_model MA_MODEL_TYPE_IMCLS
        \<lparr>getClassResults := \<lambda>img. [\<lparr>cls_score = 9 / 10, cls_target = 3\<rparr>]\<rparr>) =
   (\<lparr>success = True, message = []\<rparr>,
    ex_core\<lparr>classes := [\<lparr>class_target = 0, class_score = 3\<rparr>],
            perf := \<lparr>preprocess = 3, inference = 40, postprocess = 5\<rparr>\<rparr>,
    [Run \<lparr>img_width = 240, img_height = 240, img_format = MA_PIXEL_FORMAT_RGB565,
          img_rotate = MA_PIXEL_ROTATE_90, img_timestamp = 12345, img_size = 115200,
          img_data = Some 4096\<rparr>,
     ClassesCallback 2 [\<lparr>class_target = 0, class_score = 3\<rparr>] None,
     PerfCallback 5 \<lparr>preprocess = 3, inference = 40, postprocess = 5\<rparr> None])"
  by (simp add: ex_defs invoke_defs)

section \<open>The switch on the model type\<close>

text \<open>
  C4, as stated, fails: on an accepted frame and a model of type \<open>MA_MODEL_TYPE_UNDEFINED\<close>
  no case of the switch extracts results; the model is not run, nothing is stored or
  delivered but the times, and the call succeeds.
\<close>

theorem invoke_dispatch_counterexample:
  "accepted ex_core ex_frame
 \<and> invoke ex_core ex_frame None None ex_mem (ex_model MA_MODEL_TYPE_UNDEFINED) =
     (\<lparr>success = True, message = []\<rparr>,
      ex_core\<lparr>perf := \<lparr>preprocess = 3, inference = 40, postprocess = 5\<rparr>\<rparr>,
      [PerfCallback 5 \<lparr>preprocess = 3, inference = 40, postprocess = 5\<rparr> None])"
  by (simp add: accepted_def passes_checks_def known_format_def ex_defs invoke_defs)

text \<open>
  C4, amended: an accepted call, one that passes the five checks on a frame of one of the
  four formats, dispatches on the type of the model. For \<open>MA_MODEL_TYPE_PFLD\<close> the model
  is run once, on the converted frame, and the lists of classes, boxes and keypoints stay
  as they were; if the run is OK the call succeeds, the list extracted from the point
  results of the engine is stored as the points and handed to the points callback, if
  one is registered; if the run is not OK the call fails, the points stay as they were
  and no callback for results is called. The same holds of \<open>MA_MODEL_TYPE_IMCLS\<close> and the
  classes, of \<open>MA_MODEL_TYPE_FOMO\<close>, \<open>YOLOV5\<close>, \<open>YOLOV8\<close>, \<open>NVIDIA_DET\<close>, \<open>YOLO_WORLD\<close> and the
  boxes, of \<open>MA_MODEL_TYPE_YOLOV8_POSE\<close> and the keypoints. For every other type no case is
  taken: the model is not run, the four lists stay as they were, no callback for results
  is called, the call succeeds, and the times of the model are stored and handed to the
  perf callback, if one is registered.
\<close>

theorem invoke_dispatch:
  assumes "accepted st frame" and "invoke st frame cfg uc mem mdl = (r, st', evs)"
    and "frame_to_img frame = Some img"
  shows "(getType mdl = MA_MODEL_TYPE_PFLD \<longrightarrow>
      filter is_run evs = [Run img]
      \<and> classes st' = classes st \<and> boxes st' = boxes st \<and> keypoints st' = keypoints st
      \<and> (run mdl img = MA_OK \<longrightarrow>
            success r
          \<and> (\<exists>kept. extracted (invoke_config (config st')) mem pt_score (getPointResults mdl img) kept
                \<and> points st' = map to_Point kept
                \<and> filter is_result_callback evs =
                    (case points_callback st of
                       None \<Rightarrow> [] | Some f \<Rightarrow> [PointsCallback f (map to_Point kept) uc])))
      \<and> (run mdl img \<noteq> MA_OK \<longrightarrow>
            \<not> success r \<and> points st' = points st \<and> filter is_result_callback evs = []))
 \<and> (getType mdl = MA_MODEL_TYPE_IMCLS \<longrightarrow>
      filter is_run evs = [Run img]
      \<and> points st' = points st \<and> boxes st' = boxes st \<and> keypoints st' = keypoints st
      \<and> (run mdl img = MA_OK \<longrightarrow>
            success r
          \<and> (\<exists>kept. extracted (invoke_config (config st')) mem cls_score (getClassResults mdl img) kept
                \<and> classes st' = map to_Class kept
                \<and> filter is_result_callback evs =
                    (case classes_callback st of
                       None \<Rightarrow> [] | Some f \<Rightarrow> [ClassesCallback f (map to_Class kept) uc])))
      \<and> (run mdl img \<noteq> MA_OK \<longrightarrow>
            \<not> success r \<and> classes st' = classes st \<and> filter is_result_callback evs = []))
 \<and> (getType mdl \<in> {MA_MODEL_TYPE_FOMO, MA_MODEL_TYPE_YOLOV5, MA_MODEL_TYPE_YOLOV8,
        MA_MODEL_TYPE_NVIDIA_DET, MA_MODEL_TYPE_YOLO_WORLD} \<longrightarrow>
      filter is_run evs = [Run img]
      \<and> points st' = points st \<and> classes st' = classes st \<and> keypoints st' = keypoints st
      \<and> (run mdl img = MA_OK \<longrightarrow>
            success r
          \<and> (\<exists>kept. extracted (invoke_config (config st')) mem bbox_score (getBoxResults mdl img) kept
                \<and> boxes st' = map to_Box kept
                \<and> filter is_result_callback evs =
                    (case boxes_callback st of
                       None \<Rightarrow> [] | Some f \<Rightarrow> [BoxesCallback f (map to_Box kept) uc])))
      \<and> (run mdl img \<noteq> MA_OK \<longrightarrow>
            \<not> success r \<and> boxes st' = boxes st \<and> filter is_result_callback evs = []))
 \<and> (getType mdl = MA_MODEL_TYPE_YOLOV8_POSE \<longrightarrow>
      filter is_run evs = [Run img]
      \<and> points st' = points st \<and> classes st' = classes st \<and> boxes st' = boxes st
      \<and> (run mdl img = MA_OK \<longrightarrow>
            success r
          \<and> (\<exists>kept. extracted (invoke_config (config st')) mem (\<lambda>r. bbox_score (k3_box r)) (getKeypointResults mdl img) kept
                \<and> keypoints st' = map to_Keypoints kept
                \<and> filter is_result_callback evs =
                    (case keypoints_callback st of
                       None \<Rightarrow> [] | Some f \<Rightarrow> [KeypointsCallback f (map to_Keypoints kept) uc])))
      \<and> (run mdl img \<noteq> MA_OK \<longrightarrow>
            \<not> success r \<and> keypoints st' = keypoints st \<and> filter is_result_callback evs = []))
 \<and> (getType mdl \<notin> {MA_MODEL_TYPE_PFLD, MA_MODEL_TYPE_IMCLS, MA_MODEL_TYPE_FOMO,
                       MA_MODEL_TYPE_YOLOV5, MA_MODEL_TYPE_YOLOV8, MA_MODEL_TYPE_NVIDIA_DET,
                       MA_MODEL_TYPE_YOLO_WORLD, MA_MODEL_TYPE_YOLOV8_POSE} \<longrightarrow>
      success r \<and> filter is_run evs = [] \<and> filter is_result_callback evs = []
    \<and> points st' = points st \<and> classes st' = classes st \<and> boxes st' = boxes st
    \<and> keypoints st' = keypoints st
    \<and> perf st' =
        \<lparr>preprocess = word_of_int (perf_preprocess (getPerf mdl)),
         inference = word_of_int (perf_inference (getPerf mdl)),
         postprocess = word_of_int (perf_postprocess (getPerf mdl))\<rparr>
    \<and> filter is_perf_callback evs =
        (case perf_callback st of
           None \<Rightarrow> []
         | Some f \<Rightarrow>
             [PerfCallback f
                \<lparr>preprocess = word_of_int (perf_preprocess (getPerf mdl)),
                 inference = word_of_int (perf_inference (getPerf mdl)),
                 postprocess = word_of_int (perf_postprocess (getPerf mdl))\<rparr> uc]))"
proof -
  from invoke_passes [OF assms(1), of cfg uc mem mdl] assms(2,3)
  have run: "invoke_run st img cfg uc mem mdl = (r, st', evs)" by auto
  have ps: "getType mdl = MA_MODEL_TYPE_PFLD \<longrightarrow>
      filter is_run evs = [Run img]
      \<and> classes st' = classes st \<and> boxes st' = boxes st \<and> keypoints st' = keypoints st
      \<and> (run mdl img = MA_OK \<longrightarrow>
            success r
          \<and> (\<exists>kept. extracted (invoke_config (config st')) mem pt_score (getPointResults mdl img) kept
                \<and> points st' = map to_Point kept
                \<and> filter is_result_callback evs =
                    (case points_callback st of
                       None \<Rightarrow> [] | Some f \<Rightarrow> [PointsCallback f (map to_Point kept) uc])))
      \<and> (run mdl img \<noteq> MA_OK \<longrightarrow>
            \<not> success r \<and> points st' = points st \<and> filter is_result_callback evs = [])"
  proof
    assume t: "getType mdl = MA_MODEL_TYPE_PFLD"
    from invoke_run_points [OF run invoke_switch_tag(1) [OF t]]
    show "filter is_run evs = [Run img]
      \<and> classes st' = classes st \<and> boxes st' = boxes st \<and> keypoints st' = keypoints st
      \<and> (run mdl img = MA_OK \<longrightarrow>
            success r
          \<and> (\<exists>kept. extracted (invoke_config (config st')) mem pt_score (getPointResults mdl img) kept
                \<and> points st' = map to_Point kept
                \<and> filter is_result_callback evs =
                    (case points_callback st of
                       None \<Rightarrow> [] | Some f \<Rightarrow> [PointsCallback f (map to_Point kept) uc])))
      \<and> (run mdl img \<noteq> MA_OK \<longrightarrow>
            \<not> success r \<and> points st' = points st \<and> filter is_result_callback evs = [])"
      by blast
  qed
  have cs: "getType mdl = MA_MODEL_TYPE_IMCLS \<longrightarrow>
      filter is_run evs = [Run img]
      \<and> points st' = points st \<and> boxes st' = boxes st \<and> keypoints st' = keypoints st
      \<and> (run mdl img = MA_OK \<longrightarrow>
            success r
          \<and> (\<exists>kept. extracted (invoke_config (config st')) mem cls_score (getClassResults mdl img) kept
                \<and> classes st' = map to_Class kept
                \<and> filter is_result_callback evs =
                    (case classes_callback st of
                       None \<Rightarrow> [] | Some f \<Rightarrow> [ClassesCallback f (map to_Class kept) uc])))
      \<and> (run mdl img \<noteq> MA_OK \<longrightarrow>
            \<not> success r \<and> classes st' = classes st \<and> filter is_result_callback evs = [])"
  proof
    assume t: "getType mdl = MA_MODEL_TYPE_IMCLS"
    from invoke_run_classes [OF run invoke_switch_tag(2) [OF t]]
    show "filter is_run evs = [Run img]
      \<and> points st' = points st \<and> boxes st' = boxes st \<and> keypoints st' = keypoints st
      \<and> (run mdl img = MA_OK \<longrightarrow>
            success r
          \<and> (\<exists>kept. extracted (invoke_config (config st')) mem cls_score (getClassResults mdl img) kept
                \<and> classes st' = map to_Class kept
                \<and> filter is_result_callback evs =
                    (case classes_callback st of
                       None \<Rightarrow> [] | Some f \<Rightarrow> [ClassesCallback f (map to_Class kept) uc])))
      \<and> (run mdl img \<noteq> MA_OK \<longrightarrow>
            \<not> success r \<and> classes st' = classes st \<and> filter is_result_callback evs = [])"
      by blast
  qed
  have bs: "getType mdl \<in> {MA_MODEL_TYPE_FOMO, MA_MODEL_TYPE_YOLOV5, MA_MODEL_TYPE_YOLOV8,
        MA_MODEL_TYPE_NVIDIA_DET, MA_MODEL_TYPE_YOLO_WORLD} \<longrightarrow>
      filter is_run evs = [Run img]
      \<and> points st' = points st \<and> classes st' = classes st \<and> keypoints st' = keypoints st
      \<and> (run mdl img = MA_OK \<longrightarrow>
            success r
          \<and> (\<exists>kept. extracted (invoke_config (config st')) mem bbox_score (getBoxResults mdl img) kept
                \<and> boxes st' = map to_Box kept
                \<and> filter is_result_callback evs =
                    (case boxes_callback st of
                       None \<Rightarrow> [] | Some f \<Rightarrow> [BoxesCallback f (map to_Box kept) uc])))
      \<and> (run mdl img \<noteq> MA_OK \<longrightarrow>
            \<not> success r \<and> boxes st' = boxes st \<and> filter is_result_callback evs = [])"
  proof
    assume t: "getType mdl \<in> {MA_MODEL_TYPE_FOMO, MA_MODEL_TYPE_YOLOV5, MA_MODEL_TYPE_YOLOV8,
        MA_MODEL_TYPE_NVIDIA_DET, MA_MODEL_TYPE_YOLO_WORLD}"
    from invoke_run_boxes [OF run invoke_switch_tag(3) [OF t]]
    show "filter is_run evs = [Run img]
      \<and> points st' = points st \<and> classes st' = classes st \<and> keypoints st' = keypoints st
      \<and> (run mdl img = MA_OK \<longrightarrow>
            success r
          \<and> (\<exists>kept. extracted (invoke_config (config st')) mem bbox_score (getBoxResults mdl img) kept
                \<and> boxes st' = map to_Box kept
                \<and> filter is_result_callback evs =
                    (case boxes_callback st of
                       None \<Rightarrow> [] | Some f \<Rightarrow> [BoxesCallback f (map to_Box kept) uc])))
      \<and> (run mdl img \<noteq> MA_OK \<longrightarrow>
            \<not> success r \<and> boxes st' = boxes st \<and> filter is_result_callback evs = [])"
      by blast
  qed
  have ks: "getType mdl = MA_MODEL_TYPE_YOLOV8_POSE \<longrightarrow>
      filter is_run evs = [Run img]
      \<and> points st' = points st \<and> classes st' = classes st \<and> boxes st' = boxes st
      \<and> (run mdl img = MA_OK \<longrightarrow>
            success r
          \<and> (\<exists>kept. extracted (invoke_config (config st')) mem (\<lambda>r. bbox_score (k3_box r)) (getKeypointResults mdl img) kept
                \<and> keypoints st' = map to_Keypoints kept
                \<and> filter is_result_callback evs =
                    (case keypoints_callback st of
                       None \<Rightarrow> [] | Some f \<Rightarrow> [KeypointsCallback f (map to_Keypoints kept) uc])))
      \<and> (run mdl img \<noteq> MA_OK \<longrightarrow>
            \<not> success r \<and> keypoints st' = keypoints st \<and> filter is_result_callback evs = [])"
  proof
    assume t: "getType mdl = MA_MODEL_TYPE_YOLOV8_POSE"
    from invoke_run_keypoints [OF run invoke_switch_tag(4) [OF t]]
    show "filter is_run evs = [Run img]
      \<and> points st' = points st \<and> classes st' = classes st \<and> boxes st' = boxes st
      \<and> (run mdl img = MA_OK \<longrightarrow>
            success r
          \<and> (\<exists>kept. extracted (invoke_config (config st')) mem (\<lambda>r. bbox_score (k3_box r)) (getKeypointResults mdl img) kept
                \<and> keypoints st' = map to_Keypoints kept
                \<and> filter is_result_callback evs =
                    (case keypoints_callback st of
                       None \<Rightarrow> [] | Some f \<Rightarrow> [KeypointsCallback f (map to_Keypoints kept) uc])))
      \<and> (run mdl img \<noteq> MA_OK \<longrightarrow>
            \<not> success r \<and> keypoints st' = keypoints st \<and> filter is_result_callback evs = [])"
      by blast
  qed
  have und: "getType mdl \<notin> {MA_MODEL_TYPE_PFLD, MA_MODEL_TYPE_IMCLS, MA_MODEL_TYPE_FOMO,
                       MA_MODEL_TYPE_YOLOV5, MA_MODEL_TYPE_YOLOV8, MA_MODEL_TYPE_NVIDIA_DET,
                       MA_MODEL_TYPE_YOLO_WORLD, MA_MODEL_TYPE_YOLOV8_POSE} \<longrightarrow>
      success r \<and> filter is_run evs = [] \<and> filter is_result_callback evs = []
    \<and> points st' = points st \<and> classes st' = classes st \<and> boxes st' = boxes st
    \<and> keypoints st' = keypoints st
    \<and> perf st' =
        \<lparr>preprocess = word_of_int (perf_preprocess (getPerf mdl)),
         inference = word_of_int (perf_inference (getPerf mdl)),
         postprocess = word_of_int (perf_postprocess (getPerf mdl))\<rparr>
    \<and> filter is_perf_callback evs =
        (case perf_callback st of
           None \<Rightarrow> []
         | Some f \<Rightarrow>
             [PerfCallback f
                \<lparr>preprocess = word_of_int (perf_preprocess (getPerf mdl)),
                 inference = word_of_int (perf_inference (getPerf mdl)),
                 postprocess = word_of_int (perf_postprocess (getPerf mdl))\<rparr> uc])"
  proof
    assume t: "getType mdl \<notin> {MA_MODEL_TYPE_PFLD, MA_MODEL_TYPE_IMCLS, MA_MODEL_TYPE_FOMO,
                       MA_MODEL_TYPE_YOLOV5, MA_MODEL_TYPE_YOLOV8, MA_MODEL_TYPE_NVIDIA_DET,
                       MA_MODEL_TYPE_YOLO_WORLD, MA_MODEL_TYPE_YOLOV8_POSE}"
    from invoke_run_default [OF run t]
    show "success r \<and> filter is_run evs = [] \<and> filter is_result_callback evs = []
    \<and> points st' = points st \<and> classes st' = classes st \<and> boxes st' = boxes st
    \<and> keypoints st' = keypoints st
    \<and> perf st' =
        \<lparr>preprocess = word_of_int (perf_preprocess (getPerf mdl)),
         inference = word_of_int (perf_inference (getPerf mdl)),
         postprocess = word_of_int (perf_postprocess (getPerf mdl))\<rparr>
    \<and> filter is_perf_callback evs =
        (case perf_callback st of
           None \<Rightarrow> []
         | Some f \<Rightarrow>
             [PerfCallback f
                \<lparr>preprocess = word_of_int (perf_preprocess (getPerf mdl)),
                 inference = word_of_int (perf_inference (getPerf mdl)),
                 postprocess = word_of_int (perf_postprocess (getPerf mdl))\<rparr> uc])"
      unfolding to_Perf_def by blast
  qed
  from ps cs bs ks und show ?thesis by blast
qed

theorem invoke_dispatch_witness:
  "accepted ex_core ex_frame
 \<and> filter is_run (snd (snd (invoke ex_core ex_frame None None ex_mem (ex_model MA_MODEL_TYPE_PFLD)))) =
     [Run \<lparr>img_width = 240, img_height = 240, img_format = MA_PIXEL_FORMAT_RGB565,
           img_rotate = MA_PIXEL_ROTATE_90, img_timestamp = 12345, img_size = 115200,
           img_data = Some 4096\<rparr>]
 \<and> points (fst (snd (invoke ex_core ex_frame None None ex_mem (ex_model MA_MODEL_TYPE_PFLD)))) =
     map to_Point [ex_point (1 / 2) 0, ex_point (9 / 10) 1, ex_point (1 / 4) 2]
 \<and> filter is_result_callback (snd (snd (invoke ex_core ex_frame None None ex_mem (ex_model MA_MODEL_TYPE_PFLD)))) =
     [PointsCallback 3
        (map to_Point [ex_point (1 / 2) 0, ex_point (9 / 10) 1, ex_point (1 / 4) 2]) None]
 \<and> classes (fst (snd (invoke ex_core ex_frame None None ex_mem (ex_model MA_MODEL_TYPE_PFLD)))) = []
 \<and> points (fst (snd (invoke ex_core ex_frame None None ex_mem (ex_model MA_MODEL_TYPE_IMCLS)))) = []
 \<and> keypoints (fst (snd (invoke ex_core ex_frame None None ex_mem (ex_model MA_MODEL_TYPE_FOMO)))) = []
 \<and> boxes (fst (snd (invoke ex_core ex_frame None None ex_mem (ex_model MA_MODEL_TYPE_YOLOV8_POSE)))) = []
 \<and> filter is_run
      (snd (snd (invoke ex_core ex_frame None None ex_mem (ex_model MA_MODEL_TYPE_UNDEFINED)))) = []
 \<and> perf (fst (snd (invoke ex_core ex_frame None None ex_mem (ex_model MA_MODEL_TYPE_UNDEFINED)))) =
     \<lparr>preprocess = 3, inference = 40, postprocess = 5\<rparr>"
proof -
  have col: "X = (fst X, fst (snd X), snd (snd X))" for X :: "Expected \<times> core \<times> event list"
    by simp
  note th = invoke_dispatch [OF ex_accepted(1) col ex_img]
  have c: "classes ex_core = []" "points ex_core = []" "keypoints ex_core = []" "boxes ex_core = []"
    "points_callback ex_core = Some 3"
    by (simp_all add: ex_core_fields)
  note pf = th [where cfg = None and uc = None and mem = ex_mem
                  and mdl = "ex_model MA_MODEL_TYPE_PFLD"]
  from pf obtain kept where
    k: "extracted None ex_mem pt_score
          [ex_point (1 / 2) 0, ex_point (9 / 10) 1, ex_point (1 / 4) 2] kept"
    and p: "points (fst (snd (invoke ex_core ex_frame None None ex_mem (ex_model MA_MODEL_TYPE_PFLD)))) = map to_Point kept"
    and e: "filter is_result_callback
      (snd (snd (invoke ex_core ex_frame None None ex_mem (ex_model MA_MODEL_TYPE_PFLD)))) =
      [PointsCallback 3 (map to_Point kept) None]"
    by (auto simp: ex_model_fields c ex_config_None)
  note kk = extracted_None [OF k]
  from pf have 1: "filter is_run (snd (snd (invoke ex_core ex_frame None None ex_mem (ex_model MA_MODEL_TYPE_PFLD)))) =
     [Run \<lparr>img_width = 240, img_height = 240, img_format = MA_PIXEL_FORMAT_RGB565,
           img_rotate = MA_PIXEL_ROTATE_90, img_timestamp = 12345, img_size = 115200,
           img_data = Some 4096\<rparr>]"
    and 2: "classes (fst (snd (invoke ex_core ex_frame None None ex_mem (ex_model MA_MODEL_TYPE_PFLD)))) = []"
    by (simp_all add: ex_model_fields c)
  from th [where cfg = None and uc = None and mem = ex_mem
             and mdl = "ex_model MA_MODEL_TYPE_IMCLS"]
  have 3: "points (fst (snd (invoke ex_core ex_frame None None ex_mem (ex_model MA_MODEL_TYPE_IMCLS)))) = []"
    by (simp add: ex_model_fields c)
  from th [where cfg = None and uc = None and mem = ex_mem
             and mdl = "ex_model MA_MODEL_TYPE_FOMO"]
  have 4: "keypoints (fst (snd (invoke ex_core ex_frame None None ex_mem (ex_model MA_MODEL_TYPE_FOMO)))) = []"
    by (simp add: ex_model_fields c)
  from th [where cfg = None and uc = None and mem = ex_mem
             and mdl = "ex_model MA_MODEL_TYPE_YOLOV8_POSE"]
  have 5: "boxes (fst (snd (invoke ex_core ex_frame None None ex_mem (ex_model MA_MODEL_TYPE_YOLOV8_POSE)))) = []"
    by (simp add: ex_model_fields c)
  from th [where cfg = None and uc = None and mem = ex_mem
             and mdl = "ex_model MA_MODEL_TYPE_UNDEFINED"]
  have 6: "filter is_run
      (snd (snd (invoke ex_core ex_frame None None ex_mem (ex_model MA_MODEL_TYPE_UNDEFINED)))) = []"
    and 7: "perf (fst (snd (invoke ex_core ex_frame None None ex_mem (ex_model MA_MODEL_TYPE_UNDEFINED)))) =
     \<lparr>preprocess = 3, inference = 40, postprocess = 5\<rparr>"
    by (simp_all add: ex_model_fields)
  from ex_accepted(1) 1 p e kk 2 3 4 5 6 7 show ?thesis by simp
qed

section \<open>The invoke configuration\<close>

lemma invoke_switch_events_kind:
  "e \<in> set (snd (invoke_switch t st img uc mem mdl)) \<Longrightarrow> is_run e \<or> is_result_callback e"
  by (cases t)
     (auto simp: invoke_points_def invoke_classes_def invoke_boxes_def invoke_keypoints_def Let_def
           split: ma_err_t.splits option.splits)

lemma invoke_switch_quiet:
  assumes "invoke_switch t st img uc mem mdl = (a, ev)"
  shows "filter is_set_config ev = [] \<and> (\<forall>i. ModelCreate i \<notin> set ev)"
proof -
  have "\<not> is_set_config e \<and> (\<forall>i. e \<noteq> ModelCreate i)" if "e \<in> set ev" for e
  proof -
    from that assms have "is_run e \<or> is_result_callback e"
      using invoke_switch_events_kind [of e t st img uc mem mdl] by simp
    then show ?thesis by (cases e) auto
  qed
  then show ?thesis by (auto simp: filter_empty_conv)
qed

lemma invoke_switch_config:
  "invoke_switch t st img uc mem mdl = (Inr st2, ev) \<Longrightarrow>
   config st2 = config st \<and> initialized st2 = initialized st"
  by (cases t)
     (auto dest!: invoke_points_Inr invoke_classes_Inr invoke_boxes_Inr invoke_keypoints_Inr)

text \<open>An accepted call: the configuration after it and the calls of \<open>setConfig\<close>.\<close>

lemma invoke_run_config:
  assumes "invoke_run st img cfg uc mem mdl = (r, st', evs)"
  shows "config st' = (config st)\<lparr>invoke_config :=
            (case cfg of None \<Rightarrow> invoke_config (config st) | Some p \<Rightarrow> Some p)\<rparr>
    \<and> initialized st' = initialized st
    \<and> (\<exists>rest. evs = (case cfg of None \<Rightarrow> [] | Some p \<Rightarrow> set_thresholds mem p) @ rest
          \<and> filter is_set_config rest = [] \<and> (\<forall>i. ModelCreate i \<notin> set rest))"
proof -
  let ?st1 = "fst (apply_invoke_config st cfg mem)"
  have c1: "config ?st1 = (config st)\<lparr>invoke_config :=
            (case cfg of None \<Rightarrow> invoke_config (config st) | Some p \<Rightarrow> Some p)\<rparr>"
    "initialized ?st1 = initialized st"
    by (simp_all add: apply_invoke_config_state)
  have e1: "snd (apply_invoke_config st cfg mem) =
     (case cfg of None \<Rightarrow> [] | Some p \<Rightarrow> set_thresholds mem p)"
    by (simp add: apply_invoke_config_events set_thresholds_def split: option.splits)
  note k = invoke_switch_quiet [of "getType mdl" ?st1 img uc mem mdl]
  from invoke_run_cases [OF assms] show ?thesis
  proof (elim disjE exE conjE)
    fix msg ev2
    assume sw: "invoke_switch (getType mdl) ?st1 img uc mem mdl = (Inl msg, ev2)"
      and "st' = ?st1" and "evs = snd (apply_invoke_config st cfg mem) @ ev2"
    with c1 e1 k [OF sw] show ?thesis by auto
  next
    fix st2 ev2
    assume sw: "invoke_switch (getType mdl) ?st1 img uc mem mdl = (Inr st2, ev2)"
      and st': "st' = st2\<lparr>perf := to_Perf (getPerf mdl)\<rparr>"
      and evs: "evs = snd (apply_invoke_config st cfg mem) @ ev2 @
                  (case perf_callback st2 of
                     None \<Rightarrow> [] | Some f \<Rightarrow> [PerfCallback f (to_Perf (getPerf mdl)) uc])"
    have "filter is_set_config (ev2 @ (case perf_callback st2 of
                     None \<Rightarrow> [] | Some f \<Rightarrow> [PerfCallback f (to_Perf (getPerf mdl)) uc])) = []
        \<and> (\<forall>i. ModelCreate i \<notin> set (ev2 @ (case perf_callback st2 of
                     None \<Rightarrow> [] | Some f \<Rightarrow> [PerfCallback f (to_Perf (getPerf mdl)) uc])))"
      using k [OF sw] by (auto split: option.splits)
    with c1 e1 invoke_switch_config [OF sw] st' evs show ?thesis by auto
  qed
qed

section \<open>The calls of \<open>begin\<close>\<close>

lemma begin_create_shape:
  assumes "begin_create st cfg mem pf = (r, st', evs)"
  shows "(success r \<and> initialized st' \<and> config st' = cfg
          \<and> ModelFactory_create pf (stored_id (config st)) \<noteq> None
          \<and> evs = ModelCreate (stored_id (config st)) #
                  (case invoke_config cfg of None \<Rightarrow> [] | Some p \<Rightarrow> set_thresholds mem p))
       \<or> (\<not> success r \<and> config st' = config st \<and> initialized st' = initialized st
          \<and> ModelFactory_create pf (stored_id (config st)) = None
          \<and> evs = [ModelCreate (stored_id (config st))])"
  using assms
  by (auto simp: begin_create_def Let_def stored_id_def set_thresholds_def failed_def succeeded_def
           split: option.splits)

lemma begin_load_shape:
  assumes "begin_load st cfg mem pf = (r, st', evs)" and "\<not> initialized st"
  shows "begin_ok st cfg mem pf r st' evs \<or> begin_failed st pf r st' evs"
proof (cases "if MA_PORTING_ESPRESSIF_PARTITIONS pf then esp_partition_find_first pf
            else Some \<lparr>address = 0x400000, part_size = 4096 * 1024\<rparr>")
  case None
  with assms show ?thesis
    by (auto simp: begin_load_def begin_failed_def failed_def)
next
  case (Some part)
  obtain e mmap where mm: "spi_flash_mmap pf (address part) (part_size part) = (e, mmap)"
    by (cases "spi_flash_mmap pf (address part) (part_size part)")
  let ?st1 = "st\<lparr>models := scan_models pf mmap (part_size part) 0 0 (models st)\<rparr>"
  show ?thesis
  proof (cases e)
    case (ESP_ERR n)
    with assms Some mm show ?thesis
      by (auto simp: begin_load_def begin_failed_def failed_def)
  next
    case ESP_OK
    show ?thesis
    proof (cases "select_model pf cfg (models ?st1)")
      case None
      with assms Some mm ESP_OK show ?thesis
        by (auto simp: begin_load_def begin_failed_def failed_def Let_def)
    next
      case (Some it)
      show ?thesis
      proof (cases "engine_load pf (m_addr it)")
        case (MA_ERR n)
        with assms \<open>_ = Some part\<close> mm ESP_OK Some show ?thesis
          by (auto simp: begin_load_def begin_failed_def failed_def Let_def)
      next
        case MA_OK
        obtain r1 st2 ev where bc: "begin_create ?st1 cfg mem pf = (r1, st2, ev)"
          by (cases "begin_create ?st1 cfg mem pf")
        with assms \<open>_ = Some part\<close> mm ESP_OK Some MA_OK have
          res: "r = r1" "st' = st2"
            "evs = [SpiFlashMmap (address part) (part_size part), EngineLoad (m_addr it)] @ ev"
          by (auto simp: begin_load_def Let_def)
        from begin_create_shape [OF bc] show ?thesis
        proof
          assume ok: "success r1 \<and> initialized st2 \<and> config st2 = cfg
            \<and> ModelFactory_create pf (stored_id (config ?st1)) \<noteq> None
            \<and> ev = ModelCreate (stored_id (config ?st1)) #
                  (case invoke_config cfg of None \<Rightarrow> [] | Some p \<Rightarrow> set_thresholds mem p)"
          then have "evs = [SpiFlashMmap (address part) (part_size part), EngineLoad (m_addr it)] @
            ModelCreate (stored_id (config st)) #
              (case invoke_config cfg of None \<Rightarrow> [] | Some p \<Rightarrow> set_thresholds mem p)"
            using res by simp
          with ok res assms(2) have "begin_ok st cfg mem pf r st' evs"
            unfolding begin_ok_def
            by (intro conjI exI [of _ "[SpiFlashMmap (address part) (part_size part),
                                        EngineLoad (m_addr it)]"]) simp_all
          then show ?thesis ..
        next
          assume "\<not> success r1 \<and> config st2 = config ?st1 \<and> initialized st2 = initialized ?st1
            \<and> ModelFactory_create pf (stored_id (config ?st1)) = None
            \<and> ev = [ModelCreate (stored_id (config ?st1))]"
          with res assms(2) have "begin_failed st pf r st' evs"
            by (simp add: begin_failed_def)
          then show ?thesis ..
        qed
      qed
    qed
  qed
qed

lemma begin_ok_Cons:
  assumes "begin_ok st cfg mem pf r st' evs" and "\<not> is_set_config e" and "\<And>i. e \<noteq> ModelCreate i"
    and "config st0 = config st" and "\<not> initialized st0"
  shows "begin_ok st0 cfg mem pf r st' (e # evs)"
proof -
  let ?tl = "ModelCreate (stored_id (config st)) #
               (case invoke_config cfg of None \<Rightarrow> [] | Some p \<Rightarrow> set_thresholds mem p)"
  from assms(1) obtain pre where
    pre: "evs = pre @ ?tl" "filter is_set_config pre = []" "\<forall>i. ModelCreate i \<notin> set pre"
    and rest: "success r" "initialized st'" "config st' = cfg"
      "ModelFactory_create pf (stored_id (config st)) \<noteq> None"
    unfolding begin_ok_def by blast
  have 1: "e # evs = (e # pre) @ ?tl" using pre(1) by simp
  have 2: "filter is_set_config (e # pre) = []" using pre(2) assms(2) by simp
  have 3: "\<forall>i. ModelCreate i \<notin> set (e # pre)" using pre(3) assms(3) by auto
  from 1 2 3 have "\<exists>pre'. e # evs = pre' @ ?tl \<and> filter is_set_config pre' = []
      \<and> (\<forall>i. ModelCreate i \<notin> set pre')"
    by blast
  with rest assms(4,5) show ?thesis
    unfolding begin_ok_def by simp
qed

lemma core_begin_shape:
  assumes "core_begin st cfg mem pf = (r, st', evs)"
  shows "begin_ok st cfg mem pf r st' evs \<or> begin_failed st pf r st' evs"
proof (cases "initialized st")
  case True
  with assms show ?thesis
    by (auto simp: core_begin_def begin_failed_def failed_def)
next
  case False
  show ?thesis
  proof (cases "engine_init pf")
    case (MA_ERR n)
    with assms False show ?thesis
      by (auto simp: core_begin_def begin_failed_def failed_def Let_def)
  next
    case MA_OK
    let ?st1 = "st\<lparr>ma_static_tensor_arena := True, ma_engine := True\<rparr>"
    show ?thesis
    proof (cases "MA_PORTING_ESPRESSIF_ESP32S3 pf")
      case False
      with assms \<open>\<not> initialized st\<close> MA_OK show ?thesis
        by (auto simp: core_begin_def begin_failed_def failed_def Let_def)
    next
      case True
      obtain r1 st2 ev where bl: "begin_load ?st1 cfg mem pf = (r1, st2, ev)"
        by (cases "begin_load ?st1 cfg mem pf")
      with assms \<open>\<not> initialized st\<close> MA_OK True have
        res: "r = r1" "st' = st2" "evs = EngineInit # ev"
        by (auto simp: core_begin_def Let_def)
      from \<open>\<not> initialized st\<close> have "\<not> initialized ?st1" by simp
      from begin_load_shape [OF bl this] show ?thesis
      proof
        assume "begin_ok ?st1 cfg mem pf r1 st2 ev"
        from begin_ok_Cons [OF this, of EngineInit st] \<open>\<not> initialized st\<close> res
        show ?thesis by simp
      next
        assume "begin_failed ?st1 pf r1 st2 ev"
        with res \<open>\<not> initialized st\<close> have "begin_failed st pf r st' evs"
          by (simp add: begin_failed_def)
        then show ?thesis ..
      qed
    qed
  qed
qed

lemma ex_scan:
  "scan_models ex_platform 1000000 8192 0 0 [] =
     [\<lparr>m_id = 1, m_type = MA_MODEL_TYPE_UNDEFINED, m_name = 1000000, m_addr = 1004096\<rparr>]"
  by (simp add: scan_models.simps ex_platform_def)

lemmas begin_defs =
  core_begin_def begin_load_def begin_create_def select_model_def ex_platform_def new_core_def
  ex_begun_def DefaultConfig_def failed_def succeeded_def Let_def


lemma ex_begin_config:
  "core_begin new_core (DefaultConfig\<lparr>invoke_config := Some 7\<rparr>) ex_mem ex_platform =
     (\<lparr>success = True, message = []\<rparr>,
      ex_begun\<lparr>config := DefaultConfig\<lparr>invoke_config := Some 7\<rparr>\<rparr>,
      [EngineInit, SpiFlashMmap 4194304 8192, EngineLoad 1004096, ModelCreate 0,
       SetConfig MA_MODEL_CFG_OPT_THRESHOLD (1 / 2), SetConfig MA_MODEL_CFG_OPT_NMS (1 / 4)])"
  using ex_scan by (simp add: begin_defs ex_mem_def)

lemma begin_again:
  "initialized st \<Longrightarrow>
   core_begin st cfg mem pf = (\<lparr>success = False, message = ''Already initialized''\<rparr>, st, [])"
  by (simp add: core_begin_def failed_def)

lemma ex_begin_again:
  "core_begin ex_begun cfg ex_mem ex_platform =
     (\<lparr>success = False, message = ''Already initialized''\<rparr>, ex_begun, [])"
  by (rule begin_again) (simp add: ex_begun_fields)

text \<open>
  C6, as stated, fails: an \<open>invoke\<close> with a non-null configuration on a frame whose format
  is none of the enumerators passes the five checks and returns at line 309, and a \<open>begin\<close>
  with a non-null \<open>invoke_config\<close> on an initialized instance returns at once; neither
  sets an option of the model.
\<close>

theorem thresholds_before_run_counterexample:
  "invoke ex_begun (ex_frame\<lparr>format := kOTHER 7\<rparr>) (Some 7) None ex_mem
     (ex_model MA_MODEL_TYPE_PFLD) =
     (\<lparr>success = False, message = ''Invalid frame format''\<rparr>, ex_begun, [])
 \<and> core_begin ex_begun (DefaultConfig\<lparr>invoke_config := Some 7\<rparr>) ex_mem ex_platform =
     (\<lparr>success = False, message = ''Already initialized''\<rparr>, ex_begun, [])"
  by (simp add: ex_begin_again invoke_def frame_to_img_def ex_begun_fields ex_frame_def failed_def)

text \<open>
  C6, amended: in an accepted \<open>invoke\<close>, one on an initialized instance and a frame that
  passes the five checks with one of the four formats, called with a non-null
  configuration, the first two calls made are \<open>setConfig\<close> of the score threshold and
  \<open>setConfig\<close> of the NMS threshold, with the values of that configuration, and they are
  the only calls of \<open>setConfig\<close>, so the run of the model comes after them; an \<open>invoke\<close>
  that is not accepted fails, makes no call and leaves the instance as it was.  A \<open>begin\<close>
  whose argument holds a non-null \<open>invoke_config\<close> and that succeeds ends with the
  creation of the model followed by the same two calls; a \<open>begin\<close> that fails, as every
  \<open>begin\<close> on an initialized instance does, has created no model and sets nothing.
\<close>

theorem thresholds_before_run:
  "(invoke st frame (Some p) uc mem mdl = (r, st', evs) \<longrightarrow>
      (accepted st frame \<longrightarrow>
         (\<exists>rest. evs = SetConfig MA_MODEL_CFG_OPT_THRESHOLD (score_threshold (mem p)) #
                       SetConfig MA_MODEL_CFG_OPT_NMS (nms_threshold (mem p)) # rest
               \<and> filter is_set_config rest = []))
    \<and> (\<not> accepted st frame \<longrightarrow> \<not> success r \<and> st' = st \<and> evs = []))
 \<and> (core_begin st0 cfg0 mem pf = (r0, st0', evs0) \<and> invoke_config cfg0 = Some p \<longrightarrow>
      (success r0 \<longrightarrow>
         (\<exists>pre i. evs0 = pre @ [ModelCreate i,
                                SetConfig MA_MODEL_CFG_OPT_THRESHOLD (score_threshold (mem p)),
                                SetConfig MA_MODEL_CFG_OPT_NMS (nms_threshold (mem p))]
               \<and> ModelFactory_create pf i \<noteq> None \<and> filter is_set_config pre = []))
    \<and> (\<not> success r0 \<longrightarrow>
         filter is_set_config evs0 = []
       \<and> (\<forall>i. ModelCreate i \<in> set evs0 \<longrightarrow> ModelFactory_create pf i = None))
    \<and> (initialized st0 \<longrightarrow> \<not> success r0))"
proof (intro conjI impI; (elim conjE)?)
  assume inv: "invoke st frame (Some p) uc mem mdl = (r, st', evs)" and p: "accepted st frame"
  from invoke_passes [OF p, of "Some p" uc mem mdl] inv obtain img where
    "invoke_run st img (Some p) uc mem mdl = (r, st', evs)" by auto
  from invoke_run_config [OF this]
  show "\<exists>rest. evs = SetConfig MA_MODEL_CFG_OPT_THRESHOLD (score_threshold (mem p)) #
                       SetConfig MA_MODEL_CFG_OPT_NMS (nms_threshold (mem p)) # rest
               \<and> filter is_set_config rest = []"
    by (auto simp: set_thresholds_def)
next
  assume "invoke st frame (Some p) uc mem mdl = (r, st', evs)" and "\<not> accepted st frame"
  with invoke_not_accepted [of st frame "Some p" uc mem mdl]
  show "\<not> success r" "st' = st" "evs = []" by simp_all
next
  assume b: "core_begin st0 cfg0 mem pf = (r0, st0', evs0)" and c: "invoke_config cfg0 = Some p"
    and s: "success r0"
  from core_begin_shape [OF b] s have "begin_ok st0 cfg0 mem pf r0 st0' evs0"
    by (auto simp: begin_failed_def)
  with c show "\<exists>pre i. evs0 = pre @ [ModelCreate i,
                                SetConfig MA_MODEL_CFG_OPT_THRESHOLD (score_threshold (mem p)),
                                SetConfig MA_MODEL_CFG_OPT_NMS (nms_threshold (mem p))]
               \<and> ModelFactory_create pf i \<noteq> None \<and> filter is_set_config pre = []"
    unfolding begin_ok_def set_thresholds_def by auto
next
  assume b: "core_begin st0 cfg0 mem pf = (r0, st0', evs0)" and s: "\<not> success r0"
  from core_begin_shape [OF b] s have "begin_failed st0 pf r0 st0' evs0"
    by (auto simp: begin_ok_def)
  then show "filter is_set_config evs0 = []"
    and "\<forall>i. ModelCreate i \<in> set evs0 \<longrightarrow> ModelFactory_create pf i = None"
    by (simp_all add: begin_failed_def)
next
  assume b: "core_begin st0 cfg0 mem pf = (r0, st0', evs0)" and i: "initialized st0"
  from begin_again [OF i, of cfg0 mem pf] b show "\<not> success r0" by auto
qed

theorem thresholds_before_run_witness:
  "accepted ex_core ex_frame
 \<and> (\<exists>rest. snd (snd (invoke ex_core ex_frame (Some 7) None ex_mem (ex_model MA_MODEL_TYPE_PFLD))) =
        SetConfig MA_MODEL_CFG_OPT_THRESHOLD (1 / 2) # SetConfig MA_MODEL_CFG_OPT_NMS (1 / 4) # rest
      \<and> filter is_set_config rest = [])
 \<and> \<not> accepted ex_core (ex_frame\<lparr>format := kOTHER 7\<rparr>)
 \<and> snd (snd (invoke ex_core (ex_frame\<lparr>format := kOTHER 7\<rparr>) (Some 7) None ex_mem
               (ex_model MA_MODEL_TYPE_PFLD))) = []
 \<and> (\<exists>pre i. [EngineInit, SpiFlashMmap 4194304 8192, EngineLoad 1004096, ModelCreate 0,
              SetConfig MA_MODEL_CFG_OPT_THRESHOLD (1 / 2), SetConfig MA_MODEL_CFG_OPT_NMS (1 / 4)] =
        pre @ [ModelCreate i, SetConfig MA_MODEL_CFG_OPT_THRESHOLD (1 / 2),
               SetConfig MA_MODEL_CFG_OPT_NMS (1 / 4)]
      \<and> ModelFactory_create ex_platform i \<noteq> None \<and> filter is_set_config pre = [])
 \<and> filter is_set_config
      (snd (snd (core_begin ex_core (DefaultConfig\<lparr>invoke_config := Some 7\<rparr>) ex_mem ex_platform))) = []"
proof -
  have p: "accepted ex_core ex_frame" "\<not> accepted ex_core (ex_frame\<lparr>format := kOTHER 7\<rparr>)"
    by (simp_all add: accepted_def known_format_def passes_checks_def ex_core_fields ex_frame_def)
  have col: "X = (fst X, fst (snd X), snd (snd X))" for X :: "Expected \<times> core \<times> event list"
    by simp
  have m: "score_threshold (ex_mem 7) = 1 / 2" "nms_threshold (ex_mem 7) = 1 / 4"
    by (simp_all add: ex_mem_def)
  have c: "invoke_config (DefaultConfig\<lparr>invoke_config := Some 7\<rparr>) = Some 7" by simp
  have f: "\<not> success (fst (core_begin ex_core (DefaultConfig\<lparr>invoke_config := Some 7\<rparr>) ex_mem
                               ex_platform))"
    by (simp add: core_begin_def ex_core_fields failed_def)
  note a = thresholds_before_run [where st = ex_core and frame = ex_frame and p = 7 and uc = None
      and mem = ex_mem and mdl = "ex_model MA_MODEL_TYPE_PFLD"
      and ?st0.0 = new_core
      and ?cfg0.0 = "DefaultConfig\<lparr>invoke_config := Some 7\<rparr>" and pf = ex_platform,
      THEN conjunct1, rule_format, OF col]
  note b = thresholds_before_run [where st = ex_core and frame = ex_frame and p = 7 and uc = None
      and mem = ex_mem and mdl = "ex_model MA_MODEL_TYPE_PFLD"
      and ?st0.0 = new_core
      and ?cfg0.0 = "DefaultConfig\<lparr>invoke_config := Some 7\<rparr>" and pf = ex_platform,
      THEN conjunct2, rule_format, OF conjI, OF ex_begin_config c]
  note d = thresholds_before_run [where st = ex_core and frame = "ex_frame\<lparr>format := kOTHER 7\<rparr>"
      and p = 7 and uc = None and mem = ex_mem and mdl = "ex_model MA_MODEL_TYPE_PFLD"
      and ?st0.0 = ex_core and ?cfg0.0 = "DefaultConfig\<lparr>invoke_config := Some 7\<rparr>"
      and pf = ex_platform, THEN conjunct1, rule_format, OF col]
  note e = thresholds_before_run [where st = ex_core and frame = "ex_frame\<lparr>format := kOTHER 7\<rparr>"
      and p = 7 and uc = None and mem = ex_mem and mdl = "ex_model MA_MODEL_TYPE_PFLD"
      and ?st0.0 = ex_core and ?cfg0.0 = "DefaultConfig\<lparr>invoke_config := Some 7\<rparr>"
      and pf = ex_platform, THEN conjunct2, rule_format, OF conjI, OF col c]
  from a [THEN conjunct1, rule_format, OF p(1)] have 1:
    "\<exists>rest. snd (snd (invoke ex_core ex_frame (Some 7) None ex_mem (ex_model MA_MODEL_TYPE_PFLD))) =
        SetConfig MA_MODEL_CFG_OPT_THRESHOLD (1 / 2) # SetConfig MA_MODEL_CFG_OPT_NMS (1 / 4) # rest
      \<and> filter is_set_config rest = []"
    by (simp add: m)
  from d [THEN conjunct2, rule_format, OF p(2)] have 2:
    "snd (snd (invoke ex_core (ex_frame\<lparr>format := kOTHER 7\<rparr>) (Some 7) None ex_mem
               (ex_model MA_MODEL_TYPE_PFLD))) = []"
    by simp
  from b [THEN conjunct1, rule_format] have 3:
    "\<exists>pre i. [EngineInit, SpiFlashMmap 4194304 8192, EngineLoad 1004096, ModelCreate 0,
              SetConfig MA_MODEL_CFG_OPT_THRESHOLD (1 / 2), SetConfig MA_MODEL_CFG_OPT_NMS (1 / 4)] =
        pre @ [ModelCreate i, SetConfig MA_MODEL_CFG_OPT_THRESHOLD (1 / 2),
               SetConfig MA_MODEL_CFG_OPT_NMS (1 / 4)]
      \<and> ModelFactory_create ex_platform i \<noteq> None \<and> filter is_set_config pre = []"
    by (simp add: m)
  from e [THEN conjunct2, THEN conjunct1, rule_format, OF f] have 4:
    "filter is_set_config
      (snd (snd (core_begin ex_core (DefaultConfig\<lparr>invoke_config := Some 7\<rparr>) ex_mem ex_platform))) = []"
    by simp
  from p 1 2 3 4 show ?thesis by blast
qed

section \<open>Sequences of calls\<close>

lemma invoke_config_effect:
  assumes "invoke st frame cfg uc mem mdl = (r, st', evs)"
  shows "initialized st' = initialized st \<and> model_id (config st') = model_id (config st)
    \<and> (\<forall>i. ModelCreate i \<notin> set evs)
    \<and> (cfg = None \<longrightarrow> config st' = config st \<and> filter is_set_config evs = [])"
proof (cases "accepted st frame")
  case False
  from invoke_not_accepted [OF this, of cfg uc mem mdl] assms show ?thesis by simp
next
  case True
  from invoke_passes [OF True, of cfg uc mem mdl] assms obtain img where
    "invoke_run st img cfg uc mem mdl = (r, st', evs)" by auto
  from invoke_run_config [OF this] show ?thesis
    by (auto simp: set_thresholds_def split: option.splits)
qed

lemma accepted_initialized:
  "initialized st' = initialized st \<Longrightarrow> accepted st' f = accepted st f"
  by (simp add: accepted_def passes_checks_def)

text \<open>
  On an initialized instance, calls of \<open>begin\<close>, of \<open>invoke\<close> without a configuration and of
  \<open>invoke\<close> that are not accepted leave the stored configuration alone.
\<close>

lemma run_calls_keeps_config:
  assumes "\<forall>c \<in> set cs. (\<exists>cfg pf. c = Begin cfg pf)
             \<or> (\<exists>f cfg u m. c = Invoke f cfg u m \<and> (cfg = None \<or> \<not> accepted st f))"
    and "initialized st" and "run_calls mem st cs = (st', evs)"
  shows "config st' = config st \<and> initialized st' \<and> filter is_set_config evs = []"
  using assms
proof (induction cs arbitrary: st st' evs)
  case Nil
  then show ?case by simp
next
  case (Cons c cs)
  from Cons.prems(1) consider (b) cfg pf where "c = Begin cfg pf"
    | (n) f u m where "c = Invoke f None u m"
    | (r) f cfg u m where "c = Invoke f cfg u m" "\<not> accepted st f"
    by auto
  then obtain st1 ev where
    step: "run_calls mem st (c # cs) = (fst (run_calls mem st1 cs), ev @ snd (run_calls mem st1 cs))"
    and 1: "config st1 = config st" "initialized st1 = initialized st" "filter is_set_config ev = []"
  proof cases
    case b
    from begin_again [OF Cons.prems(2), of cfg mem pf] b
    have "run_calls mem st (c # cs) = (fst (run_calls mem st cs), [] @ snd (run_calls mem st cs))"
      by (simp split: prod.splits)
    then show ?thesis using that [of st "[]"] by simp
  next
    case n
    obtain r st1 ev where i: "invoke st f None u mem m = (r, st1, ev)"
      by (cases "invoke st f None u mem m")
    with n have "run_calls mem st (c # cs) =
        (fst (run_calls mem st1 cs), ev @ snd (run_calls mem st1 cs))"
      by (simp split: prod.splits)
    with invoke_config_effect [OF i] show ?thesis using that [of st1 ev] by simp
  next
    case r
    from invoke_not_accepted [OF r(2), of cfg u mem m]
    obtain r0 where "invoke st f cfg u mem m = (r0, st, [])"
      by (cases "invoke st f cfg u mem m") simp
    with r(1) have "run_calls mem st (c # cs) =
        (fst (run_calls mem st cs), [] @ snd (run_calls mem st cs))"
      by (simp split: prod.splits)
    then show ?thesis using that [of st "[]"] by simp
  qed
  from step Cons.prems(3) have res: "st' = fst (run_calls mem st1 cs)"
    "evs = ev @ snd (run_calls mem st1 cs)" by simp_all
  have rc: "run_calls mem st1 cs = (fst (run_calls mem st1 cs), snd (run_calls mem st1 cs))"
    by simp
  have "\<forall>c \<in> set cs. (\<exists>cfg pf. c = Begin cfg pf)
             \<or> (\<exists>f cfg u m. c = Invoke f cfg u m \<and> (cfg = None \<or> \<not> accepted st1 f))"
    using Cons.prems(1) accepted_initialized [OF 1(2)] by simp
  from Cons.IH [OF this _ rc] 1 Cons.prems(2) res show ?case by simp
qed

text \<open>On an initialized instance no call creates a model or changes the stored \<open>model_id\<close>.\<close>

lemma run_calls_initialized:
  assumes "initialized st" and "run_calls mem st cs = (st', evs)"
  shows "initialized st' \<and> model_id (config st') = model_id (config st)
    \<and> (\<forall>i. ModelCreate i \<notin> set evs)"
  using assms
proof (induction cs arbitrary: st st' evs)
  case Nil
  then show ?case by simp
next
  case (Cons c cs)
  obtain st1 ev where
    step: "run_calls mem st (c # cs) = (fst (run_calls mem st1 cs), ev @ snd (run_calls mem st1 cs))"
    and 1: "initialized st1" "model_id (config st1) = model_id (config st)"
      "\<forall>i. ModelCreate i \<notin> set ev"
  proof (cases c)
    case (Begin cfg pf)
    from begin_again [OF Cons.prems(1), of cfg mem pf] Begin
    have "run_calls mem st (c # cs) = (fst (run_calls mem st cs), [] @ snd (run_calls mem st cs))"
      by (simp split: prod.splits)
    then show ?thesis using that [of st "[]"] Cons.prems(1) by simp
  next
    case (Invoke f cfg u m)
    obtain r st1 ev where i: "invoke st f cfg u mem m = (r, st1, ev)"
      by (cases "invoke st f cfg u mem m")
    with Invoke have "run_calls mem st (c # cs) =
        (fst (run_calls mem st1 cs), ev @ snd (run_calls mem st1 cs))"
      by (simp split: prod.splits)
    with invoke_config_effect [OF i] Cons.prems(1) show ?thesis using that [of st1 ev] by simp
  qed
  from step Cons.prems(2) have res: "st' = fst (run_calls mem st1 cs)"
    "evs = ev @ snd (run_calls mem st1 cs)" by simp_all
  have rc: "run_calls mem st1 cs = (fst (run_calls mem st1 cs), snd (run_calls mem st1 cs))"
    by simp
  from Cons.IH [OF 1(1) rc] 1 res show ?case by simp
qed




text \<open>
  C10, as stated, fails: an \<open>invoke\<close> with a non-null configuration on a frame without
  data returns before line 332 and leaves the stored pointer null.
\<close>

theorem invoke_config_counterexample:
  "invoke ex_begun (ex_frame\<lparr>data := None\<rparr>) (Some 7) None ex_mem (ex_model MA_MODEL_TYPE_PFLD) =
     (\<lparr>success = False, message = ''Invalid frame data''\<rparr>, ex_begun, [])
 \<and> invoke_config (config ex_begun) = None"
  by (simp add: invoke_def ex_begun_fields ex_frame_def failed_def DefaultConfig_def)

text \<open>
  C10, amended: an accepted \<open>invoke\<close>, one on an initialized instance and a frame that
  passes the five checks with one of the four formats, called with a non-null
  configuration stores the pointer passed and sets the two thresholds from it, whether
  the run of the model then succeeds or not.  The pointer stays, so the \<open>top_k\<close> behind it
  stays in effect, and \<open>setConfig\<close> is not called again, so the thresholds stay as set,
  through every later call of \<open>begin\<close>, of \<open>invoke\<close> without a configuration and of
  \<open>invoke\<close> that is not accepted, with or without a configuration; the next accepted
  \<open>invoke\<close> with a non-null configuration replaces the pointer.  An \<open>invoke\<close> that is not
  accepted never stores the pointer: it leaves the instance as it was and makes no call.
\<close>

theorem invoke_config_persists:
  assumes "accepted st frame" and "invoke st frame (Some p) uc mem mdl = (r, st1, ev1)"
    and "\<forall>c \<in> set cs. (\<exists>cfg pf. c = Begin cfg pf)
           \<or> (\<exists>f cfg u m. c = Invoke f cfg u m \<and> (cfg = None \<or> \<not> accepted st1 f))"
    and "run_calls mem st1 cs = (st2, ev2)"
  shows "invoke_config (config st1) = Some p
    \<and> filter is_set_config ev1 =
        [SetConfig MA_MODEL_CFG_OPT_THRESHOLD (score_threshold (mem p)),
         SetConfig MA_MODEL_CFG_OPT_NMS (nms_threshold (mem p))]
    \<and> invoke_config (config st2) = Some p
    \<and> top_k_active st2 mem = (top_k (mem p) > 0) \<and> stored_top_k st2 mem = top_k (mem p)
    \<and> filter is_set_config ev2 = []
    \<and> (accepted st2 f \<longrightarrow>
         invoke_config (config (fst (snd (invoke st2 f (Some q) u mem m)))) = Some q)
    \<and> (\<not> accepted s0 f0 \<longrightarrow>
         fst (snd (invoke s0 f0 cfg0 u0 mem m0)) = s0 \<and> snd (snd (invoke s0 f0 cfg0 u0 mem m0)) = []
       \<and> \<not> success (fst (invoke s0 f0 cfg0 u0 mem m0)))"
proof -
  from invoke_passes [OF assms(1), of "Some p" uc mem mdl] assms(2) obtain img where
    "invoke_run st img (Some p) uc mem mdl = (r, st1, ev1)" by auto
  from invoke_run_config [OF this] assms(1) have
    1: "invoke_config (config st1) = Some p"
    and 2: "filter is_set_config ev1 =
        [SetConfig MA_MODEL_CFG_OPT_THRESHOLD (score_threshold (mem p)),
         SetConfig MA_MODEL_CFG_OPT_NMS (nms_threshold (mem p))]"
    and i: "initialized st1"
    by (auto simp: set_thresholds_def accepted_def passes_checks_def)
  from run_calls_keeps_config [OF assms(3) i assms(4)] 1 have
    3: "invoke_config (config st2) = Some p" and 4: "filter is_set_config ev2 = []"
    by simp_all
  from 3 have 5: "top_k_active st2 mem = (top_k (mem p) > 0)" "stored_top_k st2 mem = top_k (mem p)"
    by (simp_all add: top_k_active_def stored_top_k_def)
  have 6: "invoke_config (config (fst (snd (invoke st2 f (Some q) u mem m)))) = Some q"
    if "accepted st2 f"
  proof -
    from invoke_passes [OF that, of "Some q" u mem m] obtain img' where
      "invoke st2 f (Some q) u mem m = invoke_run st2 img' (Some q) u mem m" by auto
    moreover obtain r' s' e' where "invoke_run st2 img' (Some q) u mem m = (r', s', e')"
      by (cases "invoke_run st2 img' (Some q) u mem m")
    ultimately show ?thesis using invoke_run_config [of st2 img' "Some q" u mem m r' s' e']
      by simp
  qed
  have 7: "fst (snd (invoke s0 f0 cfg0 u0 mem m0)) = s0 \<and> snd (snd (invoke s0 f0 cfg0 u0 mem m0)) = []
       \<and> \<not> success (fst (invoke s0 f0 cfg0 u0 mem m0))"
    if "\<not> accepted s0 f0"
    using invoke_not_accepted [OF that, of cfg0 u0 mem m0] by simp
  from 1 2 3 4 5 6 7 show ?thesis by blast
qed

theorem invoke_config_persists_witness:
  "accepted ex_begun ex_frame
 \<and> invoke_config (config (fst (snd (invoke ex_begun ex_frame (Some 7) None ex_mem
                                        (ex_model MA_MODEL_TYPE_PFLD))))) = Some 7
 \<and> invoke_config (config (fst (run_calls ex_mem
        (fst (snd (invoke ex_begun ex_frame (Some 7) None ex_mem (ex_model MA_MODEL_TYPE_PFLD))))
        [Invoke ex_frame None None (ex_model MA_MODEL_TYPE_IMCLS),
         Invoke (ex_frame\<lparr>data := None\<rparr>) (Some 8) None (ex_model MA_MODEL_TYPE_PFLD),
         Invoke (ex_frame\<lparr>format := kOTHER 7\<rparr>) (Some 8) None (ex_model MA_MODEL_TYPE_PFLD),
         Begin (DefaultConfig\<lparr>invoke_config := Some 8\<rparr>) ex_platform]))) = Some 7
 \<and> stored_top_k (fst (run_calls ex_mem
        (fst (snd (invoke ex_begun ex_frame (Some 7) None ex_mem (ex_model MA_MODEL_TYPE_PFLD))))
        [Invoke ex_frame None None (ex_model MA_MODEL_TYPE_IMCLS),
         Invoke (ex_frame\<lparr>data := None\<rparr>) (Some 8) None (ex_model MA_MODEL_TYPE_PFLD),
         Invoke (ex_frame\<lparr>format := kOTHER 7\<rparr>) (Some 8) None (ex_model MA_MODEL_TYPE_PFLD),
         Begin (DefaultConfig\<lparr>invoke_config := Some 8\<rparr>) ex_platform])) ex_mem = 2
 \<and> invoke_config (config (fst (snd (invoke
        (fst (run_calls ex_mem
           (fst (snd (invoke ex_begun ex_frame (Some 7) None ex_mem (ex_model MA_MODEL_TYPE_PFLD))))
           [Invoke ex_frame None None (ex_model MA_MODEL_TYPE_IMCLS),
            Invoke (ex_frame\<lparr>data := None\<rparr>) (Some 8) None (ex_model MA_MODEL_TYPE_PFLD),
            Invoke (ex_frame\<lparr>format := kOTHER 7\<rparr>) (Some 8) None (ex_model MA_MODEL_TYPE_PFLD),
            Begin (DefaultConfig\<lparr>invoke_config := Some 8\<rparr>) ex_platform]))
        ex_frame (Some 8) None ex_mem (ex_model MA_MODEL_TYPE_PFLD))))) = Some 8
 \<and> \<not> accepted new_core ex_frame
 \<and> fst (snd (invoke new_core ex_frame (Some 7) None ex_mem (ex_model MA_MODEL_TYPE_PFLD))) = new_core"
proof -
  let ?st1 = "fst (snd (invoke ex_begun ex_frame (Some 7) None ex_mem (ex_model MA_MODEL_TYPE_PFLD)))"
  let ?cs = "[Invoke ex_frame None None (ex_model MA_MODEL_TYPE_IMCLS),
         Invoke (ex_frame\<lparr>data := None\<rparr>) (Some 8) None (ex_model MA_MODEL_TYPE_PFLD),
         Invoke (ex_frame\<lparr>format := kOTHER 7\<rparr>) (Some 8) None (ex_model MA_MODEL_TYPE_PFLD),
         Begin (DefaultConfig\<lparr>invoke_config := Some 8\<rparr>) ex_platform]"
  let ?st2 = "fst (run_calls ex_mem ?st1 ?cs)"
  have col: "X = (fst X, fst (snd X), snd (snd X))" for X :: "Expected \<times> core \<times> event list"
    by simp
  have col2: "Y = (fst Y, snd Y)" for Y :: "core \<times> event list"
    by simp
  have na: "\<not> accepted s (ex_frame\<lparr>data := None\<rparr>)" "\<not> accepted s (ex_frame\<lparr>format := kOTHER 7\<rparr>)"
    for s
    by (simp_all add: accepted_def passes_checks_def known_format_def ex_frame_def)
  have cs: "\<forall>c \<in> set ?cs. (\<exists>cfg pf. c = Begin cfg pf)
           \<or> (\<exists>f cfg u m. c = Invoke f cfg u m \<and> (cfg = None \<or> \<not> accepted ?st1 f))"
    using na by simp
  have i1: "initialized ?st1"
    using invoke_config_effect [OF col, of ex_begun ex_frame "Some 7" None ex_mem
        "ex_model MA_MODEL_TYPE_PFLD"]
    by (simp add: ex_begun_fields)
  have i2: "initialized ?st2"
    using run_calls_initialized [OF i1 col2, of ex_mem ?cs] by simp
  have p2: "accepted ?st2 ex_frame"
    using i2 ex_accepted(2) by (simp add: accepted_def passes_checks_def)
  have n0: "\<not> accepted new_core ex_frame"
    by (simp add: accepted_def passes_checks_def new_core_def)
  have k: "top_k (ex_mem 7) = 2" by (simp add: ex_mem_def)
  from invoke_config_persists [OF ex_accepted(2) col cs col2, where f = ex_frame and q = 8
      and u = None and m = "ex_model MA_MODEL_TYPE_PFLD" and ?s0.0 = new_core
      and ?f0.0 = ex_frame and ?cfg0.0 = "Some 7" and ?u0.0 = None
      and ?m0.0 = "ex_model MA_MODEL_TYPE_PFLD"] p2 k n0 ex_accepted(2)
  show ?thesis by simp
qed

section \<open>Frames from the camera\<close>

text \<open>
  C7: for a non-null camera frame with a non-null buffer, \<open>fromCameraFrame\<close> returns a
  frame whose format is \<open>kRGB888\<close>, \<open>kRGB565\<close>, \<open>kGRAY8\<close> or \<open>kJPEG\<close> for the camera
  formats \<open>RGB888\<close>, \<open>RGB565\<close>, \<open>GRAYSCALE\<close> or \<open>JPEG\<close> and \<open>kUNKNOWN\<close> for every other
  one, whose width, height and size are those of the camera frame assigned to the 16-bit
  and 32-bit members (the same numbers whenever they fit), whose data and timestamp are
  those of the camera frame, and whose orientation is 0.
\<close>

theorem fromCameraFrame_fields:
  assumes "fb_buf fb \<noteq> None"
  shows "(fb_format fb = PIXFORMAT_RGB888 \<longrightarrow> format (fromCameraFrame uninit (Some fb)) = kRGB888)
    \<and> (fb_format fb = PIXFORMAT_RGB565 \<longrightarrow> format (fromCameraFrame uninit (Some fb)) = kRGB565)
    \<and> (fb_format fb = PIXFORMAT_GRAYSCALE \<longrightarrow> format (fromCameraFrame uninit (Some fb)) = kGRAY8)
    \<and> (fb_format fb = PIXFORMAT_JPEG \<longrightarrow> format (fromCameraFrame uninit (Some fb)) = kJPEG)
    \<and> (fb_format fb \<notin> {PIXFORMAT_RGB888, PIXFORMAT_RGB565, PIXFORMAT_GRAYSCALE, PIXFORMAT_JPEG}
         \<longrightarrow> format (fromCameraFrame uninit (Some fb)) = kUNKNOWN)
    \<and> width (fromCameraFrame uninit (Some fb)) = of_nat (fb_width fb)
    \<and> height (fromCameraFrame uninit (Some fb)) = of_nat (fb_height fb)
    \<and> frame_size (fromCameraFrame uninit (Some fb)) = of_nat (fb_len fb)
    \<and> (fb_width fb < 2 ^ 16 \<longrightarrow> unat (width (fromCameraFrame uninit (Some fb))) = fb_width fb)
    \<and> (fb_height fb < 2 ^ 16 \<longrightarrow> unat (height (fromCameraFrame uninit (Some fb))) = fb_height fb)
    \<and> (fb_len fb < 2 ^ 32 \<longrightarrow> unat (frame_size (fromCameraFrame uninit (Some fb))) = fb_len fb)
    \<and> data (fromCameraFrame uninit (Some fb)) = fb_buf fb
    \<and> timestamp (fromCameraFrame uninit (Some fb)) = fb_timestamp fb
    \<and> orientation (fromCameraFrame uninit (Some fb)) = 0"
  using assms
  by (cases "fb_format fb") (auto simp: fromCameraFrame_def unat_of_nat)

theorem fromCameraFrame_fields_witness:
  "fb_buf ex_fb \<noteq> None \<and> fromCameraFrame ex_frame (Some ex_fb) =
     \<lparr>format = kRGB565, width = 240, height = 240, orientation = 0,
      timestamp = \<lparr>tv_sec = 12, tv_usec = 345678\<rparr>, frame_size = 115200, data = Some 4096\<rparr>"
proof -
  have b: "fb_buf ex_fb \<noteq> None" by (simp add: ex_fb_def)
  let ?f = "fromCameraFrame ex_frame (Some ex_fb)"
  have "?f = \<lparr>format = format ?f, width = width ?f, height = height ?f,
     orientation = orientation ?f, timestamp = timestamp ?f, frame_size = frame_size ?f, data = data ?f\<rparr>"
    by simp
  with fromCameraFrame_fields [OF b, of ex_frame] b show ?thesis
    by (simp add: ex_fb_def)
qed

end
